theory Spec2Isabelle
  imports Complex_Main "HOL-Library.AList"
begin

section \<open>Python values\<close>

text \<open>
  Exceptions of the Python source are values: a function that can raise returns
  \<open>py_error + 'a\<close>, and a method that can raise after it has already mutated the
  object returns \<open>py_error option \<times> state\<close> (the state as the exception leaves it).
\<close>

datatype py_error =
    ValueError string
  | KeyError string
  | AttributeError string
  | IndexError
  | TypeError
  | OSError string

text \<open>
  A two-dimensional numpy array: its column count (\<open>shape[1]\<close>, which an array
  with no rows still has) and its rows.
\<close>

datatype 'a ndarray = NdArray (n_cols: nat) (rows: "'a list list")

text \<open>
  A pandas data frame: named columns. Every cell is a number (a Python int or float),
  modelled as a real; identifiers held as strings are outside the model.
  The columns of one frame have one length.
\<close>

type_synonym frame = "(string \<times> real list) list"

definition columns :: "frame \<Rightarrow> string list" where
  "columns data = map fst data"

text \<open>\<open>data[col]\<close> raises KeyError, \<open>data.col\<close> AttributeError, on a missing column.\<close>

definition getitem :: "frame \<Rightarrow> string \<Rightarrow> py_error + real list" where
  "getitem data col = (case map_of data col of None \<Rightarrow> Inl (KeyError col) | Some xs \<Rightarrow> Inr xs)"

definition getattr :: "frame \<Rightarrow> string \<Rightarrow> py_error + real list" where
  "getattr data col = (case map_of data col of None \<Rightarrow> Inl (AttributeError col) | Some xs \<Rightarrow> Inr xs)"

text \<open>\<open>arr[i]\<close> on an optional one-dimensional array: TypeError on None, IndexError out of range.\<close>

definition index_arr :: "'a list option \<Rightarrow> nat \<Rightarrow> py_error + 'a" where
  "index_arr arr i =
     (case arr of None \<Rightarrow> Inl TypeError
      | Some xs \<Rightarrow> if i < length xs then Inr (xs ! i) else Inl IndexError)"

text \<open>\<open>arr[idx]\<close> with a list of positions: every position is checked before anything is read.\<close>

definition take_arr :: "'a list option \<Rightarrow> nat list \<Rightarrow> py_error + 'a list" where
  "take_arr arr idx =
     (case arr of None \<Rightarrow> Inl TypeError
      | Some xs \<Rightarrow> if list_all (\<lambda>i. i < length xs) idx then Inr (map (\<lambda>i. xs ! i) idx)
                  else Inl IndexError)"

text \<open>
  \<open>dict(zip(vals, range(n)))\<close>: a later pair overwrites an earlier one with the same
  key, so a value that occurs twice is mapped to its last position.
\<close>

definition dict_zip :: "'a list \<Rightarrow> nat \<Rightarrow> ('a \<rightharpoonup> nat)" where
  "dict_zip vals n = map_of (rev (zip vals [0..<n]))"

text \<open>
  \<open>np.setdiff1d(ar1, ar2)\<close>: the unique values of \<open>ar1\<close>, sorted ascending, that
  are not in \<open>ar2\<close>.
\<close>

definition setdiff1d :: "'a::linorder list \<Rightarrow> 'a list \<Rightarrow> 'a list" where
  "setdiff1d ar1 ar2 = filter (\<lambda>x. x \<notin> set ar2) (sort (remdups ar1))"

text \<open>
  \<open>np.zeros([k, c])\<close>, \<open>arr[:-1]\<close>, and \<open>np.vstack([arr, v])\<close> with a
  one-dimensional \<open>v\<close>, which becomes one more row when its length is the width.
\<close>

definition np_zeros :: "nat \<Rightarrow> nat \<Rightarrow> 'a::zero ndarray" where
  "np_zeros k c = NdArray c (replicate k (replicate c 0))"

definition drop_last :: "'a ndarray \<Rightarrow> 'a ndarray" where
  "drop_last m = NdArray (n_cols m) (butlast (rows m))"

definition vstack_row :: "'a ndarray \<Rightarrow> 'a list \<Rightarrow> py_error + 'a ndarray" where
  "vstack_row a v =
     (if length v = n_cols a then Inr (NdArray (n_cols a) (rows a @ [v]))
      else Inl (ValueError ''all the input array dimensions must match''))"

text \<open>
  \<open>np.mean(arr, axis=0)\<close>: the mean of every column. With no rows numpy yields nan;
  on the reals the quotient by zero is 0.
\<close>

definition np_mean_axis0 :: "real ndarray \<Rightarrow> real list" where
  "np_mean_axis0 m =
     map (\<lambda>j. (\<Sum>r\<leftarrow>rows m. r ! j) / real (length (rows m))) [0..<n_cols m]"

section \<open>DataInfo\<close>

datatype Feature = Feature (name: "string list") (index: "nat list")

definition EmptyFeature :: Feature where
  "EmptyFeature = Feature [] []"

record MultiSparseInfo =
  field_offset :: "int list"
  field_len :: "int list"
  feat_oov :: "int list"

text \<open>
  \<open>col_name_mapping\<close>: for every column family a dictionary from column name to
  index (empty when the family has no column); the entry \<open>multi_sparse\<close>, from a
  column to the main column of its field, exists only with multi-sparse fields.
\<close>

record name_mapping =
  sparse_col_map :: "(string \<times> nat) list"
  dense_col_map :: "(string \<times> nat) list"
  user_sparse_col_map :: "(string \<times> nat) list"
  user_dense_col_map :: "(string \<times> nat) list"
  item_sparse_col_map :: "(string \<times> nat) list"
  item_dense_col_map :: "(string \<times> nat) list"
  multi_sparse_map :: "(string \<times> string) list option"

text \<open>
  The constructor's arguments, which are also what \<open>all_args\<close> holds and \<open>save\<close>
  reads. None stands for a key that is absent or holds None (\<open>save\<close> skips both);
  for \<open>col_name_mapping\<close>, the outer None is the absent key.
\<close>

record args =
  arg_col_name_mapping :: "name_mapping option option"
  arg_interaction_data :: "(real \<times> real \<times> real) list option"
  arg_user_sparse_unique :: "int ndarray option"
  arg_user_dense_unique :: "real ndarray option"
  arg_item_sparse_unique :: "int ndarray option"
  arg_item_dense_unique :: "real ndarray option"
  arg_user_indices :: "nat list option"
  arg_item_indices :: "nat list option"
  arg_user_unique_vals :: "real list option"
  arg_item_unique_vals :: "real list option"
  arg_sparse_unique_vals :: "(string \<times> real list) list option"
  arg_sparse_offset :: "int list option"
  arg_sparse_oov :: "int list option"
  arg_multi_sparse_unique_vals :: "(string \<times> real list) list option"
  arg_multi_sparse_combine_info :: "MultiSparseInfo option"

text \<open>
  The object. The fields \<open>cached_*\<close> are the private \<open>_n_users\<close>, \<open>_user2id\<close>, ...
  behind the lazily computed properties. A flag \<open>*_shared\<close> says that the entry of
  \<open>all_args\<close> is the very array the field holds, so that a write into the array
  shows in both; rebinding the field to a new array ends the sharing. The dictionaries
  \<open>sparse_unique_vals\<close> and \<open>multi_sparse_unique_vals\<close> are never rebound: the
  entry of \<open>all_args\<close> is always the dictionary the field holds. \<open>np_rng\<close> is the
  random generator of the object, in the state it is in: the draws it will give, in
  order.
\<close>

record data_info =
  col_name_mapping :: "name_mapping option"
  interaction_data :: "(real \<times> real \<times> real) list option"
  user_sparse_unique :: "int ndarray option"
  user_dense_unique :: "real ndarray option"
  item_sparse_unique :: "int ndarray option"
  item_dense_unique :: "real ndarray option"
  user_consumed :: "nat \<rightharpoonup> nat list"
  item_consumed :: "nat \<rightharpoonup> nat list"
  user_unique_vals :: "real list"
  item_unique_vals :: "real list"
  sparse_unique_vals :: "(string \<times> real list) list option"
  sparse_unique_idxs :: "(string \<times> (real \<rightharpoonup> nat)) list option"
  sparse_offset :: "int list option"
  sparse_oov :: "int list option"
  multi_sparse_unique_vals :: "(string \<times> real list) list option"
  multi_sparse_unique_idxs :: "(string \<times> (real \<rightharpoonup> nat)) list option"
  multi_sparse_combine_info :: "MultiSparseInfo option"
  np_rng :: "nat list"
  cached_n_users :: "nat option"
  cached_n_items :: "nat option"
  cached_user2id :: "(real \<rightharpoonup> nat) option"
  cached_item2id :: "(real \<rightharpoonup> nat) option"
  cached_id2user :: "(nat \<rightharpoonup> real) option"
  cached_id2item :: "(nat \<rightharpoonup> real) option"
  cached_data_size :: "nat option"
  popular_items :: "real list option"
  old_n_users :: "nat option"
  old_n_items :: "nat option"
  old_sparse_len :: "int list option"
  old_sparse_oov :: "int list option"
  old_sparse_offset :: "int list option"
  all_args :: args
  user_sparse_shared :: bool
  user_dense_shared :: bool
  item_sparse_shared :: bool
  item_dense_shared :: bool

subsection \<open>Properties\<close>

definition feature_of :: "(string \<times> nat) list \<Rightarrow> Feature" where
  "feature_of m = (if m = [] then EmptyFeature else Feature (map fst m) (map snd m))"

definition sparse_col :: "data_info \<Rightarrow> Feature" where
  "sparse_col d =
     (case col_name_mapping d of None \<Rightarrow> EmptyFeature | Some m \<Rightarrow> feature_of (sparse_col_map m))"

definition dense_col :: "data_info \<Rightarrow> Feature" where
  "dense_col d =
     (case col_name_mapping d of None \<Rightarrow> EmptyFeature | Some m \<Rightarrow> feature_of (dense_col_map m))"

definition user_sparse_col :: "data_info \<Rightarrow> Feature" where
  "user_sparse_col d =
     (case col_name_mapping d of None \<Rightarrow> EmptyFeature
      | Some m \<Rightarrow> feature_of (user_sparse_col_map m))"

definition user_dense_col :: "data_info \<Rightarrow> Feature" where
  "user_dense_col d =
     (case col_name_mapping d of None \<Rightarrow> EmptyFeature
      | Some m \<Rightarrow> feature_of (user_dense_col_map m))"

definition item_sparse_col :: "data_info \<Rightarrow> Feature" where
  "item_sparse_col d =
     (case col_name_mapping d of None \<Rightarrow> EmptyFeature
      | Some m \<Rightarrow> feature_of (item_sparse_col_map m))"

definition item_dense_col :: "data_info \<Rightarrow> Feature" where
  "item_dense_col d =
     (case col_name_mapping d of None \<Rightarrow> EmptyFeature
      | Some m \<Rightarrow> feature_of (item_dense_col_map m))"

text \<open>
  A cached property is read in two parts: the value it returns, and the object with the
  cache filled (\<open>read_*\<close>).
\<close>

definition n_users :: "data_info \<Rightarrow> nat" where
  "n_users d = (case cached_n_users d of None \<Rightarrow> length (user_unique_vals d) | Some n \<Rightarrow> n)"

definition read_n_users :: "data_info \<Rightarrow> data_info" where
  "read_n_users d = d\<lparr>cached_n_users := Some (n_users d)\<rparr>"

definition n_items :: "data_info \<Rightarrow> nat" where
  "n_items d = (case cached_n_items d of None \<Rightarrow> length (item_unique_vals d) | Some n \<Rightarrow> n)"

definition read_n_items :: "data_info \<Rightarrow> data_info" where
  "read_n_items d = d\<lparr>cached_n_items := Some (n_items d)\<rparr>"

definition user2id :: "data_info \<Rightarrow> (real \<rightharpoonup> nat)" where
  "user2id d =
     (case cached_user2id d of None \<Rightarrow> dict_zip (user_unique_vals d) (n_users d) | Some m \<Rightarrow> m)"

definition read_user2id :: "data_info \<Rightarrow> data_info" where
  "read_user2id d =
     (case cached_user2id d of None \<Rightarrow> (read_n_users d)\<lparr>cached_user2id := Some (user2id d)\<rparr>
      | Some m \<Rightarrow> d)"

definition item2id :: "data_info \<Rightarrow> (real \<rightharpoonup> nat)" where
  "item2id d =
     (case cached_item2id d of None \<Rightarrow> dict_zip (item_unique_vals d) (n_items d) | Some m \<Rightarrow> m)"

definition read_item2id :: "data_info \<Rightarrow> data_info" where
  "read_item2id d =
     (case cached_item2id d of None \<Rightarrow> (read_n_items d)\<lparr>cached_item2id := Some (item2id d)\<rparr>
      | Some m \<Rightarrow> d)"

text \<open>
  \<open>{j: user for user, j in self.user2id.items()}\<close>: the inner id \<open>j\<close> is a key when
  the identifier at position \<open>j\<close> is mapped to \<open>j\<close>.
\<close>

definition id2user :: "data_info \<Rightarrow> (nat \<rightharpoonup> real)" where
  "id2user d =
     (case cached_id2user d of
        None \<Rightarrow> (\<lambda>j. if j < length (user_unique_vals d) \<and>
                         user2id d (user_unique_vals d ! j) = Some j
                      then Some (user_unique_vals d ! j) else None)
      | Some m \<Rightarrow> m)"

definition read_id2user :: "data_info \<Rightarrow> data_info" where
  "read_id2user d =
     (case cached_id2user d of None \<Rightarrow> (read_user2id d)\<lparr>cached_id2user := Some (id2user d)\<rparr>
      | Some m \<Rightarrow> d)"

definition id2item :: "data_info \<Rightarrow> (nat \<rightharpoonup> real)" where
  "id2item d =
     (case cached_id2item d of
        None \<Rightarrow> (\<lambda>j. if j < length (item_unique_vals d) \<and>
                         item2id d (item_unique_vals d ! j) = Some j
                      then Some (item_unique_vals d ! j) else None)
      | Some m \<Rightarrow> m)"

definition read_id2item :: "data_info \<Rightarrow> data_info" where
  "read_id2item d =
     (case cached_id2item d of None \<Rightarrow> (read_item2id d)\<lparr>cached_id2item := Some (id2item d)\<rparr>
      | Some m \<Rightarrow> d)"

definition reset_property :: "data_info \<Rightarrow> data_info" where
  "reset_property d =
     d\<lparr>cached_n_users := None, cached_n_items := None, cached_user2id := None,
       cached_item2id := None, cached_id2user := None, cached_id2item := None,
       cached_data_size := None\<rparr>"

subsection \<open>Remembering the old sizes\<close>

definition has_key :: "(string \<times> 'a) list option \<Rightarrow> string \<Rightarrow> bool" where
  "has_key dict col = (case dict of None \<Rightarrow> False | Some al \<Rightarrow> map_of al col \<noteq> None)"

definition dict_len :: "(string \<times> 'a list) list option \<Rightarrow> string \<Rightarrow> int" where
  "dict_len dict col =
     (case dict of None \<Rightarrow> 0
      | Some al \<Rightarrow> (case map_of al col of None \<Rightarrow> 0 | Some vals \<Rightarrow> int (length vals)))"

text \<open>\<open>xs.index(x)\<close>: the first position of \<open>x\<close>, or ValueError.\<close>

fun list_index :: "'a list \<Rightarrow> 'a \<Rightarrow> nat option" where
  "list_index [] x = None"
| "list_index (y # ys) x = (if y = x then Some 0 else map_option Suc (list_index ys x))"

text \<open>
  The three appends of the first two branches of the loop of \<open>store_old_info\<close>; the
  lists keep what was appended before an index raised.
\<close>

definition append_old ::
  "data_info \<Rightarrow> int \<Rightarrow> nat \<Rightarrow> int list \<times> int list \<times> int list \<Rightarrow>
   py_error option \<times> (int list \<times> int list \<times> int list)" where
  "append_old d len i acc =
     (case acc of (lens, oovs, offs) \<Rightarrow>
        (case index_arr (sparse_oov d) i of
           Inl e \<Rightarrow> (Some e, (lens @ [len], oovs, offs))
         | Inr ov \<Rightarrow>
            (case index_arr (sparse_offset d) i of
               Inl e \<Rightarrow> (Some e, (lens @ [len], oovs @ [ov], offs))
             | Inr off \<Rightarrow> (None, (lens @ [len], oovs @ [ov], offs @ [off])))))"

definition append_old_multi ::
  "data_info \<Rightarrow> string \<Rightarrow> int list \<times> int list \<times> int list \<Rightarrow>
   py_error option \<times> (int list \<times> int list \<times> int list)" where
  "append_old_multi d col acc =
     (case acc of (lens, oovs, offs) \<Rightarrow>
        (case col_name_mapping d of
           None \<Rightarrow> (Some TypeError, acc)
         | Some m \<Rightarrow>
            (case multi_sparse_map m of
               None \<Rightarrow> (Some (KeyError ''multi_sparse''), acc)
             | Some ms \<Rightarrow>
                (case map_of ms col of
                   None \<Rightarrow> (None, acc)
                 | Some main_name \<Rightarrow>
                    (case list_index (name (sparse_col d)) main_name of
                       None \<Rightarrow> (Some (ValueError ''is not in list''), acc)
                     | Some pos \<Rightarrow>
                        (case index_arr (sparse_offset d) pos of
                           Inl e \<Rightarrow> (Some e, (lens @ [- 1], oovs, offs))
                         | Inr off \<Rightarrow> (None, (lens @ [- 1], oovs, offs @ [off]))))))))"

fun store_old_loop ::
  "data_info \<Rightarrow> (nat \<times> string) list \<Rightarrow> int list \<times> int list \<times> int list \<Rightarrow>
   py_error option \<times> (int list \<times> int list \<times> int list)" where
  "store_old_loop d [] acc = (None, acc)"
| "store_old_loop d ((i, col) # rest) acc =
     (case (if has_key (sparse_unique_vals d) col
            then append_old d (dict_len (sparse_unique_vals d) col) i acc
            else if has_key (multi_sparse_unique_vals d) col
            then append_old d (dict_len (multi_sparse_unique_vals d) col) i acc
            else if multi_sparse_unique_vals d \<noteq> None
            then append_old_multi d col acc
            else (None, acc)) of
        (Some e, acc') \<Rightarrow> (Some e, acc')
      | (None, acc') \<Rightarrow> store_old_loop d rest acc')"

definition store_old_info :: "data_info \<Rightarrow> py_error option \<times> data_info" where
  "store_old_info d =
     (let d1 = (read_n_users d)\<lparr>old_n_users := Some (n_users d)\<rparr>;
          d2 = (read_n_items d1)\<lparr>old_n_items := Some (n_items d1)\<rparr>
      in if sparse_unique_vals d2 \<noteq> None \<or> multi_sparse_unique_vals d2 \<noteq> None
         then (case store_old_loop d2 (enumerate 0 (name (sparse_col d2))) ([], [], []) of
                 (e, (lens, oovs, offs)) \<Rightarrow>
                   (e, d2\<lparr>old_sparse_len := Some lens, old_sparse_oov := Some oovs,
                          old_sparse_offset := Some offs\<rparr>))
         else (None, d2))"

subsection \<open>Growing the index\<close>

text \<open>
  \<open>np.vstack([m[:-1], np.zeros([diff_num, m.shape[1]])])\<close>: the last row goes, and
  \<open>diff_num\<close> rows of zeros of the same width follow the others.
\<close>

definition extend_rows :: "'a::zero ndarray \<Rightarrow> nat \<Rightarrow> 'a ndarray" where
  "extend_rows m diff_num =
     NdArray (n_cols m) (rows (drop_last m) @ rows (np_zeros diff_num (n_cols m)))"

definition extend_unique_matrix :: "data_info \<Rightarrow> string \<Rightarrow> nat \<Rightarrow> data_info" where
  "extend_unique_matrix d mode diff_num =
     (if mode = ''user'' then
        (let d1 = (case user_sparse_unique d of None \<Rightarrow> d
                   | Some m \<Rightarrow> d\<lparr>user_sparse_unique := Some (extend_rows m diff_num),
                                 user_sparse_shared := False\<rparr>)
         in (case user_dense_unique d1 of None \<Rightarrow> d1
             | Some m \<Rightarrow> d1\<lparr>user_dense_unique := Some (extend_rows m diff_num),
                            user_dense_shared := False\<rparr>))
      else if mode = ''item'' then
        (let d1 = (case item_sparse_unique d of None \<Rightarrow> d
                   | Some m \<Rightarrow> d\<lparr>item_sparse_unique := Some (extend_rows m diff_num),
                                 item_sparse_shared := False\<rparr>)
         in (case item_dense_unique d1 of None \<Rightarrow> d1
             | Some m \<Rightarrow> d1\<lparr>item_dense_unique := Some (extend_rows m diff_num),
                            item_dense_shared := False\<rparr>))
      else d)"

text \<open>
  The inner function \<open>update_sparse_unique\<close>, over the keys of \<open>unique_dicts\<close> in
  order. Both dictionaries are updated in place, so an exception leaves the columns
  already done updated, and \<open>all_args\<close>, which holds the same dictionary of unique
  values, sees the update.
\<close>

fun update_sparse_unique ::
  "frame \<Rightarrow> string list \<Rightarrow>
   (string \<times> real list) list \<times> (string \<times> (real \<rightharpoonup> nat)) list option \<Rightarrow>
   py_error option \<times> ((string \<times> real list) list \<times> (string \<times> (real \<rightharpoonup> nat)) list option)"
where
  "update_sparse_unique data [] st = (None, st)"
| "update_sparse_unique data (col # cols) (unique_dicts, unique_idxs) =
     (case map_of unique_dicts col of
        None \<Rightarrow> (Some (KeyError col), (unique_dicts, unique_idxs))
      | Some unique_vals \<Rightarrow>
         (case getitem data col of
            Inl e \<Rightarrow> (Some e, (unique_dicts, unique_idxs))
          | Inr column \<Rightarrow>
             (let sparse_diff = setdiff1d column unique_vals in
              if length sparse_diff > 0 then
                (let unique_vals' = unique_vals @ sparse_diff;
                     unique_dicts' = AList.update col unique_vals' unique_dicts
                 in (case unique_idxs of
                       None \<Rightarrow> (Some TypeError, (unique_dicts', None))
                     | Some idxs \<Rightarrow>
                         update_sparse_unique data cols
                           (unique_dicts',
                            Some (AList.update col
                                    (dict_zip unique_vals' (length unique_vals')) idxs))))
              else update_sparse_unique data cols (unique_dicts, unique_idxs))))"

definition and_then ::
  "py_error option \<times> 's \<Rightarrow> ('s \<Rightarrow> py_error option \<times> 's) \<Rightarrow> py_error option \<times> 's" where
  "and_then r f = (case r of (None, s) \<Rightarrow> f s | (Some e, s) \<Rightarrow> (Some e, s))"

definition expand_users :: "data_info \<Rightarrow> frame \<Rightarrow> py_error option \<times> data_info" where
  "expand_users d data =
     (case getattr data ''user'' of
        Inl e \<Rightarrow> (Some e, d)
      | Inr users \<Rightarrow>
         (let user_diff = setdiff1d users (user_unique_vals d) in
          if length user_diff > 0
          then (None, extend_unique_matrix
                        (d\<lparr>user_unique_vals := user_unique_vals d @ user_diff\<rparr>)
                        ''user'' (length user_diff))
          else (None, d)))"

definition expand_items :: "data_info \<Rightarrow> frame \<Rightarrow> py_error option \<times> data_info" where
  "expand_items d data =
     (case getattr data ''item'' of
        Inl e \<Rightarrow> (Some e, d)
      | Inr items \<Rightarrow>
         (let item_diff = setdiff1d items (item_unique_vals d) in
          if length item_diff > 0
          then (None, extend_unique_matrix
                        (d\<lparr>item_unique_vals := item_unique_vals d @ item_diff\<rparr>)
                        ''item'' (length item_diff))
          else (None, d)))"

definition expand_sparse :: "data_info \<Rightarrow> frame \<Rightarrow> py_error option \<times> data_info" where
  "expand_sparse d data =
     (case sparse_unique_vals d of
        None \<Rightarrow> (None, d)
      | Some dicts \<Rightarrow>
         (case update_sparse_unique data (map fst dicts) (dicts, sparse_unique_idxs d) of
            (e, (dicts', idxs')) \<Rightarrow>
              (e, d\<lparr>sparse_unique_vals := Some dicts', sparse_unique_idxs := idxs',
                     all_args := (all_args d)\<lparr>arg_sparse_unique_vals := Some dicts'\<rparr>\<rparr>)))"

definition expand_multi_sparse :: "data_info \<Rightarrow> frame \<Rightarrow> py_error option \<times> data_info" where
  "expand_multi_sparse d data =
     (case multi_sparse_unique_vals d of
        None \<Rightarrow> (None, d)
      | Some dicts \<Rightarrow>
         (case update_sparse_unique data (map fst dicts) (dicts, multi_sparse_unique_idxs d) of
            (e, (dicts', idxs')) \<Rightarrow>
              (e, d\<lparr>multi_sparse_unique_vals := Some dicts',
                     multi_sparse_unique_idxs := idxs',
                     all_args := (all_args d)\<lparr>arg_multi_sparse_unique_vals := Some dicts'\<rparr>\<rparr>)))"

definition expand_sparse_unique_vals_and_matrix ::
  "data_info \<Rightarrow> frame \<Rightarrow> py_error option \<times> data_info" where
  "expand_sparse_unique_vals_and_matrix d data =
     and_then (and_then (and_then (and_then (and_then
       (store_old_info d)
       (\<lambda>d. (None, reset_property d)))
       (\<lambda>d. expand_users d data))
       (\<lambda>d. expand_items d data))
       (\<lambda>d. expand_sparse d data))
       (\<lambda>d. expand_multi_sparse d data)"

subsection \<open>The trailing oov row\<close>

text \<open>
  Each of the four steps of \<open>add_oov\<close>. The test \<open>len(m) == self.n_users\<close> is read
  only when the matrix is not None, and reading it fills the cache.
\<close>

definition add_oov_user_sparse :: "data_info \<Rightarrow> py_error option \<times> data_info" where
  "add_oov_user_sparse d =
     (case user_sparse_unique d of
        None \<Rightarrow> (None, d)
      | Some m \<Rightarrow>
         (let d1 = read_n_users d in
          if length (rows m) = n_users d then
            (case take_arr (sparse_oov d1) (index (user_sparse_col d1)) of
               Inl e \<Rightarrow> (Some e, d1)
             | Inr user_sparse_oov \<Rightarrow>
                (case vstack_row m user_sparse_oov of
                   Inl e \<Rightarrow> (Some e, d1)
                 | Inr m' \<Rightarrow> (None, d1\<lparr>user_sparse_unique := Some m',
                                        user_sparse_shared := False\<rparr>)))
          else (None, d1)))"

definition add_oov_item_sparse :: "data_info \<Rightarrow> py_error option \<times> data_info" where
  "add_oov_item_sparse d =
     (case item_sparse_unique d of
        None \<Rightarrow> (None, d)
      | Some m \<Rightarrow>
         (let d1 = read_n_items d in
          if length (rows m) = n_items d then
            (case take_arr (sparse_oov d1) (index (item_sparse_col d1)) of
               Inl e \<Rightarrow> (Some e, d1)
             | Inr item_sparse_oov \<Rightarrow>
                (case vstack_row m item_sparse_oov of
                   Inl e \<Rightarrow> (Some e, d1)
                 | Inr m' \<Rightarrow> (None, d1\<lparr>item_sparse_unique := Some m',
                                        item_sparse_shared := False\<rparr>)))
          else (None, d1)))"

definition add_oov_user_dense :: "data_info \<Rightarrow> py_error option \<times> data_info" where
  "add_oov_user_dense d =
     (case user_dense_unique d of
        None \<Rightarrow> (None, d)
      | Some m \<Rightarrow>
         (let d1 = read_n_users d in
          if length (rows m) = n_users d then
            (case vstack_row m (np_mean_axis0 m) of
               Inl e \<Rightarrow> (Some e, d1)
             | Inr m' \<Rightarrow> (None, d1\<lparr>user_dense_unique := Some m',
                                    user_dense_shared := False\<rparr>))
          else (None, d1)))"

definition add_oov_item_dense :: "data_info \<Rightarrow> py_error option \<times> data_info" where
  "add_oov_item_dense d =
     (case item_dense_unique d of
        None \<Rightarrow> (None, d)
      | Some m \<Rightarrow>
         (let d1 = read_n_items d in
          if length (rows m) = n_items d then
            (case vstack_row m (np_mean_axis0 m) of
               Inl e \<Rightarrow> (Some e, d1)
             | Inr m' \<Rightarrow> (None, d1\<lparr>item_dense_unique := Some m',
                                    item_dense_shared := False\<rparr>))
          else (None, d1)))"

definition add_oov :: "data_info \<Rightarrow> py_error option \<times> data_info" where
  "add_oov d =
     and_then (and_then (and_then
       (add_oov_user_sparse d) add_oov_item_sparse) add_oov_user_dense) add_oov_item_dense"

subsection \<open>Assigning features\<close>

text \<open>
  \<open>m[row_idx, feat_idx] = vals\<close>. numpy checks the indices first: an index array must
  hold integers, a negative index counts from the end, and an index out of range is an
  IndexError; \<open>vals\<close> must have the length of \<open>row_idx\<close> or length one. Then the
  cells are written in order, so that of two writes to one row the later stays.
\<close>

definition norm_index :: "nat \<Rightarrow> real \<Rightarrow> nat option" where
  "norm_index n x =
     (let i = \<lfloor>x\<rfloor> in
      if of_int i \<noteq> x then None
      else if 0 \<le> i \<and> i < int n then Some (nat i)
      else if - int n \<le> i \<and> i < 0 then Some (nat (i + int n))
      else None)"

definition set_cell :: "'a list list \<Rightarrow> nat \<Rightarrow> nat \<Rightarrow> 'a \<Rightarrow> 'a list list" where
  "set_cell rs r c v = rs[r := (rs ! r)[c := v]]"

definition assign_column ::
  "'a ndarray \<Rightarrow> real list \<Rightarrow> nat \<Rightarrow> 'a list \<Rightarrow> py_error + 'a ndarray" where
  "assign_column m row_idx feat_idx vals =
     (if list_ex (\<lambda>x. norm_index (length (rows m)) x = None) row_idx \<or> n_cols m \<le> feat_idx
      then Inl IndexError
      else if length vals \<noteq> length row_idx \<and> length vals \<noteq> 1
      then Inl (ValueError ''shape mismatch'')
      else
        (let vals' = (if length vals = length row_idx then vals
                      else replicate (length row_idx) (hd vals))
         in Inr (NdArray (n_cols m)
                  (foldl (\<lambda>rs (x, v). set_cell rs (the (norm_index (length (rows m)) x)) feat_idx v)
                     (rows m) (zip row_idx vals')))))"

text \<open>
  Modelled from the spec: \<open>check_oov\<close> of \<open>libreco.feature\<close> is not among the
  sources. The spec has \<open>assign_features\<close> look up "the row's current inner id": for
  mode user (item) the model replaces the column \<open>user\<close> (\<open>item\<close>) by the inner ids,
  through the property \<open>user2id\<close> (\<open>item2id\<close>), and leaves out the rows whose
  identifier the index does not know, which have no row of the matrix; the names of the
  columns stay. For any other mode it returns the frame as it is.
\<close>

definition keep_rows :: "bool list \<Rightarrow> 'a list \<Rightarrow> 'a list" where
  "keep_rows keep xs = map snd (filter fst (zip keep xs))"

definition map_ids :: "(real \<rightharpoonup> nat) \<Rightarrow> string \<Rightarrow> real list \<Rightarrow> frame \<Rightarrow> frame" where
  "map_ids to_id key ids data =
     map (\<lambda>(c, xs). (c, if c = key then map real (List.map_filter to_id ids)
                         else keep_rows (map (\<lambda>u. to_id u \<noteq> None) ids) xs)) data"

definition check_oov :: "data_info \<Rightarrow> frame \<Rightarrow> string \<Rightarrow> (py_error + frame) \<times> data_info" where
  "check_oov d data mode =
     (if mode = ''user'' then
        (case getitem data ''user'' of
           Inl e \<Rightarrow> (Inl e, d)
         | Inr users \<Rightarrow> (Inr (map_ids (user2id d) ''user'' users data), read_user2id d))
      else if mode = ''item'' then
        (case getitem data ''item'' of
           Inl e \<Rightarrow> (Inl e, d)
         | Inr items \<Rightarrow> (Inr (map_ids (item2id d) ''item'' items data), read_item2id d))
      else (Inr data, d))"

text \<open>
  Modelled from the spec: \<open>compute_sparse_feat_indices\<close> of \<open>libreco.feature\<close> is
  not among the sources. The spec: "the computed embedding index (sparse; using the
  column's unique-value dictionary, falling back to oov if unseen)", where a column's
  values take a contiguous block of indices from the column's offset on. The dictionary
  of a column of a multi-sparse field is the one of the field's main column.
\<close>

definition unique_idxs_of :: "data_info \<Rightarrow> string \<Rightarrow> (real \<rightharpoonup> nat)" where
  "unique_idxs_of d column =
     (case map_of (case sparse_unique_idxs d of None \<Rightarrow> [] | Some al \<Rightarrow> al) column of
        Some dict \<Rightarrow> dict
      | None \<Rightarrow>
         (let multi = (case multi_sparse_unique_idxs d of None \<Rightarrow> [] | Some al \<Rightarrow> al);
              mains = (case col_name_mapping d of None \<Rightarrow> []
                       | Some m \<Rightarrow> (case multi_sparse_map m of None \<Rightarrow> [] | Some ms \<Rightarrow> ms))
          in case map_of multi column of
               Some dict \<Rightarrow> dict
             | None \<Rightarrow>
                (case map_of mains column of
                   None \<Rightarrow> Map.empty
                 | Some main \<Rightarrow> (case map_of multi main of None \<Rightarrow> Map.empty | Some dict \<Rightarrow> dict))))"

definition compute_sparse_feat_indices ::
  "data_info \<Rightarrow> frame \<Rightarrow> nat \<Rightarrow> string \<Rightarrow> py_error + int list" where
  "compute_sparse_feat_indices d data field_idx column =
     (case index_arr (sparse_offset d) field_idx of
        Inl e \<Rightarrow> Inl e
      | Inr offset \<Rightarrow>
         (case index_arr (sparse_oov d) field_idx of
            Inl e \<Rightarrow> Inl e
          | Inr oov \<Rightarrow>
             (case getitem data column of
                Inl e \<Rightarrow> Inl e
              | Inr vals \<Rightarrow>
                 Inr (map (\<lambda>v. case unique_idxs_of d column v of
                                  Some i \<Rightarrow> int i + offset
                                | None \<Rightarrow> oov) vals))))"

text \<open>
  The loop \<open>for feat_idx, col in enumerate(col_info.name)\<close> of the four branches, on
  the matrix it writes into: a column that the frame does not have is passed over;
  \<open>vals_of\<close> gives the values to write. An exception leaves the columns already
  written as they are.
\<close>

fun assign_loop ::
  "(nat \<Rightarrow> string \<Rightarrow> py_error + 'a list) \<Rightarrow> frame \<Rightarrow> real list \<Rightarrow> (nat \<times> string) list \<Rightarrow>
   'a ndarray \<Rightarrow> py_error option \<times> 'a ndarray" where
  "assign_loop vals_of data row_idx [] m = (None, m)"
| "assign_loop vals_of data row_idx ((feat_idx, col) # rest) m =
     (if col \<notin> set (columns data) then assign_loop vals_of data row_idx rest m
      else (case vals_of feat_idx col of
              Inl e \<Rightarrow> (Some e, m)
            | Inr vals \<Rightarrow>
               (case assign_column m row_idx feat_idx vals of
                  Inl e \<Rightarrow> (Some e, m)
                | Inr m' \<Rightarrow> assign_loop vals_of data row_idx rest m')))"

text \<open>
  A write into a feature matrix happens in the array itself: it shows in \<open>all_args\<close>
  as well when \<open>all_args\<close> holds the same array.
\<close>

definition write_user_sparse :: "data_info \<Rightarrow> int ndarray \<Rightarrow> data_info" where
  "write_user_sparse d m =
     d\<lparr>user_sparse_unique := Some m,
       all_args := (if user_sparse_shared d then (all_args d)\<lparr>arg_user_sparse_unique := Some m\<rparr>
                    else all_args d)\<rparr>"

definition write_item_sparse :: "data_info \<Rightarrow> int ndarray \<Rightarrow> data_info" where
  "write_item_sparse d m =
     d\<lparr>item_sparse_unique := Some m,
       all_args := (if item_sparse_shared d then (all_args d)\<lparr>arg_item_sparse_unique := Some m\<rparr>
                    else all_args d)\<rparr>"

definition write_user_dense :: "data_info \<Rightarrow> real ndarray \<Rightarrow> data_info" where
  "write_user_dense d m =
     d\<lparr>user_dense_unique := Some m,
       all_args := (if user_dense_shared d then (all_args d)\<lparr>arg_user_dense_unique := Some m\<rparr>
                    else all_args d)\<rparr>"

definition write_item_dense :: "data_info \<Rightarrow> real ndarray \<Rightarrow> data_info" where
  "write_item_dense d m =
     d\<lparr>item_dense_unique := Some m,
       all_args := (if item_dense_shared d then (all_args d)\<lparr>arg_item_dense_unique := Some m\<rparr>
                    else all_args d)\<rparr>"

text \<open>\<open>col_info.index[feat_idx]\<close>, a list index.\<close>

definition sparse_vals_of ::
  "data_info \<Rightarrow> frame \<Rightarrow> Feature \<Rightarrow> nat \<Rightarrow> string \<Rightarrow> py_error + int list" where
  "sparse_vals_of d data col_info feat_idx col =
     (case index_arr (Some (index col_info)) feat_idx of
        Inl e \<Rightarrow> Inl e
      | Inr field_idx \<Rightarrow> compute_sparse_feat_indices d data field_idx col)"

definition assign_sparse_features ::
  "data_info \<Rightarrow> frame \<Rightarrow> string \<Rightarrow> py_error option \<times> data_info" where
  "assign_sparse_features d0 data0 mode =
     (case check_oov d0 data0 mode of
        (Inl e, d) \<Rightarrow> (Some e, d)
      | (Inr data, d) \<Rightarrow>
         if mode = ''user'' then
           (case getitem data ''user'' of
              Inl e \<Rightarrow> (Some e, d)
            | Inr row_idx \<Rightarrow>
               (let col_info = user_sparse_col d in
                case user_sparse_unique d of
                  None \<Rightarrow> (None, d)
                | Some m \<Rightarrow>
                   if name col_info \<noteq> [] then
                     (case assign_loop (sparse_vals_of d data col_info) data row_idx
                             (enumerate 0 (name col_info)) m of
                        (e, m') \<Rightarrow> (e, write_user_sparse d m'))
                   else (None, d)))
         else if mode = ''item'' then
           (case getitem data ''item'' of
              Inl e \<Rightarrow> (Some e, d)
            | Inr row_idx \<Rightarrow>
               (let col_info = item_sparse_col d in
                case item_sparse_unique d of
                  None \<Rightarrow> (None, d)
                | Some m \<Rightarrow>
                   if name col_info \<noteq> [] then
                     (case assign_loop (sparse_vals_of d data col_info) data row_idx
                             (enumerate 0 (name col_info)) m of
                        (e, m') \<Rightarrow> (e, write_item_sparse d m'))
                   else (None, d)))
         else (Some (ValueError ''mode must be user or item.''), d))"

definition assign_dense_features ::
  "data_info \<Rightarrow> frame \<Rightarrow> string \<Rightarrow> py_error option \<times> data_info" where
  "assign_dense_features d0 data0 mode =
     (case check_oov d0 data0 mode of
        (Inl e, d) \<Rightarrow> (Some e, d)
      | (Inr data, d) \<Rightarrow>
         if mode = ''user'' then
           (case getitem data ''user'' of
              Inl e \<Rightarrow> (Some e, d)
            | Inr row_idx \<Rightarrow>
               (let col_info = user_dense_col d in
                case user_dense_unique d of
                  None \<Rightarrow> (None, d)
                | Some m \<Rightarrow>
                   if name col_info \<noteq> [] then
                     (case assign_loop (\<lambda>feat_idx col. getitem data col) data row_idx
                             (enumerate 0 (name col_info)) m of
                        (e, m') \<Rightarrow> (e, write_user_dense d m'))
                   else (None, d)))
         else if mode = ''item'' then
           (case getitem data ''item'' of
              Inl e \<Rightarrow> (Some e, d)
            | Inr row_idx \<Rightarrow>
               (let col_info = item_dense_col d in
                case item_dense_unique d of
                  None \<Rightarrow> (None, d)
                | Some m \<Rightarrow>
                   if name col_info \<noteq> [] then
                     (case assign_loop (\<lambda>feat_idx col. getitem data col) data row_idx
                             (enumerate 0 (name col_info)) m of
                        (e, m') \<Rightarrow> (e, write_item_dense d m'))
                   else (None, d)))
         else (None, d))"

definition assign_user_features :: "data_info \<Rightarrow> frame \<Rightarrow> py_error option \<times> data_info" where
  "assign_user_features d user_data =
     and_then (assign_sparse_features d user_data ''user'')
       (\<lambda>d. assign_dense_features d user_data ''user'')"

definition assign_item_features :: "data_info \<Rightarrow> frame \<Rightarrow> py_error option \<times> data_info" where
  "assign_item_features d item_data =
     and_then (assign_sparse_features d item_data ''item'')
       (\<lambda>d. assign_dense_features d item_data ''item'')"

subsection \<open>Construction\<close>

text \<open>
  Modelled from the spec: \<open>interaction_consumed\<close> of \<open>libreco.feature\<close> is not among
  the sources. The spec: from the (user, item) pairs, "a mapping from each user to the
  ordered ... set of items consumed, and the symmetric item to users mapping", every pair
  "in both directions exactly once per occurrence", in the order of the source.
\<close>

definition interaction_consumed ::
  "nat list \<Rightarrow> nat list \<Rightarrow> (nat \<rightharpoonup> nat list) \<times> (nat \<rightharpoonup> nat list)" where
  "interaction_consumed user_indices item_indices =
     (let pairs = zip user_indices item_indices
      in ((\<lambda>u. if u \<in> fst ` set pairs then Some (map snd (filter (\<lambda>p. fst p = u) pairs))
                else None),
          (\<lambda>i. if i \<in> snd ` set pairs then Some (map fst (filter (\<lambda>p. snd p = i) pairs))
                else None)))"

definition map_unique_vals ::
  "(string \<times> real list) list option \<Rightarrow> (string \<times> (real \<rightharpoonup> nat)) list option" where
  "map_unique_vals unique_vals =
     map_option (map (\<lambda>(col, vals). (col, dict_zip vals (length vals)))) unique_vals"

text \<open>
  \<open>set_popular_items\<close>: the items by the number of distinct users that interacted with
  them, most first. pandas leaves the order of equally popular items open; the model
  takes them in ascending order of the item.
\<close>

definition first_occurrences :: "'a list \<Rightarrow> 'a list" where
  "first_occurrences xs = rev (remdups (rev xs))"

definition set_popular_items :: "data_info \<Rightarrow> nat \<Rightarrow> py_error + data_info" where
  "set_popular_items d num =
     (case interaction_data d of
        None \<Rightarrow> Inl (AttributeError ''drop_duplicates'')
      | Some interactions \<Rightarrow>
         (let pairs = first_occurrences (map (\<lambda>(u, i, l). (u, i)) interactions);
              items = sort (remdups (map snd pairs));
              count_items = (\<lambda>i. length (filter (\<lambda>p. snd p = i) pairs));
              selected_items = take num (sort_key (\<lambda>i. - int (count_items i)) items);
              selected_items' =
                (case popular_items d of
                   None \<Rightarrow> selected_items
                 | Some olds \<Rightarrow>
                     if length selected_items < num
                     then selected_items @ take (num - length selected_items) olds
                     else selected_items)
          in Inr (d\<lparr>popular_items := Some selected_items'\<rparr>)))"

text \<open>
  \<open>__init__\<close>. \<open>all_args = locals()\<close> has every argument as a key. The generator
  that \<open>default_rng()\<close> returns, seeded by the system, is the argument \<open>default_rng\<close>.
  The fields \<open>user_unique_vals\<close> and \<open>item_unique_vals\<close> of the record are arrays,
  and \<open>interaction_consumed\<close> is modelled on two index arrays: the model covers the
  objects constructed with these four arguments. For any other arguments it answers
  TypeError, where Python would store a None among the unique values and raise at the
  first \<open>len\<close> of it.
\<close>

definition DataInfo_init :: "nat list \<Rightarrow> args \<Rightarrow> py_error + data_info" where
  "DataInfo_init default_rng a =
     (case (arg_user_unique_vals a, arg_item_unique_vals a, arg_user_indices a, arg_item_indices a) of
        (Some user_vals, Some item_vals, Some user_indices, Some item_indices) \<Rightarrow>
          (let consumed = interaction_consumed user_indices item_indices;
               mapping = (case arg_col_name_mapping a of None \<Rightarrow> None | Some m \<Rightarrow> m);
               d = \<lparr>col_name_mapping = mapping,
                    interaction_data = arg_interaction_data a,
                    user_sparse_unique = arg_user_sparse_unique a,
                    user_dense_unique = arg_user_dense_unique a,
                    item_sparse_unique = arg_item_sparse_unique a,
                    item_dense_unique = arg_item_dense_unique a,
                    user_consumed = fst consumed,
                    item_consumed = snd consumed,
                    user_unique_vals = user_vals,
                    item_unique_vals = item_vals,
                    sparse_unique_vals = arg_sparse_unique_vals a,
                    sparse_unique_idxs = map_unique_vals (arg_sparse_unique_vals a),
                    sparse_offset = arg_sparse_offset a,
                    sparse_oov = arg_sparse_oov a,
                    multi_sparse_unique_vals = arg_multi_sparse_unique_vals a,
                    multi_sparse_unique_idxs = map_unique_vals (arg_multi_sparse_unique_vals a),
                    multi_sparse_combine_info = arg_multi_sparse_combine_info a,
                    np_rng = default_rng,
                    cached_n_users = None, cached_n_items = None,
                    cached_user2id = None, cached_item2id = None,
                    cached_id2user = None, cached_id2item = None,
                    cached_data_size = None,
                    popular_items = None,
                    old_n_users = None, old_n_items = None,
                    old_sparse_len = None, old_sparse_oov = None, old_sparse_offset = None,
                    all_args = a\<lparr>arg_col_name_mapping := Some mapping\<rparr>,
                    user_sparse_shared = True, user_dense_shared = True,
                    item_sparse_shared = True, item_dense_shared = True\<rparr>
           in case add_oov d of
                (Some e, d1) \<Rightarrow> Inl e
              | (None, d1) \<Rightarrow> set_popular_items d1 100)
      | _ \<Rightarrow> Inl TypeError)"

text \<open>
  \<open>store_args\<close>: a new \<open>all_args\<close> out of the fields that are not None, and the two
  index arrays. Its entries are the objects the fields hold.
\<close>

definition store_args :: "data_info \<Rightarrow> nat list \<Rightarrow> nat list \<Rightarrow> data_info" where
  "store_args d user_indices item_indices =
     d\<lparr>all_args :=
         \<lparr>arg_col_name_mapping = map_option Some (col_name_mapping d),
          arg_interaction_data = interaction_data d,
          arg_user_sparse_unique = user_sparse_unique d,
          arg_user_dense_unique = user_dense_unique d,
          arg_item_sparse_unique = item_sparse_unique d,
          arg_item_dense_unique = item_dense_unique d,
          arg_user_indices = Some user_indices,
          arg_item_indices = Some item_indices,
          arg_user_unique_vals = Some (user_unique_vals d),
          arg_item_unique_vals = Some (item_unique_vals d),
          arg_sparse_unique_vals = sparse_unique_vals d,
          arg_sparse_offset = sparse_offset d,
          arg_sparse_oov = sparse_oov d,
          arg_multi_sparse_unique_vals = multi_sparse_unique_vals d,
          arg_multi_sparse_combine_info = multi_sparse_combine_info d\<rparr>,
       user_sparse_shared := True, user_dense_shared := True,
       item_sparse_shared := True, item_dense_shared := True\<rparr>"

subsection \<open>Saving and loading\<close>

text \<open>
  The file system: the directories, and the files with what was written to them. A
  \<open>.json\<close> file holds a column-name mapping (or null), an \<open>.npz\<close> archive holds named
  arrays, in the order they were written; what numpy and json store is read back as it
  was.
\<close>

datatype npz_value =
    Interactions "(real \<times> real \<times> real) list"
  | IntMatrix "int ndarray"
  | RealMatrix "real ndarray"
  | Indices "nat list"
  | RealArray "real list"
  | IntArray "int list"
  | PyObject MultiSparseInfo

datatype stored_file = JsonFile "name_mapping option" | NpzFile "(string \<times> npz_value) list"

record file_system =
  dirs :: "string list"
  files :: "string \<rightharpoonup> stored_file"

definition path_join :: "string \<Rightarrow> string \<Rightarrow> string" where
  "path_join a b =
     (if b \<noteq> [] \<and> hd b = CHR ''/'' then b
      else if a = [] \<or> last a = CHR ''/'' then a @ b
      else a @ ''/'' @ b)"

definition path_exists :: "file_system \<Rightarrow> string \<Rightarrow> bool" where
  "path_exists fs path \<longleftrightarrow> path \<in> set (dirs fs) \<or> files fs path \<noteq> None"

definition name_mapping_path :: "string \<Rightarrow> string \<Rightarrow> string" where
  "name_mapping_path path model_name = path_join path (model_name @ ''_data_info_name_mapping.json'')"

definition npz_path :: "string \<Rightarrow> string \<Rightarrow> string" where
  "npz_path path model_name = path_join path (model_name @ ''_data_info'') @ ''.npz''"

definition entry :: "string \<Rightarrow> ('a \<Rightarrow> npz_value) \<Rightarrow> 'a option \<Rightarrow> (string \<times> npz_value) list" where
  "entry key as_value arg = (case arg of None \<Rightarrow> [] | Some v \<Rightarrow> [(key, as_value v)])"

definition unique_entries ::
  "string \<Rightarrow> (string \<times> real list) list option \<Rightarrow> (string \<times> npz_value) list" where
  "unique_entries pre dicts =
     (case dicts of None \<Rightarrow> []
      | Some al \<Rightarrow> map (\<lambda>(col, val). (pre @ col, RealArray val)) al)"

text \<open>
  The dictionary \<open>hparams\<close> of \<open>save\<close>, filled in the order of the constructor's
  parameters; an assignment to a key that is there replaces its value.
\<close>

definition hparams_of :: "args \<Rightarrow> (string \<times> npz_value) list" where
  "hparams_of a =
     foldl (\<lambda>h (k, v). AList.update k v h) []
       (entry ''interaction_data'' Interactions (arg_interaction_data a) @
        entry ''user_sparse_unique'' IntMatrix (arg_user_sparse_unique a) @
        entry ''user_dense_unique'' RealMatrix (arg_user_dense_unique a) @
        entry ''item_sparse_unique'' IntMatrix (arg_item_sparse_unique a) @
        entry ''item_dense_unique'' RealMatrix (arg_item_dense_unique a) @
        entry ''user_indices'' Indices (arg_user_indices a) @
        entry ''item_indices'' Indices (arg_item_indices a) @
        entry ''user_unique_vals'' RealArray (arg_user_unique_vals a) @
        entry ''item_unique_vals'' RealArray (arg_item_unique_vals a) @
        unique_entries ''unique_'' (arg_sparse_unique_vals a) @
        entry ''sparse_offset'' IntArray (arg_sparse_offset a) @
        entry ''sparse_oov'' IntArray (arg_sparse_oov a) @
        unique_entries ''munique_'' (arg_multi_sparse_unique_vals a) @
        entry ''multi_sparse_combine_info'' PyObject (arg_multi_sparse_combine_info a))"

definition save :: "file_system \<Rightarrow> data_info \<Rightarrow> string \<Rightarrow> string \<Rightarrow> py_error option \<times> file_system" where
  "save fs d path model_name =
     (if path \<notin> set (dirs fs) \<and> files fs path \<noteq> None
      then (Some (OSError ''File exists''), fs)
      else
        (let fs1 = (if path \<in> set (dirs fs) then fs else fs\<lparr>dirs := path # dirs fs\<rparr>)
         in case (if col_name_mapping d \<noteq> None
                  then (case arg_col_name_mapping (all_args d) of
                          None \<Rightarrow> Inl (KeyError ''col_name_mapping'')
                        | Some m \<Rightarrow>
                            Inr (fs1\<lparr>files := (files fs1)
                                   (name_mapping_path path model_name \<mapsto> JsonFile m)\<rparr>))
                  else Inr fs1) of
              Inl e \<Rightarrow> (Some e, fs1)
            | Inr fs2 \<Rightarrow>
                (None, fs2\<lparr>files := (files fs2)
                         (npz_path path model_name \<mapsto> NpzFile (hparams_of (all_args d)))\<rparr>)))"

definition no_args :: args where
  "no_args =
     \<lparr>arg_col_name_mapping = None, arg_interaction_data = None,
      arg_user_sparse_unique = None, arg_user_dense_unique = None,
      arg_item_sparse_unique = None, arg_item_dense_unique = None,
      arg_user_indices = None, arg_item_indices = None,
      arg_user_unique_vals = None, arg_item_unique_vals = None,
      arg_sparse_unique_vals = None, arg_sparse_offset = None, arg_sparse_oov = None,
      arg_multi_sparse_unique_vals = None, arg_multi_sparse_combine_info = None\<rparr>"

text \<open>
  One turn of the loop \<open>for arg in info\<close> of \<open>load\<close>. The constructor takes each
  array under the name and of the kind \<open>save\<close> writes; anything else in the archive is
  a TypeError, as a keyword that the constructor does not have is.
\<close>

definition dict_set :: "(string \<times> 'a) list option \<Rightarrow> string \<Rightarrow> 'a \<Rightarrow> (string \<times> 'a) list option" where
  "dict_set dict k v = Some (AList.update k v (case dict of None \<Rightarrow> [] | Some al \<Rightarrow> al))"

definition load_entry :: "args \<Rightarrow> string \<times> npz_value \<Rightarrow> py_error + args" where
  "load_entry h kv =
     (case kv of (arg, v) \<Rightarrow>
        if arg = ''interaction_data'' then
          (case v of Interactions x \<Rightarrow> Inr (h\<lparr>arg_interaction_data := Some x\<rparr>) | _ \<Rightarrow> Inl TypeError)
        else if arg = ''multi_sparse_combine_info'' then
          (case v of PyObject x \<Rightarrow> Inr (h\<lparr>arg_multi_sparse_combine_info := Some x\<rparr>)
           | _ \<Rightarrow> Inl TypeError)
        else if take 7 arg = ''unique_'' then
          (case v of
             RealArray x \<Rightarrow>
               Inr (h\<lparr>arg_sparse_unique_vals := dict_set (arg_sparse_unique_vals h) (drop 7 arg) x\<rparr>)
           | _ \<Rightarrow> Inl TypeError)
        else if take 8 arg = ''munique_'' then
          (case v of
             RealArray x \<Rightarrow>
               Inr (h\<lparr>arg_multi_sparse_unique_vals :=
                        dict_set (arg_multi_sparse_unique_vals h) (drop 8 arg) x\<rparr>)
           | _ \<Rightarrow> Inl TypeError)
        else if arg = ''user_sparse_unique'' then
          (case v of IntMatrix x \<Rightarrow> Inr (h\<lparr>arg_user_sparse_unique := Some x\<rparr>) | _ \<Rightarrow> Inl TypeError)
        else if arg = ''user_dense_unique'' then
          (case v of RealMatrix x \<Rightarrow> Inr (h\<lparr>arg_user_dense_unique := Some x\<rparr>) | _ \<Rightarrow> Inl TypeError)
        else if arg = ''item_sparse_unique'' then
          (case v of IntMatrix x \<Rightarrow> Inr (h\<lparr>arg_item_sparse_unique := Some x\<rparr>) | _ \<Rightarrow> Inl TypeError)
        else if arg = ''item_dense_unique'' then
          (case v of RealMatrix x \<Rightarrow> Inr (h\<lparr>arg_item_dense_unique := Some x\<rparr>) | _ \<Rightarrow> Inl TypeError)
        else if arg = ''user_indices'' then
          (case v of Indices x \<Rightarrow> Inr (h\<lparr>arg_user_indices := Some x\<rparr>) | _ \<Rightarrow> Inl TypeError)
        else if arg = ''item_indices'' then
          (case v of Indices x \<Rightarrow> Inr (h\<lparr>arg_item_indices := Some x\<rparr>) | _ \<Rightarrow> Inl TypeError)
        else if arg = ''user_unique_vals'' then
          (case v of RealArray x \<Rightarrow> Inr (h\<lparr>arg_user_unique_vals := Some x\<rparr>) | _ \<Rightarrow> Inl TypeError)
        else if arg = ''item_unique_vals'' then
          (case v of RealArray x \<Rightarrow> Inr (h\<lparr>arg_item_unique_vals := Some x\<rparr>) | _ \<Rightarrow> Inl TypeError)
        else if arg = ''sparse_offset'' then
          (case v of IntArray x \<Rightarrow> Inr (h\<lparr>arg_sparse_offset := Some x\<rparr>) | _ \<Rightarrow> Inl TypeError)
        else if arg = ''sparse_oov'' then
          (case v of IntArray x \<Rightarrow> Inr (h\<lparr>arg_sparse_oov := Some x\<rparr>) | _ \<Rightarrow> Inl TypeError)
        else Inl TypeError)"

fun load_entries :: "args \<Rightarrow> (string \<times> npz_value) list \<Rightarrow> py_error + args" where
  "load_entries h [] = Inr h"
| "load_entries h (kv # info) =
     (case load_entry h kv of Inl e \<Rightarrow> Inl e | Inr h' \<Rightarrow> load_entries h' info)"

definition load :: "file_system \<Rightarrow> nat list \<Rightarrow> string \<Rightarrow> string \<Rightarrow> py_error + data_info" where
  "load fs default_rng path model_name =
     (if \<not> path_exists fs path then Inl (OSError ''file folder does not exist'')
      else
        (case (case files fs (name_mapping_path path model_name) of
                 None \<Rightarrow> Inr no_args
               | Some (JsonFile m) \<Rightarrow> Inr (no_args\<lparr>arg_col_name_mapping := Some m\<rparr>)
               | Some (NpzFile x) \<Rightarrow> Inl (ValueError ''JSONDecodeError'')) of
           Inl e \<Rightarrow> Inl e
         | Inr hparams \<Rightarrow>
            (case files fs (npz_path path model_name) of
               None \<Rightarrow> Inl (OSError ''No such file or directory'')
             | Some (JsonFile m) \<Rightarrow> Inl (ValueError ''Cannot load file'')
             | Some (NpzFile info) \<Rightarrow>
                (case load_entries hparams info of
                   Inl e \<Rightarrow> Inl e
                 | Inr hparams' \<Rightarrow> DataInfo_init default_rng hparams'))))"

section \<open>CfBase\<close>

text \<open>
  What the model prints, in order. The base class \<open>Base\<close> is not among the sources:
  the attributes it gives the model (\<open>task\<close>, \<open>data_info\<close>, \<open>default_pred\<close>,
  \<open>lower_bound\<close>, \<open>upper_bound\<close>, \<open>model_name\<close>) are fields. Predictions are
  floats, modelled as reals.
\<close>

datatype message =
    NoNeighbor real real
  | NoRecommendation nat

record cf_base =
  task :: string
  data_info :: data_info
  model_name :: string
  default_pred :: real
  lower_bound :: real
  upper_bound :: real
  k_sim :: nat
  print_count :: nat
  printed :: "message list"

subsection \<open>Prediction\<close>

text \<open>
  \<open>sorted(zip(labels, sims), key=itemgetter(1), reverse=True)\<close>: descending in the
  similarity, pairs of equal similarity in their first order. \<open>zip(*...)\<close> of no pair
  at all cannot be unpacked into two names.
\<close>

definition k_neighbors :: "nat \<Rightarrow> real list \<Rightarrow> real list \<Rightarrow> (real \<times> real) list" where
  "k_neighbors k common_labels common_sims =
     take k (takeWhile (\<lambda>x. snd x > 0)
               (sort_key (\<lambda>x. - snd x) (zip common_labels common_sims)))"

definition np_clip :: "real \<Rightarrow> real \<Rightarrow> real \<Rightarrow> real" where
  "np_clip x lo hi = min (max x lo) hi"

definition compute_pred ::
  "cf_base \<Rightarrow> real \<Rightarrow> real \<Rightarrow> nat \<Rightarrow> real list \<Rightarrow> real list \<Rightarrow>
   (py_error + real option) \<times> cf_base" where
  "compute_pred self user item common_size common_sims common_labels =
     (if common_size = 0 \<or> list_all (\<lambda>s. s \<le> 0) common_sims then
        (let self1 = self\<lparr>print_count := print_count self + 1\<rparr>;
             self2 = (if print_count self1 < 7
                      then self1\<lparr>printed := printed self1 @ [NoNeighbor user item]\<rparr>
                      else self1)
         in (Inr (Some (default_pred self2)), self2))
      else
        (case k_neighbors (k_sim self) common_labels common_sims of
           [] \<Rightarrow> (Inl (ValueError ''not enough values to unpack''), self)
         | n # ns \<Rightarrow>
            (let k_neighbor_labels = map fst (n # ns);
                 k_neighbor_sims = map snd (n # ns)
             in if task self = ''rating'' then
                  (let sims_distribution =
                         map (\<lambda>s. s / sum_list k_neighbor_sims) k_neighbor_sims;
                       weighted_pred =
                         sum_list (map (\<lambda>(l, w). l * w) (zip k_neighbor_labels sims_distribution))
                           / sum_list sims_distribution
                   in (Inr (Some (np_clip weighted_pred (lower_bound self) (upper_bound self))),
                       self))
                else if task self = ''ranking'' then
                  (Inr (Some (sum_list k_neighbor_sims / real (length k_neighbor_sims))), self)
                else (Inr None, self))))"

subsection \<open>Recommendation\<close>

text \<open>
  Modelled from the spec: \<open>popular_recommendations\<close> of \<open>libreco.recommendation\<close> is
  not among the sources. The spec: unknown users and users left without a candidate
  "receive the global popularity list", \<open>popular_items\<close>; the model takes its first
  \<open>n_rec\<close> entries, as inner ids through \<open>item2id\<close> when inner ids are asked for.
  The function is given the object and may change it: it returns the list together with
  the object as it leaves it. As the spec describes it, it draws nothing from \<open>np_rng\<close>,
  and leaves the object as it is but for the cache that reading \<open>item2id\<close> fills.
  \<open>popular_inner\<close> is the list of inner ids, \<open>popular_recommendations_inner\<close> the
  call with \<open>inner_id=True\<close>, whose ids are naturals in the model.
\<close>

definition popular_inner :: "data_info \<Rightarrow> nat \<Rightarrow> py_error + nat list" where
  "popular_inner d n_rec =
     (case popular_items d of
        None \<Rightarrow> Inl TypeError
      | Some populars \<Rightarrow>
          if list_all (\<lambda>x. item2id d x \<noteq> None) (take n_rec populars)
          then Inr (map (\<lambda>x. the (item2id d x)) (take n_rec populars))
          else Inl (KeyError ''item''))"

definition popular_recommendations_inner :: "data_info \<Rightarrow> nat \<Rightarrow> (py_error + nat list) \<times> data_info" where
  "popular_recommendations_inner d n_rec =
     (popular_inner d n_rec,
      case popular_items d of None \<Rightarrow> d | Some populars \<Rightarrow> read_item2id d)"

definition popular_recommendations ::
  "data_info \<Rightarrow> bool \<Rightarrow> nat \<Rightarrow> (py_error + real list) \<times> data_info" where
  "popular_recommendations d inner_id n_rec =
     (if inner_id then
        (case popular_recommendations_inner d n_rec of
           (populars, d') \<Rightarrow> (map_sum id (map real) populars, d'))
      else (case popular_items d of
              None \<Rightarrow> (Inl TypeError, d)
            | Some populars \<Rightarrow> (Inr (take n_rec populars), d)))"

text \<open>
  Modelled from the spec: \<open>filter_items\<close> of \<open>libreco.recommendation.ranking\<close> is not
  among the sources. The spec: "filters out items in the user's consumption set".
\<close>

definition filter_items :: "nat list \<Rightarrow> real list \<Rightarrow> nat list \<Rightarrow> nat list \<times> real list" where
  "filter_items ids preds items =
     (let keep = map (\<lambda>i. i \<notin> set items) ids in (keep_rows keep ids, keep_rows keep preds))"

text \<open>
  \<open>random.sample(xs, k)\<close> for \<open>k \<le> len(xs)\<close>: \<open>k\<close> draws without replacement. The
  draws of the generator are an argument: each draw picks a position among the elements
  left. With no draw left the model takes the elements in order.
\<close>

fun random_sample :: "nat list \<Rightarrow> 'a list \<Rightarrow> nat \<Rightarrow> 'a list" where
  "random_sample draws xs 0 = []"
| "random_sample draws [] (Suc k) = []"
| "random_sample [] (x # xs) (Suc k) = x # random_sample [] xs k"
| "random_sample (r # draws) (x # xs) (Suc k) =
     (let i = r mod length (x # xs)
      in (x # xs) ! i # random_sample draws (take i (x # xs) @ drop (Suc i) (x # xs)) k)"

text \<open>
  \<open>np.argsort(preds)\<close>: the positions in ascending order of the prediction. numpy
  leaves the order of equal predictions open; the model keeps their first order.
\<close>

definition argsort :: "real list \<Rightarrow> nat list" where
  "argsort preds = map snd (sort_key fst (zip preds [0..<length preds]))"

text \<open>
  \<open>rank_recommendations\<close> returns inner ids; its default list is
  \<open>popular_recommendations(self.data_info, inner_id=True, n_rec=n_rec)\<close>.
\<close>

definition rank_recommendations ::
  "cf_base \<Rightarrow> nat list \<Rightarrow> nat \<Rightarrow> nat list \<Rightarrow> real list \<Rightarrow> nat \<Rightarrow> nat list \<Rightarrow> bool \<Rightarrow> bool \<Rightarrow>
   (py_error + nat list) \<times> cf_base" where
  "rank_recommendations self draws user ids0 preds0 n_rec consumed filter_consumed random_rec =
     (case (if filter_consumed then filter_items ids0 preds0 consumed else (ids0, preds0)) of
        (ids, preds) \<Rightarrow>
          if length ids = 0 then
            (let self1 = self\<lparr>print_count := print_count self + 1\<rparr>;
                 self2 = (if print_count self1 < 11
                          then self1\<lparr>printed := printed self1 @ [NoRecommendation user]\<rparr>
                          else self1)
             in case popular_recommendations_inner (data_info self2) n_rec of
                  (populars, d) \<Rightarrow> (populars, self2\<lparr>data_info := d\<rparr>))
          else if random_rec \<and> length ids > n_rec then
            (Inr (random_sample draws ids n_rec), self)
          else
            (case take_arr (Some ids) (rev (argsort preds)) of
               Inl e \<Rightarrow> (Inl e, self)
             | Inr sorted_ids \<Rightarrow> (Inr (take n_rec sorted_ids), self)))"

text \<open>
  Modelled from the spec: \<open>recommend_one\<close> is abstract in \<open>CfBase\<close>, and its two
  implementations are not among the sources. The spec: \<open>recommend\<close> "delegates per-user
  candidate scoring to a model-specific recommend_one ..., then ranks": the candidates
  and their scores come from \<open>score\<close>, the model-specific part, and are ranked against
  what the user consumed. A user without an entry in \<open>user_consumed\<close> is a KeyError.
\<close>

definition recommend_one ::
  "(cf_base \<Rightarrow> nat \<Rightarrow> nat list \<times> real list) \<Rightarrow> cf_base \<Rightarrow> nat list \<Rightarrow> nat \<Rightarrow> nat \<Rightarrow> bool \<Rightarrow> bool \<Rightarrow>
   (py_error + nat list) \<times> cf_base" where
  "recommend_one score self draws user_id n_rec filter_consumed random_rec =
     (case user_consumed (data_info self) user_id of
        None \<Rightarrow> (Inl (KeyError ''user''), self)
      | Some consumed \<Rightarrow>
          (case score self user_id of
             (ids, preds) \<Rightarrow>
               rank_recommendations self draws user_id ids preds n_rec consumed
                 filter_consumed random_rec))"

text \<open>
  Modelled from the spec: \<open>check_unknown_user\<close>, \<open>convert_id\<close> and \<open>check_unknown\<close>
  of \<open>libreco.utils.validate\<close> and \<open>construct_rec\<close> of \<open>libreco.recommendation\<close> are
  not among the sources. The spec: "any externally-supplied user/item id not present in
  IdentifierIndex is unknown"; an inner id is present when it is one of
  \<open>0, ..., n_entities - 1\<close>. A lookup that misses resolves to the oov index
  \<open>n_entities\<close>. Identifiers are looked up through the cached properties.
\<close>

definition inner_of :: "nat \<Rightarrow> real \<Rightarrow> nat option" where
  "inner_of n u = (if 0 \<le> u \<and> u < real n \<and> real_of_int \<lfloor>u\<rfloor> = u then Some (nat \<lfloor>u\<rfloor>) else None)"

definition known_user :: "data_info \<Rightarrow> bool \<Rightarrow> real \<Rightarrow> nat option" where
  "known_user d inner_id u = (if inner_id then inner_of (n_users d) u else user2id d u)"

definition known_item :: "data_info \<Rightarrow> bool \<Rightarrow> real \<Rightarrow> nat option" where
  "known_item d inner_id i = (if inner_id then inner_of (n_items d) i else item2id d i)"

definition check_unknown_user ::
  "data_info \<Rightarrow> real list \<Rightarrow> bool \<Rightarrow> (nat list \<times> real list) \<times> data_info" where
  "check_unknown_user d user inner_id =
     ((List.map_filter (known_user d inner_id) user,
       filter (\<lambda>u. known_user d inner_id u = None) user),
      (if inner_id then read_n_users d else read_user2id d))"

text \<open>A list of results that may each have raised: the first exception, or all the values.\<close>

fun collect :: "(py_error + 'a) list \<Rightarrow> py_error + 'a list" where
  "collect [] = Inr []"
| "collect (Inl e # rs) = Inl e"
| "collect (Inr x # rs) = (case collect rs of Inl e \<Rightarrow> Inl e | Inr xs \<Rightarrow> Inr (x # xs))"

definition lookup :: "('k \<rightharpoonup> 'v) \<Rightarrow> string \<Rightarrow> 'k \<Rightarrow> py_error + 'v" where
  "lookup dict what k = (case dict k of None \<Rightarrow> Inl (KeyError what) | Some v \<Rightarrow> Inr v)"

definition construct_one :: "data_info \<Rightarrow> bool \<Rightarrow> nat \<times> nat list \<Rightarrow> py_error + real \<times> real list" where
  "construct_one d inner_id ur =
     (case ur of (u, rec) \<Rightarrow>
        if inner_id then Inr (real u, map real rec)
        else (case lookup (id2user d) ''user'' u of
                Inl e \<Rightarrow> Inl e
              | Inr uid \<Rightarrow>
                 (case collect (map (lookup (id2item d) ''item'') rec) of
                    Inl e \<Rightarrow> Inl e
                  | Inr items \<Rightarrow> Inr (uid, items))))"

definition construct_rec ::
  "data_info \<Rightarrow> nat list \<Rightarrow> nat list list \<Rightarrow> bool \<Rightarrow> py_error + (real \<rightharpoonup> real list)" where
  "construct_rec d user_ids computed_recs inner_id =
     (case collect (map (construct_one d inner_id) (zip user_ids computed_recs)) of
        Inl e \<Rightarrow> Inl e
      | Inr pairs \<Rightarrow> Inr (map_of (rev pairs)))"

text \<open>
  The list comprehension over \<open>user_ids\<close>: it stops at the first exception. Each user
  has a list of draws of its own.
\<close>

fun recommend_all ::
  "(cf_base \<Rightarrow> nat \<Rightarrow> nat list \<times> real list) \<Rightarrow> cf_base \<Rightarrow> nat list list \<Rightarrow> nat list \<Rightarrow> nat \<Rightarrow>
   bool \<Rightarrow> bool \<Rightarrow> (py_error + nat list list) \<times> cf_base" where
  "recommend_all score self draws [] n_rec filter_consumed random_rec = (Inr [], self)"
| "recommend_all score self draws (u # us) n_rec filter_consumed random_rec =
     (case recommend_one score self (case draws of [] \<Rightarrow> [] | ds # _ \<Rightarrow> ds) u n_rec
             filter_consumed random_rec of
        (Inl e, self1) \<Rightarrow> (Inl e, self1)
      | (Inr rec, self1) \<Rightarrow>
         (case recommend_all score self1 (tl draws) us n_rec filter_consumed random_rec of
            (Inl e, self2) \<Rightarrow> (Inl e, self2)
          | (Inr recs, self2) \<Rightarrow> (Inr (rec # recs), self2)))"

text \<open>
  The loop \<open>for u in unknown_users\<close> of \<open>recommend_user\<close>: one call of
  \<open>popular_recommendations(self.data_info, inner_id, n_rec)\<close> for each unknown user,
  on the object as the call before left it, the list stored under the user. The
  function called is the argument \<open>popular\<close>; \<open>recommend_user\<close> calls the loop with
  \<open>popular_recommendations\<close>.
\<close>

fun cold_start_recs ::
  "(data_info \<Rightarrow> bool \<Rightarrow> nat \<Rightarrow> (py_error + real list) \<times> data_info) \<Rightarrow> data_info \<Rightarrow>
   real list \<Rightarrow> bool \<Rightarrow> nat \<Rightarrow> (real \<rightharpoonup> real list) \<Rightarrow>
   (py_error + (real \<rightharpoonup> real list)) \<times> data_info" where
  "cold_start_recs popular d [] inner_id n_rec result_recs = (Inr result_recs, d)"
| "cold_start_recs popular d (u # unknown_users) inner_id n_rec result_recs =
     (case popular d inner_id n_rec of
        (Inl e, d') \<Rightarrow> (Inl e, d')
      | (Inr populars, d') \<Rightarrow>
          cold_start_recs popular d' unknown_users inner_id n_rec (result_recs(u \<mapsto> populars)))"

definition recommend_user ::
  "(cf_base \<Rightarrow> nat \<Rightarrow> nat list \<times> real list) \<Rightarrow> cf_base \<Rightarrow> nat list list \<Rightarrow> real list \<Rightarrow> nat \<Rightarrow>
   string \<Rightarrow> bool \<Rightarrow> bool \<Rightarrow> bool \<Rightarrow> (py_error + (real \<rightharpoonup> real list)) \<times> cf_base" where
  "recommend_user score self0 draws user n_rec cold_start inner_id filter_consumed random_rec =
     (case check_unknown_user (data_info self0) user inner_id of
        ((user_ids, unknown_users), d) \<Rightarrow>
          (let self1 = self0\<lparr>data_info := d\<rparr> in
           if unknown_users \<noteq> [] \<and> cold_start \<noteq> ''popular'' then
             (Inl (ValueError (model_name self1 @ '' only supports `popular` cold start strategy'')),
              self1)
           else
             (case cold_start_recs popular_recommendations (data_info self1) unknown_users
                     inner_id n_rec Map.empty of
                (Inl e, d') \<Rightarrow> (Inl e, self1\<lparr>data_info := d'\<rparr>)
              | (Inr result_recs, d') \<Rightarrow>
                 let self = self1\<lparr>data_info := d'\<rparr> in
                 if user_ids \<noteq> [] then
                   (case recommend_all score self draws user_ids n_rec filter_consumed random_rec of
                      (Inl e, self2) \<Rightarrow> (Inl e, self2)
                    | (Inr computed_recs, self2) \<Rightarrow>
                       (case construct_rec (data_info self2) user_ids computed_recs inner_id of
                          Inl e \<Rightarrow> (Inl e, self2)
                        | Inr user_recs \<Rightarrow>
                            (Inr (result_recs ++ user_recs),
                             if inner_id then self2
                             else self2\<lparr>data_info :=
                                    read_id2item (read_id2user (data_info self2))\<rparr>)))
                 else (Inr result_recs, self))))"

text \<open>
  \<open>pre_predict_check\<close>: the pairs to predict, with every unknown user or item at the
  oov index.
\<close>

definition convert_id ::
  "data_info \<Rightarrow> real list \<Rightarrow> real list \<Rightarrow> bool \<Rightarrow> (nat option list \<times> nat option list) \<times> data_info" where
  "convert_id d user item inner_id =
     ((map (known_user d inner_id) user, map (known_item d inner_id) item),
      (if inner_id then read_n_items (read_n_users d) else read_item2id (read_user2id d)))"

definition check_unknown ::
  "data_info \<Rightarrow> nat option list \<Rightarrow> nat option list \<Rightarrow> nat \<times> nat list \<times> nat list \<times> nat list" where
  "check_unknown d user item =
     (let unknown_index = filter (\<lambda>k. user ! k = None \<or> item ! k = None)
                            [0..<min (length user) (length item)]
      in (length unknown_index, unknown_index,
          map (\<lambda>(u, i). if u = None \<or> i = None then n_users d else the u) (zip user item),
          map (\<lambda>(u, i). if u = None \<or> i = None then n_items d else the i) (zip user item)))"

definition pre_predict_check ::
  "cf_base \<Rightarrow> real list \<Rightarrow> real list \<Rightarrow> bool \<Rightarrow> string \<Rightarrow>
   (py_error + nat list \<times> nat list) \<times> cf_base" where
  "pre_predict_check self0 user item inner_id cold_start =
     (case convert_id (data_info self0) user item inner_id of
        ((user_arr, item_arr), d) \<Rightarrow>
          (let self = self0\<lparr>data_info := d\<rparr> in
           case check_unknown (data_info self) user_arr item_arr of
             (unknown_num, unknown_index, user_arr', item_arr') \<Rightarrow>
               if unknown_num > 0 \<and> cold_start \<noteq> ''popular''
               then (Inl (ValueError (model_name self @ '' only supports popular strategy'')), self)
               else (Inr (user_arr', item_arr'), self)))"

section \<open>Vocabulary of the properties, and an example\<close>

text \<open>The caches behind the properties hold nothing stale.\<close>

definition caches_valid :: "data_info \<Rightarrow> bool" where
  "caches_valid d \<longleftrightarrow>
     (cached_n_users d = None \<or> cached_n_users d = Some (length (user_unique_vals d))) \<and>
     (cached_n_items d = None \<or> cached_n_items d = Some (length (item_unique_vals d))) \<and>
     (cached_user2id d = None \<or>
      cached_user2id d = Some (dict_zip (user_unique_vals d) (length (user_unique_vals d)))) \<and>
     (cached_item2id d = None \<or>
      cached_item2id d = Some (dict_zip (item_unique_vals d) (length (item_unique_vals d))))"

text \<open>What a matrix becomes when its entity kind gains k ids.\<close>

definition grown :: "'a::zero ndarray option \<Rightarrow> nat \<Rightarrow> 'a ndarray option" where
  "grown m k = (if k > 0 then map_option (\<lambda>a. extend_rows a k) m else m)"


text \<open>
  An example: two users (10, 20) with a sparse feature \<open>sex\<close> and a dense feature
  \<open>age\<close>, three items (100, 200, 300) with a sparse feature \<open>genre\<close> and a dense
  feature \<open>price\<close>, and three interactions. \<open>example_info\<close> is the object the
  constructor builds from \<open>example_args\<close> (with a generator that has no draw).
\<close>

definition example_mapping :: name_mapping where
  "example_mapping =
     \<lparr>sparse_col_map = [(''sex'', 0), (''genre'', 1)],
      dense_col_map = [(''age'', 0), (''price'', 1)],
      user_sparse_col_map = [(''sex'', 0)],
      user_dense_col_map = [(''age'', 0)],
      item_sparse_col_map = [(''genre'', 1)],
      item_dense_col_map = [(''price'', 1)],
      multi_sparse_map = None\<rparr>"

definition example_args :: args where
  "example_args =
     \<lparr>arg_col_name_mapping = Some (Some example_mapping),
      arg_interaction_data = Some [(10, 100, 5), (10, 200, 3), (20, 100, 4)],
      arg_user_sparse_unique = Some (NdArray 1 [[0], [1]]),
      arg_user_dense_unique = Some (NdArray 1 [[20], [40]]),
      arg_item_sparse_unique = Some (NdArray 1 [[3], [4], [5]]),
      arg_item_dense_unique = Some (NdArray 1 [[1], [2], [3]]),
      arg_user_indices = Some [0, 0, 1],
      arg_item_indices = Some [0, 1, 0],
      arg_user_unique_vals = Some [10, 20],
      arg_item_unique_vals = Some [100, 200, 300],
      arg_sparse_unique_vals = Some [(''sex'', [0, 1]), (''genre'', [7, 8, 9])],
      arg_sparse_offset = Some [0, 3],
      arg_sparse_oov = Some [2, 6],
      arg_multi_sparse_unique_vals = None,
      arg_multi_sparse_combine_info = None\<rparr>"

definition example_info :: data_info where
  "example_info =
     \<lparr>col_name_mapping = Some example_mapping,
      interaction_data = Some [(10, 100, 5), (10, 200, 3), (20, 100, 4)],
      user_sparse_unique = Some (NdArray 1 [[0], [1], [2]]),
      user_dense_unique = Some (NdArray 1 [[20], [40], [30]]),
      item_sparse_unique = Some (NdArray 1 [[3], [4], [5], [6]]),
      item_dense_unique = Some (NdArray 1 [[1], [2], [3], [2]]),
      user_consumed = [0 \<mapsto> [0, 1], 1 \<mapsto> [0]],
      item_consumed = [0 \<mapsto> [0, 1], 1 \<mapsto> [0]],
      user_unique_vals = [10, 20],
      item_unique_vals = [100, 200, 300],
      sparse_unique_vals = Some [(''sex'', [0, 1]), (''genre'', [7, 8, 9])],
      sparse_unique_idxs = Some [(''sex'', dict_zip [0, 1] 2), (''genre'', dict_zip [7, 8, 9] 3)],
      sparse_offset = Some [0, 3],
      sparse_oov = Some [2, 6],
      multi_sparse_unique_vals = None,
      multi_sparse_unique_idxs = None,
      multi_sparse_combine_info = None,
      np_rng = [],
      cached_n_users = Some 2,
      cached_n_items = Some 3,
      cached_user2id = None,
      cached_item2id = None,
      cached_id2user = None,
      cached_id2item = None,
      cached_data_size = None,
      popular_items = Some [100, 200],
      old_n_users = None,
      old_n_items = None,
      old_sparse_len = None,
      old_sparse_oov = None,
      old_sparse_offset = None,
      all_args = example_args,
      user_sparse_shared = False,
      user_dense_shared = False,
      item_sparse_shared = False,
      item_dense_shared = False\<rparr>"

definition example_frame :: frame where
  "example_frame =
     [(''user'', [30, 10, 5]), (''item'', [200, 150, 400]),
      (''sex'', [1, 4, 0]), (''genre'', [8, 8, 8])]"

text \<open>The row counts of the feature matrices, and the effect of growing on one matrix.\<close>

definition row_count_is :: "'a ndarray option \<Rightarrow> nat \<Rightarrow> bool" where
  "row_count_is m n = (case m of None \<Rightarrow> True | Some a \<Rightarrow> length (rows a) = n)"

definition has_oov_rows :: "data_info \<Rightarrow> bool" where
  "has_oov_rows d \<longleftrightarrow>
     row_count_is (user_sparse_unique d) (n_users d + 1) \<and>
     row_count_is (user_dense_unique d) (n_users d + 1) \<and>
     row_count_is (item_sparse_unique d) (n_items d + 1) \<and>
     row_count_is (item_dense_unique d) (n_items d + 1)"

definition oov_appended :: "'a ndarray option \<Rightarrow> 'a ndarray option \<Rightarrow> nat \<Rightarrow> bool" where
  "oov_appended m1 m2 k =
     (case (m1, m2) of
        (None, None) \<Rightarrow> True
      | (Some a, Some b) \<Rightarrow>
          if k = 0 then b = a else rows b \<noteq> [] \<and> butlast (rows b) = rows a
      | _ \<Rightarrow> False)"

text \<open>One matrix through add_oov: n rows get the oov row, any other count stays.\<close>

definition oov_step :: "'a ndarray option \<Rightarrow> 'a ndarray option \<Rightarrow> nat \<Rightarrow> bool" where
  "oov_step m m' n =
     (case m of None \<Rightarrow> m' = None
      | Some a \<Rightarrow> if length (rows a) = n
          then \<exists>oov. m' = Some (NdArray (n_cols a) (rows a @ [oov]))
          else m' = Some a)"

text \<open>
  An object whose matrix has no oov row when \<open>expand\<close> is called does not get one back:
  after a second growth with no \<open>add_oov\<close> in between, the user sparse matrix has four
  rows for five users, and \<open>add_oov\<close> leaves it so.
\<close>

definition example_frame2 :: frame where
  "example_frame2 = [(''user'', [77]), (''item'', [100]), (''sex'', [1]), (''genre'', [8])]"

definition example_expanded_twice :: data_info where
  "example_expanded_twice =
     snd (expand_sparse_unique_vals_and_matrix
            (snd (expand_sparse_unique_vals_and_matrix example_info example_frame)) example_frame2)"

text \<open>
  The frame condition of an assignment: the matrix keeps its shape, and a cell has
  changed only in a row that is hit and a column that is hit.
\<close>

definition only_changed :: "'a ndarray \<Rightarrow> 'a ndarray \<Rightarrow> (nat \<Rightarrow> bool) \<Rightarrow> (nat \<Rightarrow> bool) \<Rightarrow> bool" where
  "only_changed m m' row_hit col_hit \<longleftrightarrow>
     n_cols m' = n_cols m \<and> length (rows m') = length (rows m) \<and>
     list_all (\<lambda>r. length (rows m' ! r) = length (rows m ! r) \<and>
                  list_all (\<lambda>c. rows m' ! r ! c = rows m ! r ! c \<or> row_hit r \<and> col_hit c)
                    [0..<length (rows m ! r)])
       [0..<length (rows m)]"

definition only_changed_opt ::
  "'a ndarray option \<Rightarrow> 'a ndarray option \<Rightarrow> (nat \<Rightarrow> bool) \<Rightarrow> (nat \<Rightarrow> bool) \<Rightarrow> bool" where
  "only_changed_opt m m' row_hit col_hit =
     (case (m, m') of
        (None, None) \<Rightarrow> True
      | (Some a, Some b) \<Rightarrow> only_changed a b row_hit col_hit
      | _ \<Rightarrow> False)"

text \<open>The rows the incoming identifiers address: the inner ids of those the index knows.\<close>

definition addressed :: "(real \<rightharpoonup> nat) \<Rightarrow> frame \<Rightarrow> string \<Rightarrow> nat \<Rightarrow> bool" where
  "addressed to_id data key r =
     (case map_of data key of None \<Rightarrow> False | Some ids \<Rightarrow> r \<in> set (List.map_filter to_id ids))"

text \<open>The matrix columns whose column name the frame has.\<close>

definition in_frame :: "Feature \<Rightarrow> frame \<Rightarrow> nat \<Rightarrow> bool" where
  "in_frame col_info data c \<longleftrightarrow> c < length (name col_info) \<and> name col_info ! c \<in> set (columns data)"

definition example_user_data :: frame where
  "example_user_data = [(''user'', [20, 99]), (''age'', [41, 50])]"

text \<open>
  The calls on one model instance that count in \<open>print_count\<close>, each with its
  arguments: \<open>compute_pred\<close> (user, item, common_size, common_sims, common_labels) and
  \<open>rank_recommendations\<close> (the draws, user, ids, preds, n_rec, consumed, filter_consumed,
  random_rec). \<open>run\<close> makes the calls of a list one after the other.
\<close>

datatype call =
    Predict real real nat "real list" "real list"
  | Rank "nat list" nat "nat list" "real list" nat "nat list" bool bool

fun step :: "cf_base \<Rightarrow> call \<Rightarrow> cf_base" where
  "step self (Predict user item common_size common_sims common_labels) =
     snd (compute_pred self user item common_size common_sims common_labels)"
| "step self (Rank draws user ids preds n_rec consumed filter_consumed random_rec) =
     snd (rank_recommendations self draws user ids preds n_rec consumed filter_consumed random_rec)"

definition run :: "cf_base \<Rightarrow> call list \<Rightarrow> cf_base" where
  "run self calls = foldl step self calls"

text \<open>
  A prediction without a qualifying neighbor, and the calls that add one to
  \<open>print_count\<close>: such a prediction, and a ranking that is left without a candidate.
\<close>

fun no_neighbor :: "call \<Rightarrow> bool" where
  "no_neighbor (Predict user item common_size common_sims common_labels) =
     (common_size = 0 \<or> list_all (\<lambda>s. s \<le> 0) common_sims)"
| "no_neighbor (Rank draws user ids preds n_rec consumed filter_consumed random_rec) = False"

fun counted :: "call \<Rightarrow> bool" where
  "counted (Predict user item common_size common_sims common_labels) =
     (common_size = 0 \<or> list_all (\<lambda>s. s \<le> 0) common_sims)"
| "counted (Rank draws user ids preds n_rec consumed filter_consumed random_rec) =
     (fst (if filter_consumed then filter_items ids preds consumed else (ids, preds)) = [])"

fun is_predict :: "call \<Rightarrow> bool" where
  "is_predict (Predict user item common_size common_sims common_labels) = True"
| "is_predict (Rank draws user ids preds n_rec consumed filter_consumed random_rec) = False"

fun warning_of :: "call \<Rightarrow> message" where
  "warning_of (Predict user item common_size common_sims common_labels) = NoNeighbor user item"
| "warning_of (Rank draws user ids preds n_rec consumed filter_consumed random_rec) =
     NoRecommendation user"

definition example_model :: cf_base where
  "example_model =
     \<lparr>task = ''rating'', data_info = example_info, model_name = ''ItemCF'',
      default_pred = 4, lower_bound = 3, upper_bound = 5, k_sim = 2,
      print_count = 0, printed = []\<rparr>"

text \<open>
  An example: predictions and rankings on one instance. The third and the sixth call
  are rankings of a user who has consumed both candidates.
\<close>

definition example_calls :: "call list" where
  "example_calls =
     [Predict 10 300 0 [] [], Predict 20 300 0 [] [],
      Rank [] 0 [0, 1] [0.9, 0.8] 2 [0, 1] True False,
      Predict 10 200 2 [0.5, 0.25] [4, 5], Predict 20 200 1 [- 0.5] [3],
      Rank [] 0 [0, 1] [0.9, 0.8] 2 [0, 1] True False,
      Predict 10 300 0 [] []]"

definition example_fallbacks :: "call list" where
  "example_fallbacks = replicate 6 (Rank [] 0 [0, 1] [0.9, 0.8] 2 [0, 1] True False)"

text \<open>The scoring of the example: every user gets the candidates 0 and 1.\<close>

definition example_score :: "cf_base \<Rightarrow> nat \<Rightarrow> nat list \<times> real list" where
  "example_score self u = ([0, 1], [0.9, 0.8])"

text \<open>
  What the requests read of the index: the two directions of the identifier mappings,
  the entity counts and the popular items. Reading a cached property fills a cache and
  leaves all of these as they are.
\<close>

definition index_of ::
  "data_info \<Rightarrow> (real \<rightharpoonup> nat) \<times> (real \<rightharpoonup> nat) \<times> (nat \<rightharpoonup> real) \<times> (nat \<rightharpoonup> real) \<times> nat \<times> nat \<times> real list option" where
  "index_of d = (user2id d, item2id d, id2user d, id2item d, n_users d, n_items d, popular_items d)"

text \<open>\<open>id2user\<close> gives only identifiers that \<open>user2id\<close> knows.\<close>

definition id2user_sound :: "data_info \<Rightarrow> bool" where
  "id2user_sound d \<longleftrightarrow> (\<forall>k x. id2user d k = Some x \<longrightarrow> user2id d x \<noteq> None)"

text \<open>
  A function of the kind \<open>cold_start_recs\<close> calls that is not the one of the spec: it
  draws its \<open>n_rec\<close> items among the popular items with the generator of the object.
\<close>

definition drawing_popular :: "data_info \<Rightarrow> bool \<Rightarrow> nat \<Rightarrow> (py_error + real list) \<times> data_info" where
  "drawing_popular d inner_id n_rec =
     (case popular_items d of
        None \<Rightarrow> (Inl TypeError, d)
      | Some populars \<Rightarrow>
          (Inr (random_sample (np_rng d) populars n_rec), d\<lparr>np_rng := drop n_rec (np_rng d)\<rparr>))"

text \<open>
  An example: a request for the known user 10 and the unknown users -99999 and -5, and
  after it a request for the unknown user -1.
\<close>

definition example_first :: "(py_error + (real \<rightharpoonup> real list)) \<times> cf_base" where
  "example_first =
     recommend_user example_score example_model [] [10, - 99999, - 5] 3 ''popular'' False True False"

definition example_second :: "(py_error + (real \<rightharpoonup> real list)) \<times> cf_base" where
  "example_second =
     recommend_user example_score (snd example_first) [] [- 1] 3 ''popular'' False True False"

text \<open>The fields the round trip of save and load is about.\<close>

definition claimed ::
  "data_info \<Rightarrow> (real \<rightharpoonup> nat) \<times> (real \<rightharpoonup> nat) \<times> int ndarray option \<times> real ndarray option \<times>
     int ndarray option \<times> real ndarray option \<times> (nat \<rightharpoonup> nat list) \<times> (nat \<rightharpoonup> nat list)" where
  "claimed d =
     (user2id d, item2id d, user_sparse_unique d, user_dense_unique d,
      item_sparse_unique d, item_dense_unique d, user_consumed d, item_consumed d)"

text \<open>
  \<open>all_args\<close> is current: it has the object's column-name mapping, and the constructor
  builds from it an object with the same claimed fields (which do not depend on the
  generator the constructor is given).
\<close>

definition saved_args_current :: "data_info \<Rightarrow> bool" where
  "saved_args_current d \<longleftrightarrow>
     (case arg_col_name_mapping (all_args d) of None \<Rightarrow> None | Some m \<Rightarrow> m) = col_name_mapping d \<and>
     (case DataInfo_init (np_rng d) (all_args d) of Inl e \<Rightarrow> False | Inr d0 \<Rightarrow> claimed d0 = claimed d)"

abbreviation (input) upd :: "(string \<times> npz_value) list \<Rightarrow> string \<times> npz_value \<Rightarrow> (string \<times> npz_value) list" where
  "upd \<equiv> (\<lambda>h (k, v). AList.update k v h)"

text \<open>The dictionaries of unique values as \<open>load\<close> puts them together again.\<close>

definition reloaded_dict ::
  "nat \<Rightarrow> (string \<times> real list) list option \<Rightarrow> (string \<times> npz_value) list \<Rightarrow>
   (string \<times> real list) list option" where
  "reloaded_dict n dict xs =
     foldl (\<lambda>d (k, v). case v of RealArray x \<Rightarrow> dict_set d (drop n k) x | _ \<Rightarrow> d) dict xs"

text \<open>
  The constructor does not read the dictionaries of unique values for the claimed
  fields, nor the generator: an object whose dictionaries, \<open>all_args\<close> and generator
  are replaced goes through \<open>add_oov\<close> and \<open>set_popular_items\<close> in the same way.
\<close>

definition with_dicts ::
  "(string \<times> real list) list option \<Rightarrow> (string \<times> (real \<rightharpoonup> nat)) list option \<Rightarrow>
   (string \<times> real list) list option \<Rightarrow> (string \<times> (real \<rightharpoonup> nat)) list option \<Rightarrow> args \<Rightarrow>
   nat list \<Rightarrow> data_info \<Rightarrow> data_info" where
  "with_dicts x1 x2 x3 x4 x5 x6 d =
     d\<lparr>sparse_unique_vals := x1, sparse_unique_idxs := x2, multi_sparse_unique_vals := x3,
       multi_sparse_unique_idxs := x4, all_args := x5, np_rng := x6\<rparr>"

text \<open>A file system with nothing in it.\<close>

definition example_fs :: file_system where
  "example_fs = \<lparr>dirs = [], files = (\<lambda>p. None)\<rparr>"

text \<open>The example object after new features were assigned to user 20.\<close>

definition example_assigned :: data_info where
  "example_assigned = snd (assign_user_features example_info example_user_data)"

section \<open>Verification\<close>

lemma set_setdiff1d: "set (setdiff1d a b) = set a - set b"
  by (auto simp: setdiff1d_def)



lemma setdiff1d_empty: "set a \<subseteq> set b \<Longrightarrow> setdiff1d a b = []"
  by (auto simp: setdiff1d_def filter_empty_conv)


lemma setdiff1d_saturated: "setdiff1d a (b @ setdiff1d a b) = []"
  by (rule setdiff1d_empty) (auto simp: set_setdiff1d)

lemma and_then_None:
  "and_then r f = (None, s') \<longleftrightarrow> (\<exists>s. r = (None, s) \<and> f s = (None, s'))"
  by (cases r) (auto simp: and_then_def split: option.splits)

lemma and_then_Some: "and_then (Some e, s) f = (Some e, s)"
  by (simp add: and_then_def)

lemma and_then_None_eq: "and_then (None, s) f = f s"
  by (simp add: and_then_def)


lemma caches_valid_n_users: "caches_valid d \<Longrightarrow> n_users d = length (user_unique_vals d)"
  by (auto simp: caches_valid_def n_users_def)

lemma caches_valid_n_items: "caches_valid d \<Longrightarrow> n_items d = length (item_unique_vals d)"
  by (auto simp: caches_valid_def n_items_def)



lemma store_old_info_keeps:
  assumes "store_old_info d = (e, d')"
  shows "user_unique_vals d' = user_unique_vals d \<and> item_unique_vals d' = item_unique_vals d \<and>
     sparse_unique_vals d' = sparse_unique_vals d \<and> sparse_unique_idxs d' = sparse_unique_idxs d \<and>
     multi_sparse_unique_vals d' = multi_sparse_unique_vals d \<and>
     multi_sparse_unique_idxs d' = multi_sparse_unique_idxs d \<and>
     user_sparse_unique d' = user_sparse_unique d \<and> user_dense_unique d' = user_dense_unique d \<and>
     item_sparse_unique d' = item_sparse_unique d \<and> item_dense_unique d' = item_dense_unique d"
  using assms
  by (auto simp: store_old_info_def Let_def read_n_users_def read_n_items_def
           split: if_splits prod.splits)

lemma reset_property_keeps:
  "user_unique_vals (reset_property d) = user_unique_vals d \<and>
   item_unique_vals (reset_property d) = item_unique_vals d \<and>
   sparse_unique_vals (reset_property d) = sparse_unique_vals d \<and>
   sparse_unique_idxs (reset_property d) = sparse_unique_idxs d \<and>
   multi_sparse_unique_vals (reset_property d) = multi_sparse_unique_vals d \<and>
   multi_sparse_unique_idxs (reset_property d) = multi_sparse_unique_idxs d \<and>
   user_sparse_unique (reset_property d) = user_sparse_unique d \<and>
   user_dense_unique (reset_property d) = user_dense_unique d \<and>
   item_sparse_unique (reset_property d) = item_sparse_unique d \<and>
   item_dense_unique (reset_property d) = item_dense_unique d \<and>
   cached_n_users (reset_property d) = None \<and> cached_n_items (reset_property d) = None \<and>
   cached_user2id (reset_property d) = None \<and> cached_item2id (reset_property d) = None"
  by (simp add: reset_property_def)

lemma extend_unique_matrix_user:
  "user_sparse_unique (extend_unique_matrix d ''user'' k) = map_option (\<lambda>a. extend_rows a k) (user_sparse_unique d) \<and>
   user_dense_unique (extend_unique_matrix d ''user'' k) = map_option (\<lambda>a. extend_rows a k) (user_dense_unique d) \<and>
   item_sparse_unique (extend_unique_matrix d ''user'' k) = item_sparse_unique d \<and>
   item_dense_unique (extend_unique_matrix d ''user'' k) = item_dense_unique d \<and>
   user_unique_vals (extend_unique_matrix d ''user'' k) = user_unique_vals d \<and>
   item_unique_vals (extend_unique_matrix d ''user'' k) = item_unique_vals d \<and>
   sparse_unique_vals (extend_unique_matrix d ''user'' k) = sparse_unique_vals d \<and>
   sparse_unique_idxs (extend_unique_matrix d ''user'' k) = sparse_unique_idxs d \<and>
   multi_sparse_unique_vals (extend_unique_matrix d ''user'' k) = multi_sparse_unique_vals d \<and>
   multi_sparse_unique_idxs (extend_unique_matrix d ''user'' k) = multi_sparse_unique_idxs d \<and>
   cached_n_users (extend_unique_matrix d ''user'' k) = cached_n_users d \<and>
   cached_n_items (extend_unique_matrix d ''user'' k) = cached_n_items d \<and>
   cached_user2id (extend_unique_matrix d ''user'' k) = cached_user2id d \<and>
   cached_item2id (extend_unique_matrix d ''user'' k) = cached_item2id d"
  by (simp add: extend_unique_matrix_def Let_def split: option.splits)

lemma extend_unique_matrix_item:
  "user_sparse_unique (extend_unique_matrix d ''item'' k) = user_sparse_unique d \<and>
   user_dense_unique (extend_unique_matrix d ''item'' k) = user_dense_unique d \<and>
   item_sparse_unique (extend_unique_matrix d ''item'' k) = map_option (\<lambda>a. extend_rows a k) (item_sparse_unique d) \<and>
   item_dense_unique (extend_unique_matrix d ''item'' k) = map_option (\<lambda>a. extend_rows a k) (item_dense_unique d) \<and>
   user_unique_vals (extend_unique_matrix d ''item'' k) = user_unique_vals d \<and>
   item_unique_vals (extend_unique_matrix d ''item'' k) = item_unique_vals d \<and>
   sparse_unique_vals (extend_unique_matrix d ''item'' k) = sparse_unique_vals d \<and>
   sparse_unique_idxs (extend_unique_matrix d ''item'' k) = sparse_unique_idxs d \<and>
   multi_sparse_unique_vals (extend_unique_matrix d ''item'' k) = multi_sparse_unique_vals d \<and>
   multi_sparse_unique_idxs (extend_unique_matrix d ''item'' k) = multi_sparse_unique_idxs d \<and>
   cached_n_users (extend_unique_matrix d ''item'' k) = cached_n_users d \<and>
   cached_n_items (extend_unique_matrix d ''item'' k) = cached_n_items d \<and>
   cached_user2id (extend_unique_matrix d ''item'' k) = cached_user2id d \<and>
   cached_item2id (extend_unique_matrix d ''item'' k) = cached_item2id d"
  by (simp add: extend_unique_matrix_def Let_def split: option.splits)

lemma expand_users_None:
  assumes "expand_users d data = (None, d')"
  shows "\<exists>users. getattr data ''user'' = Inr users \<and>
     user_unique_vals d' = user_unique_vals d @ setdiff1d users (user_unique_vals d) \<and>
     user_sparse_unique d' = grown (user_sparse_unique d) (length (setdiff1d users (user_unique_vals d))) \<and>
     user_dense_unique d' = grown (user_dense_unique d) (length (setdiff1d users (user_unique_vals d))) \<and>
     item_sparse_unique d' = item_sparse_unique d \<and> item_dense_unique d' = item_dense_unique d \<and>
     item_unique_vals d' = item_unique_vals d \<and>
     sparse_unique_vals d' = sparse_unique_vals d \<and> sparse_unique_idxs d' = sparse_unique_idxs d \<and>
     multi_sparse_unique_vals d' = multi_sparse_unique_vals d \<and>
     multi_sparse_unique_idxs d' = multi_sparse_unique_idxs d \<and>
     cached_n_users d' = cached_n_users d \<and> cached_n_items d' = cached_n_items d \<and>
     cached_user2id d' = cached_user2id d \<and> cached_item2id d' = cached_item2id d"
proof (cases "getattr data ''user''")
  case (Inl e)
  with assms show ?thesis by (simp add: expand_users_def)
next
  case (Inr users)
  show ?thesis
  proof (cases "setdiff1d users (user_unique_vals d) = []")
    case True
    with assms Inr show ?thesis by (simp add: expand_users_def grown_def)
  next
    case False
    with assms Inr have "d' = extend_unique_matrix
        (d\<lparr>user_unique_vals := user_unique_vals d @ setdiff1d users (user_unique_vals d)\<rparr>)
        ''user'' (length (setdiff1d users (user_unique_vals d)))"
      by (simp add: expand_users_def Let_def)
    with Inr False show ?thesis
      by (simp add: extend_unique_matrix_user grown_def)
  qed
qed

lemma expand_items_None:
  assumes "expand_items d data = (None, d')"
  shows "\<exists>items. getattr data ''item'' = Inr items \<and>
     item_unique_vals d' = item_unique_vals d @ setdiff1d items (item_unique_vals d) \<and>
     item_sparse_unique d' = grown (item_sparse_unique d) (length (setdiff1d items (item_unique_vals d))) \<and>
     item_dense_unique d' = grown (item_dense_unique d) (length (setdiff1d items (item_unique_vals d))) \<and>
     user_sparse_unique d' = user_sparse_unique d \<and> user_dense_unique d' = user_dense_unique d \<and>
     user_unique_vals d' = user_unique_vals d \<and>
     sparse_unique_vals d' = sparse_unique_vals d \<and> sparse_unique_idxs d' = sparse_unique_idxs d \<and>
     multi_sparse_unique_vals d' = multi_sparse_unique_vals d \<and>
     multi_sparse_unique_idxs d' = multi_sparse_unique_idxs d \<and>
     cached_n_users d' = cached_n_users d \<and> cached_n_items d' = cached_n_items d \<and>
     cached_user2id d' = cached_user2id d \<and> cached_item2id d' = cached_item2id d"
proof (cases "getattr data ''item''")
  case (Inl e)
  with assms show ?thesis by (simp add: expand_items_def)
next
  case (Inr items)
  show ?thesis
  proof (cases "setdiff1d items (item_unique_vals d) = []")
    case True
    with assms Inr show ?thesis by (simp add: expand_items_def grown_def)
  next
    case False
    with assms Inr have "d' = extend_unique_matrix
        (d\<lparr>item_unique_vals := item_unique_vals d @ setdiff1d items (item_unique_vals d)\<rparr>)
        ''item'' (length (setdiff1d items (item_unique_vals d)))"
      by (simp add: expand_items_def Let_def)
    with Inr False show ?thesis
      by (simp add: extend_unique_matrix_item grown_def)
  qed
qed

lemma expand_sparse_keeps:
  assumes "expand_sparse d data = (e, d')"
  shows "user_unique_vals d' = user_unique_vals d \<and> item_unique_vals d' = item_unique_vals d \<and>
     multi_sparse_unique_vals d' = multi_sparse_unique_vals d \<and>
     multi_sparse_unique_idxs d' = multi_sparse_unique_idxs d \<and>
     user_sparse_unique d' = user_sparse_unique d \<and> user_dense_unique d' = user_dense_unique d \<and>
     item_sparse_unique d' = item_sparse_unique d \<and> item_dense_unique d' = item_dense_unique d \<and>
     cached_n_users d' = cached_n_users d \<and> cached_n_items d' = cached_n_items d \<and>
     cached_user2id d' = cached_user2id d \<and> cached_item2id d' = cached_item2id d"
  using assms by (auto simp: expand_sparse_def split: option.splits prod.splits)

lemma expand_multi_sparse_keeps:
  assumes "expand_multi_sparse d data = (e, d')"
  shows "user_unique_vals d' = user_unique_vals d \<and> item_unique_vals d' = item_unique_vals d \<and>
     sparse_unique_vals d' = sparse_unique_vals d \<and>
     sparse_unique_idxs d' = sparse_unique_idxs d \<and>
     user_sparse_unique d' = user_sparse_unique d \<and> user_dense_unique d' = user_dense_unique d \<and>
     item_sparse_unique d' = item_sparse_unique d \<and> item_dense_unique d' = item_dense_unique d \<and>
     cached_n_users d' = cached_n_users d \<and> cached_n_items d' = cached_n_items d \<and>
     cached_user2id d' = cached_user2id d \<and> cached_item2id d' = cached_item2id d"
  using assms by (auto simp: expand_multi_sparse_def split: option.splits prod.splits)

text \<open>The stages of a call of expand that returns normally.\<close>

lemma expand_stages:
  assumes "expand_sparse_unique_vals_and_matrix d data = (None, d')"
  obtains a c e f where
    "store_old_info d = (None, a)"
    "expand_users (reset_property a) data = (None, c)"
    "expand_items c data = (None, e)"
    "expand_sparse e data = (None, f)"
    "expand_multi_sparse f data = (None, d')"
  using assms unfolding expand_sparse_unique_vals_and_matrix_def and_then_None
  by auto

lemma expand_fields:
  assumes "expand_sparse_unique_vals_and_matrix d data = (None, d')"
  shows "\<exists>users items.
     getattr data ''user'' = Inr users \<and> getattr data ''item'' = Inr items \<and>
     user_unique_vals d' = user_unique_vals d @ setdiff1d users (user_unique_vals d) \<and>
     item_unique_vals d' = item_unique_vals d @ setdiff1d items (item_unique_vals d) \<and>
     user_sparse_unique d' = grown (user_sparse_unique d) (length (setdiff1d users (user_unique_vals d))) \<and>
     user_dense_unique d' = grown (user_dense_unique d) (length (setdiff1d users (user_unique_vals d))) \<and>
     item_sparse_unique d' = grown (item_sparse_unique d) (length (setdiff1d items (item_unique_vals d))) \<and>
     item_dense_unique d' = grown (item_dense_unique d) (length (setdiff1d items (item_unique_vals d))) \<and>
     cached_n_users d' = None \<and> cached_n_items d' = None \<and>
     cached_user2id d' = None \<and> cached_item2id d' = None"
proof -
  from assms obtain a c e f where st:
    "store_old_info d = (None, a)"
    "expand_users (reset_property a) data = (None, c)"
    "expand_items c data = (None, e)"
    "expand_sparse e data = (None, f)"
    "expand_multi_sparse f data = (None, d')"
    by (rule expand_stages)
  note k0 = store_old_info_keeps [OF st(1)]
  note k1 = reset_property_keeps [of a]
  from expand_users_None [OF st(2)] obtain users where u:
    "getattr data ''user'' = Inr users"
    "user_unique_vals c = user_unique_vals (reset_property a) @ setdiff1d users (user_unique_vals (reset_property a))"
    "user_sparse_unique c = grown (user_sparse_unique (reset_property a)) (length (setdiff1d users (user_unique_vals (reset_property a))))"
    "user_dense_unique c = grown (user_dense_unique (reset_property a)) (length (setdiff1d users (user_unique_vals (reset_property a))))"
    "item_sparse_unique c = item_sparse_unique (reset_property a)"
    "item_dense_unique c = item_dense_unique (reset_property a)"
    "item_unique_vals c = item_unique_vals (reset_property a)"
    "cached_n_users c = cached_n_users (reset_property a)"
    "cached_n_items c = cached_n_items (reset_property a)"
    "cached_user2id c = cached_user2id (reset_property a)"
    "cached_item2id c = cached_item2id (reset_property a)"
    by blast
  from expand_items_None [OF st(3)] obtain items where i:
    "getattr data ''item'' = Inr items"
    "item_unique_vals e = item_unique_vals c @ setdiff1d items (item_unique_vals c)"
    "item_sparse_unique e = grown (item_sparse_unique c) (length (setdiff1d items (item_unique_vals c)))"
    "item_dense_unique e = grown (item_dense_unique c) (length (setdiff1d items (item_unique_vals c)))"
    "user_sparse_unique e = user_sparse_unique c"
    "user_dense_unique e = user_dense_unique c"
    "user_unique_vals e = user_unique_vals c"
    "cached_n_users e = cached_n_users c"
    "cached_n_items e = cached_n_items c"
    "cached_user2id e = cached_user2id c"
    "cached_item2id e = cached_item2id c"
    by blast
  note k3 = expand_sparse_keeps [OF st(4)]
  note k4 = expand_multi_sparse_keeps [OF st(5)]
  show ?thesis
    using u i k0 k1 k3 k4 by simp
qed










lemmas example_defs = example_info_def example_frame_def example_mapping_def example_args_def

lemmas expand_eval =
  expand_sparse_unique_vals_and_matrix_def and_then_def store_old_info_def Let_def
  read_n_users_def read_n_items_def n_users_def n_items_def sparse_col_def feature_of_def
  has_key_def dict_len_def append_old_def append_old_multi_def index_arr_def
  reset_property_def expand_users_def expand_items_def expand_sparse_def expand_multi_sparse_def
  getattr_def getitem_def setdiff1d_def extend_unique_matrix_def extend_rows_def drop_last_def
  np_zeros_def enumerate_eq_zip

lemma example_stage0:
  "fst (store_old_info example_info) = None"
  by (simp add: example_defs expand_eval)

lemma example_expand_ok:
  "fst (expand_sparse_unique_vals_and_matrix example_info example_frame) = None"
  by (simp add: example_defs expand_eval)


lemma grown_alt:
  "grown m k = (if k = 0 then m
     else map_option (\<lambda>a. NdArray (n_cols a) (butlast (rows a) @ replicate k (replicate (n_cols a) 0))) m)"
  by (simp add: grown_def extend_rows_def drop_last_def np_zeros_def)

lemma row_count_grown:
  assumes "row_count_is m (n + 1)"
  shows "row_count_is (grown m k) (n + k + (if k = 0 then 1 else 0))"
  using assms by (cases m) (auto simp: row_count_is_def grown_alt)

lemma add_oov_user_sparse_None:
  assumes "add_oov_user_sparse d = (None, d')" "caches_valid d"
  shows "caches_valid d' \<and> user_unique_vals d' = user_unique_vals d \<and>
     item_unique_vals d' = item_unique_vals d \<and>
     user_dense_unique d' = user_dense_unique d \<and> item_sparse_unique d' = item_sparse_unique d \<and>
     item_dense_unique d' = item_dense_unique d \<and>
     oov_step (user_sparse_unique d) (user_sparse_unique d') (length (user_unique_vals d))"
  using assms caches_valid_n_users [OF assms(2)]
  by (auto simp: oov_step_def add_oov_user_sparse_def Let_def read_n_users_def caches_valid_def vstack_row_def
           split: option.splits if_splits sum.splits)

lemma add_oov_item_sparse_None:
  assumes "add_oov_item_sparse d = (None, d')" "caches_valid d"
  shows "caches_valid d' \<and> user_unique_vals d' = user_unique_vals d \<and>
     item_unique_vals d' = item_unique_vals d \<and>
     user_dense_unique d' = user_dense_unique d \<and> user_sparse_unique d' = user_sparse_unique d \<and>
     item_dense_unique d' = item_dense_unique d \<and>
     oov_step (item_sparse_unique d) (item_sparse_unique d') (length (item_unique_vals d))"
  using assms caches_valid_n_items [OF assms(2)]
  by (auto simp: oov_step_def add_oov_item_sparse_def Let_def read_n_items_def caches_valid_def vstack_row_def
           split: option.splits if_splits sum.splits)

lemma add_oov_user_dense_None:
  assumes "add_oov_user_dense d = (None, d')" "caches_valid d"
  shows "caches_valid d' \<and> user_unique_vals d' = user_unique_vals d \<and>
     item_unique_vals d' = item_unique_vals d \<and>
     user_sparse_unique d' = user_sparse_unique d \<and> item_sparse_unique d' = item_sparse_unique d \<and>
     item_dense_unique d' = item_dense_unique d \<and>
     oov_step (user_dense_unique d) (user_dense_unique d') (length (user_unique_vals d))"
  using assms caches_valid_n_users [OF assms(2)]
  by (auto simp: oov_step_def add_oov_user_dense_def Let_def read_n_users_def caches_valid_def vstack_row_def
           split: option.splits if_splits sum.splits)

lemma add_oov_item_dense_None:
  assumes "add_oov_item_dense d = (None, d')" "caches_valid d"
  shows "caches_valid d' \<and> user_unique_vals d' = user_unique_vals d \<and>
     item_unique_vals d' = item_unique_vals d \<and>
     user_sparse_unique d' = user_sparse_unique d \<and> item_sparse_unique d' = item_sparse_unique d \<and>
     user_dense_unique d' = user_dense_unique d \<and>
     oov_step (item_dense_unique d) (item_dense_unique d') (length (item_unique_vals d))"
  using assms caches_valid_n_items [OF assms(2)]
  by (auto simp: oov_step_def add_oov_item_dense_def Let_def read_n_items_def caches_valid_def vstack_row_def
           split: option.splits if_splits sum.splits)

lemma add_oov_None:
  assumes "add_oov d = (None, d')" "caches_valid d"
  shows "caches_valid d' \<and> user_unique_vals d' = user_unique_vals d \<and>
     item_unique_vals d' = item_unique_vals d \<and>
     oov_step (user_sparse_unique d) (user_sparse_unique d') (length (user_unique_vals d)) \<and>
     oov_step (user_dense_unique d) (user_dense_unique d') (length (user_unique_vals d)) \<and>
     oov_step (item_sparse_unique d) (item_sparse_unique d') (length (item_unique_vals d)) \<and>
     oov_step (item_dense_unique d) (item_dense_unique d') (length (item_unique_vals d))"
proof -
  from assms(1) obtain a b c where st:
    "add_oov_user_sparse d = (None, a)" "add_oov_item_sparse a = (None, b)"
    "add_oov_user_dense b = (None, c)" "add_oov_item_dense c = (None, d')"
    unfolding add_oov_def and_then_None by auto
  note s1 = add_oov_user_sparse_None [OF st(1) assms(2)]
  then have va: "caches_valid a" by simp
  note s2 = add_oov_item_sparse_None [OF st(2) va]
  then have vb: "caches_valid b" by simp
  note s3 = add_oov_user_dense_None [OF st(3) vb]
  then have vc: "caches_valid c" by simp
  note s4 = add_oov_item_dense_None [OF st(4) vc]
  have vals: "user_unique_vals d' = user_unique_vals d" "item_unique_vals d' = item_unique_vals d"
    "user_unique_vals c = user_unique_vals d" "item_unique_vals c = item_unique_vals d"
    "user_unique_vals b = user_unique_vals d" "item_unique_vals b = item_unique_vals d"
    "user_unique_vals a = user_unique_vals d" "item_unique_vals a = item_unique_vals d"
    using s1 s2 s3 s4 by simp_all
  have us: "user_sparse_unique d' = user_sparse_unique a"
    using s2 s3 s4 by simp
  have isp: "item_sparse_unique d' = item_sparse_unique b" "item_sparse_unique a = item_sparse_unique d"
    using s1 s3 s4 by simp_all
  have ud: "user_dense_unique d' = user_dense_unique c" "user_dense_unique b = user_dense_unique d"
    using s1 s2 s4 by simp_all
  have idn: "item_dense_unique c = item_dense_unique d"
    using s1 s2 s3 by simp
  have "oov_step (user_sparse_unique d) (user_sparse_unique d') (length (user_unique_vals d))"
    using s1 us by simp
  moreover have "oov_step (item_sparse_unique d) (item_sparse_unique d') (length (item_unique_vals d))"
    using s2 isp vals by simp
  moreover have "oov_step (user_dense_unique d) (user_dense_unique d') (length (user_unique_vals d))"
    using s3 ud vals by simp
  moreover have "oov_step (item_dense_unique d) (item_dense_unique d') (length (item_unique_vals d))"
    using s4 idn vals by simp
  ultimately show ?thesis
    using s4 vals by simp
qed

lemma oov_step_grown:
  assumes "oov_step (grown m k) m' (n + k)" "row_count_is m (n + 1)"
  shows "row_count_is m' (n + k + 1) \<and> oov_appended (grown m k) m' k"
  using assms
  by (cases m; cases "k = 0")
     (auto simp: oov_step_def grown_alt row_count_is_def oov_appended_def butlast_append)

lemma add_oov_has_oov_rows:
  assumes "add_oov d = (None, d')" and "caches_valid d"
    and "row_count_is (user_sparse_unique d) (n_users d) \<or> row_count_is (user_sparse_unique d) (n_users d + 1)"
    and "row_count_is (user_dense_unique d) (n_users d) \<or> row_count_is (user_dense_unique d) (n_users d + 1)"
    and "row_count_is (item_sparse_unique d) (n_items d) \<or> row_count_is (item_sparse_unique d) (n_items d + 1)"
    and "row_count_is (item_dense_unique d) (n_items d) \<or> row_count_is (item_dense_unique d) (n_items d + 1)"
  shows "has_oov_rows d' \<and> caches_valid d'"
proof -
  note s = add_oov_None [OF assms(1,2)]
  then have v: "caches_valid d'" by simp
  have n: "n_users d' = length (user_unique_vals d)" "n_items d' = length (item_unique_vals d)"
    "n_users d = length (user_unique_vals d)" "n_items d = length (item_unique_vals d)"
    using s caches_valid_n_users [OF v] caches_valid_n_items [OF v]
      caches_valid_n_users [OF assms(2)] caches_valid_n_items [OF assms(2)]
    by simp_all
  have step: "row_count_is m' (k + 1)"
    if "oov_step m m' k" "row_count_is m k \<or> row_count_is m (k + 1)" for m m' :: "'a ndarray option" and k
    using that by (cases m) (auto simp: oov_step_def row_count_is_def split: if_splits)
  have "row_count_is (user_sparse_unique d') (length (user_unique_vals d) + 1)"
    using s assms(3) unfolding n by (intro step [of "user_sparse_unique d"]) simp_all
  moreover have "row_count_is (user_dense_unique d') (length (user_unique_vals d) + 1)"
    using s assms(4) unfolding n by (intro step [of "user_dense_unique d"]) simp_all
  moreover have "row_count_is (item_sparse_unique d') (length (item_unique_vals d) + 1)"
    using s assms(5) unfolding n by (intro step [of "item_sparse_unique d"]) simp_all
  moreover have "row_count_is (item_dense_unique d') (length (item_unique_vals d) + 1)"
    using s assms(6) unfolding n by (intro step [of "item_dense_unique d"]) simp_all
  ultimately show ?thesis
    using v unfolding has_oov_rows_def n by simp
qed

text \<open>The stages of the constructor: the fields as given, \<open>add_oov\<close>, \<open>set_popular_items\<close>.\<close>

lemma DataInfo_init_stages:
  assumes "DataInfo_init default_rng a = Inr d"
  obtains b d1 where
    "user_sparse_unique b = arg_user_sparse_unique a" "user_dense_unique b = arg_user_dense_unique a"
    "item_sparse_unique b = arg_item_sparse_unique a" "item_dense_unique b = arg_item_dense_unique a"
    "cached_n_users b = None" "cached_n_items b = None"
    "cached_user2id b = None" "cached_item2id b = None" "cached_id2user b = None"
    "arg_user_unique_vals a = Some (user_unique_vals b)"
    "arg_item_unique_vals a = Some (item_unique_vals b)"
    "all_args b = a\<lparr>arg_col_name_mapping :=
        Some (case arg_col_name_mapping a of None \<Rightarrow> None | Some m \<Rightarrow> m)\<rparr>"
    "col_name_mapping b = (case arg_col_name_mapping a of None \<Rightarrow> None | Some m \<Rightarrow> m)"
    "add_oov b = (None, d1)" "set_popular_items d1 100 = Inr d"
proof -
  from assms obtain uv iv ui ii where s: "arg_user_unique_vals a = Some uv"
    "arg_item_unique_vals a = Some iv" "arg_user_indices a = Some ui" "arg_item_indices a = Some ii"
    by (auto simp: DataInfo_init_def split: option.splits)
  define mapping where "mapping = (case arg_col_name_mapping a of None \<Rightarrow> None | Some m \<Rightarrow> m)"
  define b where "b = \<lparr>col_name_mapping = mapping,
                    interaction_data = arg_interaction_data a,
                    user_sparse_unique = arg_user_sparse_unique a,
                    user_dense_unique = arg_user_dense_unique a,
                    item_sparse_unique = arg_item_sparse_unique a,
                    item_dense_unique = arg_item_dense_unique a,
                    user_consumed = fst (interaction_consumed ui ii),
                    item_consumed = snd (interaction_consumed ui ii),
                    user_unique_vals = uv,
                    item_unique_vals = iv,
                    sparse_unique_vals = arg_sparse_unique_vals a,
                    sparse_unique_idxs = map_unique_vals (arg_sparse_unique_vals a),
                    sparse_offset = arg_sparse_offset a,
                    sparse_oov = arg_sparse_oov a,
                    multi_sparse_unique_vals = arg_multi_sparse_unique_vals a,
                    multi_sparse_unique_idxs = map_unique_vals (arg_multi_sparse_unique_vals a),
                    multi_sparse_combine_info = arg_multi_sparse_combine_info a,
                    np_rng = default_rng,
                    cached_n_users = None, cached_n_items = None,
                    cached_user2id = None, cached_item2id = None,
                    cached_id2user = None, cached_id2item = None,
                    cached_data_size = None,
                    popular_items = None,
                    old_n_users = None, old_n_items = None,
                    old_sparse_len = None, old_sparse_oov = None, old_sparse_offset = None,
                    all_args = a\<lparr>arg_col_name_mapping := Some mapping\<rparr>,
                    user_sparse_shared = True, user_dense_shared = True,
                    item_sparse_shared = True, item_dense_shared = True\<rparr>"
  have "DataInfo_init default_rng a =
      (case add_oov b of (Some e, d1) \<Rightarrow> Inl e | (None, d1) \<Rightarrow> set_popular_items d1 100)"
    by (simp add: DataInfo_init_def s b_def mapping_def Let_def)
  with assms obtain d1 where "add_oov b = (None, d1)" "set_popular_items d1 100 = Inr d"
    by (cases "add_oov b") (auto split: option.splits)
  then show thesis
    by (intro that [of b d1]) (simp_all add: b_def s mapping_def)
qed

lemma DataInfo_init_caches_valid:
  assumes "DataInfo_init default_rng a = Inr d"
  shows "caches_valid d"
proof -
  from DataInfo_init_stages [OF assms] obtain b d1 where
    b: "cached_n_users b = None" "cached_n_items b = None"
       "cached_user2id b = None" "cached_item2id b = None"
    and o: "add_oov b = (None, d1)" and p: "set_popular_items d1 100 = Inr d"
    by metis
  have "caches_valid b"
    using b by (simp add: caches_valid_def)
  from add_oov_None [OF o this] have "caches_valid d1" by simp
  moreover from p have "user_unique_vals d = user_unique_vals d1"
    "item_unique_vals d = item_unique_vals d1" "cached_n_users d = cached_n_users d1"
    "cached_n_items d = cached_n_items d1" "cached_user2id d = cached_user2id d1"
    "cached_item2id d = cached_item2id d1"
    by (auto simp: set_popular_items_def Let_def split: option.splits)
  ultimately show ?thesis
    by (simp add: caches_valid_def)
qed

text \<open>
  The constructor leaves the matrices with their oov rows when it is given matrices of
  n_entities or n_entities + 1 rows.
\<close>

lemma DataInfo_init_has_oov_rows:
  assumes "DataInfo_init default_rng a = Inr d"
    and "row_count_is (arg_user_sparse_unique a) (length (user_unique_vals d)) \<or>
         row_count_is (arg_user_sparse_unique a) (length (user_unique_vals d) + 1)"
    and "row_count_is (arg_user_dense_unique a) (length (user_unique_vals d)) \<or>
         row_count_is (arg_user_dense_unique a) (length (user_unique_vals d) + 1)"
    and "row_count_is (arg_item_sparse_unique a) (length (item_unique_vals d)) \<or>
         row_count_is (arg_item_sparse_unique a) (length (item_unique_vals d) + 1)"
    and "row_count_is (arg_item_dense_unique a) (length (item_unique_vals d)) \<or>
         row_count_is (arg_item_dense_unique a) (length (item_unique_vals d) + 1)"
  shows "has_oov_rows d \<and> caches_valid d"
proof -
  from DataInfo_init_stages [OF assms(1)] obtain b d1 where
    b: "user_sparse_unique b = arg_user_sparse_unique a" "user_dense_unique b = arg_user_dense_unique a"
       "item_sparse_unique b = arg_item_sparse_unique a" "item_dense_unique b = arg_item_dense_unique a"
       "cached_n_users b = None" "cached_n_items b = None"
       "cached_user2id b = None" "cached_item2id b = None"
    and o: "add_oov b = (None, d1)" and p: "set_popular_items d1 100 = Inr d"
    by metis
  have vb: "caches_valid b"
    using b by (simp add: caches_valid_def)
  from p have k: "user_sparse_unique d = user_sparse_unique d1"
    "user_dense_unique d = user_dense_unique d1" "item_sparse_unique d = item_sparse_unique d1"
    "item_dense_unique d = item_dense_unique d1" "user_unique_vals d = user_unique_vals d1"
    "item_unique_vals d = item_unique_vals d1" "cached_n_users d = cached_n_users d1"
    "cached_n_items d = cached_n_items d1" "cached_user2id d = cached_user2id d1"
    "cached_item2id d = cached_item2id d1"
    by (auto simp: set_popular_items_def Let_def split: option.splits)
  note s = add_oov_None [OF o vb]
  have u: "user_unique_vals d = user_unique_vals b" "item_unique_vals d = item_unique_vals b"
    using s k by simp_all
  have "has_oov_rows d1 \<and> caches_valid d1"
    using assms(2-5) b(1-4) u caches_valid_n_users [OF vb] caches_valid_n_items [OF vb]
    by (intro add_oov_has_oov_rows [OF o vb]) simp_all
  moreover have "n_users d = n_users d1" "n_items d = n_items d1"
    by (simp_all add: n_users_def n_items_def k split: option.splits)
  ultimately show ?thesis
    by (simp add: has_oov_rows_def caches_valid_def k)
qed

text \<open>
  Claim C2, as the code has it. When \<open>expand_sparse_unique_vals_and_matrix\<close> returns
  normally and an entity kind gained k > 0 identifiers, \<open>extend_unique_matrix\<close> has
  replaced each matrix of that kind by its rows without the last one followed by k rows
  of zeros; a kind that gained nothing keeps its matrices. The next \<open>add_oov\<close> that
  returns normally appends one row to a matrix exactly when the matrix has n_entities
  rows, and leaves a matrix of any other size as it is. So for an object whose matrices
  have n_entities + 1 rows, the last being the oov row: after the growth by k > 0 the
  matrix has exactly n_entities rows and no oov row, and the count n_entities + 1 comes
  back with that \<open>add_oov\<close>, which puts a new oov row after the new rows.
\<close>

theorem extend_drops_oov_row_add_oov_restores:
  assumes "expand_sparse_unique_vals_and_matrix d data = (None, d1)"
    and "caches_valid d"
  shows "\<exists>ku ki.
     length (user_unique_vals d1) = length (user_unique_vals d) + ku \<and>
     length (item_unique_vals d1) = length (item_unique_vals d) + ki \<and>
     user_sparse_unique d1 = grown (user_sparse_unique d) ku \<and>
     user_dense_unique d1 = grown (user_dense_unique d) ku \<and>
     item_sparse_unique d1 = grown (item_sparse_unique d) ki \<and>
     item_dense_unique d1 = grown (item_dense_unique d) ki \<and>
     (\<forall>d2. add_oov d1 = (None, d2) \<longrightarrow>
        n_users d2 = n_users d1 \<and> n_items d2 = n_items d1 \<and>
        oov_step (user_sparse_unique d1) (user_sparse_unique d2) (n_users d1) \<and>
        oov_step (user_dense_unique d1) (user_dense_unique d2) (n_users d1) \<and>
        oov_step (item_sparse_unique d1) (item_sparse_unique d2) (n_items d1) \<and>
        oov_step (item_dense_unique d1) (item_dense_unique d2) (n_items d1)) \<and>
     (has_oov_rows d \<longrightarrow>
        row_count_is (user_sparse_unique d1) (n_users d1 + (if ku = 0 then 1 else 0)) \<and>
        row_count_is (user_dense_unique d1) (n_users d1 + (if ku = 0 then 1 else 0)) \<and>
        row_count_is (item_sparse_unique d1) (n_items d1 + (if ki = 0 then 1 else 0)) \<and>
        row_count_is (item_dense_unique d1) (n_items d1 + (if ki = 0 then 1 else 0)) \<and>
        (\<forall>d2. add_oov d1 = (None, d2) \<longrightarrow>
           has_oov_rows d2 \<and>
           oov_appended (user_sparse_unique d1) (user_sparse_unique d2) ku \<and>
           oov_appended (user_dense_unique d1) (user_dense_unique d2) ku \<and>
           oov_appended (item_sparse_unique d1) (item_sparse_unique d2) ki \<and>
           oov_appended (item_dense_unique d1) (item_dense_unique d2) ki))"
proof -
  from expand_fields [OF assms(1)] obtain users items where f:
    "user_unique_vals d1 = user_unique_vals d @ setdiff1d users (user_unique_vals d)"
    "item_unique_vals d1 = item_unique_vals d @ setdiff1d items (item_unique_vals d)"
    "user_sparse_unique d1 = grown (user_sparse_unique d) (length (setdiff1d users (user_unique_vals d)))"
    "user_dense_unique d1 = grown (user_dense_unique d) (length (setdiff1d users (user_unique_vals d)))"
    "item_sparse_unique d1 = grown (item_sparse_unique d) (length (setdiff1d items (item_unique_vals d)))"
    "item_dense_unique d1 = grown (item_dense_unique d) (length (setdiff1d items (item_unique_vals d)))"
    "cached_n_users d1 = None" "cached_n_items d1 = None"
    "cached_user2id d1 = None" "cached_item2id d1 = None"
    by blast
  define ku where "ku = length (setdiff1d users (user_unique_vals d))"
  define ki where "ki = length (setdiff1d items (item_unique_vals d))"
  define nu where "nu = length (user_unique_vals d)"
  define ni where "ni = length (item_unique_vals d)"
  have v1: "caches_valid d1" using f by (simp add: caches_valid_def)
  have n1: "n_users d1 = nu + ku" "n_items d1 = ni + ki"
    using f by (simp_all add: n_users_def n_items_def ku_def ki_def nu_def ni_def)
  have l1: "length (user_unique_vals d1) = nu + ku" "length (item_unique_vals d1) = ni + ki"
    using f(1,2) by (simp_all add: ku_def ki_def nu_def ni_def)
  have step: "n_users d2 = n_users d1 \<and> n_items d2 = n_items d1 \<and>
        oov_step (user_sparse_unique d1) (user_sparse_unique d2) (n_users d1) \<and>
        oov_step (user_dense_unique d1) (user_dense_unique d2) (n_users d1) \<and>
        oov_step (item_sparse_unique d1) (item_sparse_unique d2) (n_items d1) \<and>
        oov_step (item_dense_unique d1) (item_dense_unique d2) (n_items d1)"
    if a: "add_oov d1 = (None, d2)" for d2
  proof -
    note s = add_oov_None [OF a v1]
    then have v2: "caches_valid d2" by simp
    have "n_users d2 = nu + ku" "n_items d2 = ni + ki"
      using s l1 caches_valid_n_users [OF v2] caches_valid_n_items [OF v2] by simp_all
    with s l1 n1 show ?thesis by simp
  qed
  have cond: "row_count_is (user_sparse_unique d1) (n_users d1 + (if ku = 0 then 1 else 0)) \<and>
        row_count_is (user_dense_unique d1) (n_users d1 + (if ku = 0 then 1 else 0)) \<and>
        row_count_is (item_sparse_unique d1) (n_items d1 + (if ki = 0 then 1 else 0)) \<and>
        row_count_is (item_dense_unique d1) (n_items d1 + (if ki = 0 then 1 else 0)) \<and>
        (\<forall>d2. add_oov d1 = (None, d2) \<longrightarrow>
           has_oov_rows d2 \<and>
           oov_appended (user_sparse_unique d1) (user_sparse_unique d2) ku \<and>
           oov_appended (user_dense_unique d1) (user_dense_unique d2) ku \<and>
           oov_appended (item_sparse_unique d1) (item_sparse_unique d2) ki \<and>
           oov_appended (item_dense_unique d1) (item_dense_unique d2) ki)"
    if h: "has_oov_rows d"
  proof -
    have inv: "row_count_is (user_sparse_unique d) (nu + 1)" "row_count_is (user_dense_unique d) (nu + 1)"
      "row_count_is (item_sparse_unique d) (ni + 1)" "row_count_is (item_dense_unique d) (ni + 1)"
      using h caches_valid_n_users [OF assms(2)] caches_valid_n_items [OF assms(2)]
      by (simp_all add: has_oov_rows_def nu_def ni_def)
    have rc: "row_count_is (user_sparse_unique d1) (n_users d1 + (if ku = 0 then 1 else 0))"
      "row_count_is (user_dense_unique d1) (n_users d1 + (if ku = 0 then 1 else 0))"
      "row_count_is (item_sparse_unique d1) (n_items d1 + (if ki = 0 then 1 else 0))"
      "row_count_is (item_dense_unique d1) (n_items d1 + (if ki = 0 then 1 else 0))"
      using row_count_grown [OF inv(1), of ku] row_count_grown [OF inv(2), of ku]
        row_count_grown [OF inv(3), of ki] row_count_grown [OF inv(4), of ki] f(3-6) n1
      unfolding ku_def [symmetric] ki_def [symmetric] by simp_all
    have after: "has_oov_rows d2 \<and>
          oov_appended (user_sparse_unique d1) (user_sparse_unique d2) ku \<and>
          oov_appended (user_dense_unique d1) (user_dense_unique d2) ku \<and>
          oov_appended (item_sparse_unique d1) (item_sparse_unique d2) ki \<and>
          oov_appended (item_dense_unique d1) (item_dense_unique d2) ki"
      if a: "add_oov d1 = (None, d2)" for d2
    proof -
      note s = add_oov_None [OF a v1]
      then have v2: "caches_valid d2" by simp
      have n2: "n_users d2 = nu + ku" "n_items d2 = ni + ki"
        using s f(1,2) caches_valid_n_users [OF v2] caches_valid_n_items [OF v2]
        by (simp_all add: ku_def ki_def nu_def ni_def)
      have os: "oov_step (grown (user_sparse_unique d) ku) (user_sparse_unique d2) (nu + ku)"
        "oov_step (grown (user_dense_unique d) ku) (user_dense_unique d2) (nu + ku)"
        "oov_step (grown (item_sparse_unique d) ki) (item_sparse_unique d2) (ni + ki)"
        "oov_step (grown (item_dense_unique d) ki) (item_dense_unique d2) (ni + ki)"
        using s f(3-6) l1 by (simp_all add: ku_def ki_def)
      note g = oov_step_grown [OF os(1) inv(1)] oov_step_grown [OF os(2) inv(2)]
        oov_step_grown [OF os(3) inv(3)] oov_step_grown [OF os(4) inv(4)]
      show ?thesis
        using g f(3-6) n2 unfolding ku_def [symmetric] ki_def [symmetric]
        by (simp add: has_oov_rows_def)
    qed
    from rc after show ?thesis by blast
  qed
  have len: "length (user_unique_vals d1) = length (user_unique_vals d) + ku"
    "length (item_unique_vals d1) = length (item_unique_vals d) + ki"
    using f(1,2) by (simp_all add: ku_def ki_def)
  have mats: "user_sparse_unique d1 = grown (user_sparse_unique d) ku"
    "user_dense_unique d1 = grown (user_dense_unique d) ku"
    "item_sparse_unique d1 = grown (item_sparse_unique d) ki"
    "item_dense_unique d1 = grown (item_dense_unique d) ki"
    using f(3-6) by (simp_all add: ku_def ki_def)
  show ?thesis
    apply (rule exI [of _ ku], rule exI [of _ ki])
    using len mats step cond by blast
qed

lemmas add_oov_eval =
  add_oov_def add_oov_user_sparse_def add_oov_item_sparse_def add_oov_user_dense_def
  add_oov_item_dense_def take_arr_def vstack_row_def np_mean_axis0_def
  user_sparse_col_def item_sparse_col_def user_dense_col_def item_dense_col_def

lemma example_caches_valid: "caches_valid example_info"
  by (simp add: caches_valid_def example_info_def)

lemma example_has_oov_rows: "has_oov_rows example_info"
  by (simp add: has_oov_rows_def row_count_is_def n_users_def n_items_def example_info_def)

lemma example_expand_eq:
  "expand_sparse_unique_vals_and_matrix example_info example_frame =
     (None, snd (expand_sparse_unique_vals_and_matrix example_info example_frame))"
  using example_expand_ok by (simp add: prod_eq_iff)

lemma example_expand_items:
  "item_unique_vals (snd (expand_sparse_unique_vals_and_matrix example_info example_frame)) =
     [100, 200, 300, 150, 400]"
  by (simp add: example_defs expand_eval)

lemma example_expand_user_sparse:
  "user_sparse_unique (snd (expand_sparse_unique_vals_and_matrix example_info example_frame)) =
     Some (NdArray 1 [[0], [1], [0], [0]])"
  by (simp add: example_defs expand_eval)

lemma example_expand_n_users:
  "n_users (snd (expand_sparse_unique_vals_and_matrix example_info example_frame)) = 4"
  by (simp add: example_defs expand_eval)

lemma example_add_oov_ok:
  "fst (add_oov (snd (expand_sparse_unique_vals_and_matrix example_info example_frame))) = None"
  by (simp add: example_defs expand_eval add_oov_eval)

lemma example_add_oov_user_sparse:
  "user_sparse_unique (snd (add_oov (snd (expand_sparse_unique_vals_and_matrix example_info example_frame)))) =
     Some (NdArray 1 [[0], [1], [0], [0], [2]])"
  by (simp add: example_defs expand_eval add_oov_eval)




text \<open>
  Claim C2 as stated fails: after two new users the user sparse matrix has four rows for
  four users, and its last row is a row of zeros, not the oov row.
\<close>

theorem extend_drops_oov_row_counterexample:
  "has_oov_rows example_info \<and>
   user_sparse_unique example_info = Some (NdArray 1 [[0], [1], [2]]) \<and>
   fst (expand_sparse_unique_vals_and_matrix example_info example_frame) = None \<and>
   n_users (snd (expand_sparse_unique_vals_and_matrix example_info example_frame)) = 4 \<and>
   user_sparse_unique (snd (expand_sparse_unique_vals_and_matrix example_info example_frame)) =
     Some (NdArray 1 [[0], [1], [0], [0]]) \<and>
   \<not> has_oov_rows (snd (expand_sparse_unique_vals_and_matrix example_info example_frame))"
proof -
  have "user_sparse_unique example_info = Some (NdArray 1 [[0], [1], [2]])"
    by (simp add: example_info_def)
  moreover have "\<not> has_oov_rows (snd (expand_sparse_unique_vals_and_matrix example_info example_frame))"
    using example_expand_user_sparse example_expand_n_users
    by (simp add: has_oov_rows_def row_count_is_def)
  ultimately show ?thesis
    using example_has_oov_rows example_expand_ok example_expand_n_users example_expand_user_sparse
    by simp
qed

theorem extend_drops_oov_row_add_oov_restores_witness:
  "fst (expand_sparse_unique_vals_and_matrix example_info example_frame) = None \<and>
   caches_valid example_info \<and> has_oov_rows example_info \<and>
   fst (add_oov (snd (expand_sparse_unique_vals_and_matrix example_info example_frame))) = None \<and>
   user_sparse_unique (snd (expand_sparse_unique_vals_and_matrix example_info example_frame)) =
     Some (NdArray 1 [[0], [1], [0], [0]]) \<and>
   user_sparse_unique (snd (add_oov (snd (expand_sparse_unique_vals_and_matrix example_info example_frame)))) =
     Some (NdArray 1 [[0], [1], [0], [0], [2]]) \<and>
   has_oov_rows (snd (add_oov (snd (expand_sparse_unique_vals_and_matrix example_info example_frame))))"
proof -
  have a: "add_oov (snd (expand_sparse_unique_vals_and_matrix example_info example_frame)) =
      (None, snd (add_oov (snd (expand_sparse_unique_vals_and_matrix example_info example_frame))))"
    using example_add_oov_ok by (simp add: prod_eq_iff)
  from extend_drops_oov_row_add_oov_restores [OF example_expand_eq example_caches_valid]
    example_has_oov_rows a
  have "has_oov_rows (snd (add_oov (snd (expand_sparse_unique_vals_and_matrix example_info example_frame))))"
    by blast
  then show ?thesis
    using example_expand_ok example_caches_valid example_has_oov_rows example_add_oov_ok
      example_expand_user_sparse example_add_oov_user_sparse
    by simp
qed

lemma example_expand_twice:
  "fst (expand_sparse_unique_vals_and_matrix
          (snd (expand_sparse_unique_vals_and_matrix example_info example_frame)) example_frame2) = None \<and>
   fst (add_oov example_expanded_twice) = None \<and>
   n_users (snd (add_oov example_expanded_twice)) = 5 \<and>
   user_sparse_unique example_expanded_twice = Some (NdArray 1 [[0], [1], [0], [0]]) \<and>
   user_sparse_unique (snd (add_oov example_expanded_twice)) = Some (NdArray 1 [[0], [1], [0], [0]])"
  by code_simp

lemma only_changed_iff:
  "only_changed m m' R C \<longleftrightarrow>
     n_cols m' = n_cols m \<and> length (rows m') = length (rows m) \<and>
     (\<forall>r<length (rows m). length (rows m' ! r) = length (rows m ! r) \<and>
        (\<forall>c<length (rows m ! r). rows m' ! r ! c = rows m ! r ! c \<or> R r \<and> C c))"
  unfolding only_changed_def list_all_iff Ball_def by simp

lemma only_changed_refl: "only_changed m m R C"
  by (simp add: only_changed_iff)

lemma only_changed_mono:
  assumes "only_changed m m' R C" "\<And>r. R r \<Longrightarrow> R' r" "\<And>c. C c \<Longrightarrow> C' c"
  shows "only_changed m m' R' C'"
  using assms unfolding only_changed_iff by blast

lemma only_changed_trans:
  assumes "only_changed m m1 R C1" "only_changed m1 m2 R C2"
  shows "only_changed m m2 R (\<lambda>c. C1 c \<or> C2 c)"
  using assms unfolding only_changed_iff by (metis (no_types, lifting))

lemma only_changed_opt_refl: "only_changed_opt m m R C"
  by (cases m) (simp_all add: only_changed_opt_def only_changed_refl)

lemma only_changed_opt_mono:
  assumes "only_changed_opt m m' R C" "\<And>r. R r \<Longrightarrow> R' r" "\<And>c. C c \<Longrightarrow> C' c"
  shows "only_changed_opt m m' R' C'"
  using assms
  by (cases m; cases m') (auto simp: only_changed_opt_def intro: only_changed_mono)

lemma set_cell_length: "length (set_cell rs r c v) = length rs"
  by (simp add: set_cell_def)

lemma set_cell_row_length: "length (set_cell rs r c v ! r') = length (rs ! r')"
  by (cases "r' = r"; cases "r < length rs") (simp_all add: set_cell_def list_update_beyond)

lemma set_cell_other:
  "r' \<noteq> r \<or> c' \<noteq> c \<Longrightarrow> set_cell rs r c v ! r' ! c' = rs ! r' ! c'"
  by (cases "r' = r"; cases "r < length rs") (auto simp: set_cell_def list_update_beyond)

lemma foldl_set_cell:
  "length (foldl (\<lambda>rs (x, v). set_cell rs (f x) c v) rs0 ps) = length rs0 \<and>
   (\<forall>r. length (foldl (\<lambda>rs (x, v). set_cell rs (f x) c v) rs0 ps ! r) = length (rs0 ! r)) \<and>
   (\<forall>r c'. foldl (\<lambda>rs (x, v). set_cell rs (f x) c v) rs0 ps ! r ! c' = rs0 ! r ! c' \<or>
       (r \<in> f ` fst ` set ps \<and> c' = c))"
proof (induction ps arbitrary: rs0)
  case Nil
  then show ?case by simp
next
  case (Cons p ps)
  obtain x v where p: "p = (x, v)" by (cases p)
  let ?rs1 = "set_cell rs0 (f x) c v"
  note ih = Cons.IH [of ?rs1]
  show ?case
  proof (intro conjI allI)
    show "length (foldl (\<lambda>rs (x, v). set_cell rs (f x) c v) rs0 (p # ps)) = length rs0"
      using ih by (simp add: p set_cell_length)
  next
    fix r
    show "length (foldl (\<lambda>rs (x, v). set_cell rs (f x) c v) rs0 (p # ps) ! r) = length (rs0 ! r)"
      using ih by (simp add: p set_cell_row_length)
  next
    fix r c'
    from ih have "foldl (\<lambda>rs (x, v). set_cell rs (f x) c v) ?rs1 ps ! r ! c' = ?rs1 ! r ! c' \<or>
        (r \<in> f ` fst ` set ps \<and> c' = c)" by blast
    moreover have "?rs1 ! r ! c' = rs0 ! r ! c' \<or> (r = f x \<and> c' = c)"
      using set_cell_other [of r "f x" c' c rs0 v] by blast
    ultimately show "foldl (\<lambda>rs (x, v). set_cell rs (f x) c v) rs0 (p # ps) ! r ! c' = rs0 ! r ! c' \<or>
        (r \<in> f ` fst ` set (p # ps) \<and> c' = c)"
      by (auto simp: p)
  qed
qed

lemma assign_column_only_changed:
  assumes "assign_column m row_idx feat_idx vals = Inr m'"
  shows "only_changed m m'
     (\<lambda>r. \<exists>x\<in>set row_idx. norm_index (length (rows m)) x = Some r) (\<lambda>c. c = feat_idx)"
proof -
  define vals' where "vals' = (if length vals = length row_idx then vals
                      else replicate (length row_idx) (hd vals))"
  define f where "f = (\<lambda>x. the (norm_index (length (rows m)) x))"
  from assms have ok: "\<forall>x\<in>set row_idx. norm_index (length (rows m)) x \<noteq> None"
    and m': "m' = NdArray (n_cols m) (foldl (\<lambda>rs (x, v). set_cell rs (f x) feat_idx v) (rows m) (zip row_idx vals'))"
    by (auto simp: assign_column_def Let_def vals'_def f_def list_ex_iff split: if_splits)
  note fs = foldl_set_cell [of f feat_idx "rows m" "zip row_idx vals'"]
  have hit: "\<exists>x\<in>set row_idx. norm_index (length (rows m)) x = Some r"
    if "r \<in> f ` fst ` set (zip row_idx vals')" for r
  proof -
    from that obtain x where x: "x \<in> set row_idx" "r = f x"
      by (auto dest: set_zip_leftD)
    with ok show ?thesis by (auto simp: f_def)
  qed
  show ?thesis
    unfolding only_changed_iff m' using fs hit by (simp, blast)
qed

lemma assign_column_rows_length:
  "assign_column m row_idx feat_idx vals = Inr m' \<Longrightarrow> length (rows m') = length (rows m)"
  using assign_column_only_changed [of m row_idx feat_idx vals m'] by (simp add: only_changed_iff)

lemma assign_loop_only_changed:
  assumes "assign_loop vals_of data row_idx ps m = (e, m')"
  shows "only_changed m m'
     (\<lambda>r. \<exists>x\<in>set row_idx. norm_index (length (rows m)) x = Some r)
     (\<lambda>c. \<exists>col. (c, col) \<in> set ps \<and> col \<in> set (columns data))"
  using assms
proof (induction ps arbitrary: m)
  case Nil
  then show ?case by (simp add: only_changed_refl)
next
  case (Cons p ps)
  obtain feat_idx col where p: "p = (feat_idx, col)" by (cases p)
  show ?case
  proof (cases "col \<in> set (columns data)")
    case False
    with Cons.prems p have "assign_loop vals_of data row_idx ps m = (e, m')" by simp
    from Cons.IH [OF this] show ?thesis
      by (rule only_changed_mono) auto
  next
    case True
    show ?thesis
    proof (cases "vals_of feat_idx col")
      case (Inl err)
      with Cons.prems p True show ?thesis by (simp add: only_changed_refl)
    next
      case (Inr vals)
      show ?thesis
      proof (cases "assign_column m row_idx feat_idx vals")
        case (Inl err)
        with Cons.prems p True \<open>vals_of feat_idx col = Inr vals\<close> show ?thesis
          by (simp add: only_changed_refl)
      next
        case (Inr m1)
        with Cons.prems p True \<open>vals_of feat_idx col = Inr vals\<close>
        have r: "assign_loop vals_of data row_idx ps m1 = (e, m')" by simp
        have l: "length (rows m1) = length (rows m)"
          using Inr by (rule assign_column_rows_length)
        have a: "only_changed m m1
            (\<lambda>r. \<exists>x\<in>set row_idx. norm_index (length (rows m)) x = Some r) (\<lambda>c. c = feat_idx)"
          using Inr by (rule assign_column_only_changed)
        have b: "only_changed m1 m'
            (\<lambda>r. \<exists>x\<in>set row_idx. norm_index (length (rows m)) x = Some r)
            (\<lambda>c. \<exists>col. (c, col) \<in> set ps \<and> col \<in> set (columns data))"
          using Cons.IH [OF r] l by simp
        from only_changed_trans [OF a b] show ?thesis
          by (rule only_changed_mono) (use p True in auto)
      qed
    qed
  qed
qed

lemma norm_index_real: "norm_index n (real i) = Some r \<Longrightarrow> r = i"
  by (auto simp: norm_index_def Let_def split: if_splits)

lemma map_ids_columns: "columns (map_ids to_id key ids data) = columns data"
  by (induction data) (auto simp: map_ids_def columns_def)

lemma map_ids_key:
  "map_of data key = Some xs \<Longrightarrow>
   map_of (map_ids to_id key ids data) key = Some (map real (List.map_filter to_id ids))"
  by (induction data) (auto simp: map_ids_def)

lemma enumerate_in_frame:
  "(\<exists>col. (c, col) \<in> set (enumerate 0 (name ci)) \<and> col \<in> set (columns data)) \<Longrightarrow> in_frame ci data c"
  by (auto simp: in_frame_def in_set_enumerate_eq)

lemma user2id_read [simp]: "user2id (read_user2id d) = user2id d"
  by (simp add: read_user2id_def user2id_def read_n_users_def split: option.splits)

lemma item2id_read [simp]: "item2id (read_item2id d) = item2id d"
  by (simp add: read_item2id_def item2id_def read_n_items_def split: option.splits)

lemma item2id_read_user [simp]: "item2id (read_user2id d) = item2id d"
  by (simp add: read_user2id_def item2id_def n_items_def read_n_users_def split: option.splits)

lemma user2id_read_item [simp]: "user2id (read_item2id d) = user2id d"
  by (simp add: read_item2id_def user2id_def n_users_def read_n_items_def split: option.splits)

text \<open>The loop of one branch, after check_oov, in the terms of the incoming frame.\<close>

lemma branch_only_changed:
  assumes "assign_loop vals_of (map_ids to_id key ids data) row_idx (enumerate 0 (name ci)) m = (e, m')"
    and "map_of data key = Some ids"
    and "getitem (map_ids to_id key ids data) key = Inr row_idx"
  shows "only_changed m m' (addressed to_id data key) (in_frame ci data)"
proof -
  from assms(2,3) have ri: "row_idx = map real (List.map_filter to_id ids)"
    by (simp add: getitem_def map_ids_key)
  show ?thesis
  proof (rule only_changed_mono [OF assign_loop_only_changed [OF assms(1)]])
    fix r
    assume "\<exists>x\<in>set row_idx. norm_index (length (rows m)) x = Some r"
    then show "addressed to_id data key r"
      using assms(2) by (auto simp: ri addressed_def dest: norm_index_real)
  next
    fix c
    assume "\<exists>col. (c, col) \<in> set (enumerate 0 (name ci)) \<and> col \<in> set (columns (map_ids to_id key ids data))"
    then show "in_frame ci data c"
      by (intro enumerate_in_frame) (simp add: map_ids_columns)
  qed
qed

lemma write_fields [simp]:
  "user_sparse_unique (write_user_sparse d m) = Some m"
  "user_dense_unique (write_user_sparse d m) = user_dense_unique d"
  "item_sparse_unique (write_user_sparse d m) = item_sparse_unique d"
  "item_dense_unique (write_user_sparse d m) = item_dense_unique d"
  "user_sparse_unique (write_user_dense d n) = user_sparse_unique d"
  "user_dense_unique (write_user_dense d n) = Some n"
  "item_sparse_unique (write_user_dense d n) = item_sparse_unique d"
  "item_dense_unique (write_user_dense d n) = item_dense_unique d"
  "user_sparse_unique (write_item_sparse d m) = user_sparse_unique d"
  "user_dense_unique (write_item_sparse d m) = user_dense_unique d"
  "item_sparse_unique (write_item_sparse d m) = Some m"
  "item_dense_unique (write_item_sparse d m) = item_dense_unique d"
  "user_sparse_unique (write_item_dense d n) = user_sparse_unique d"
  "user_dense_unique (write_item_dense d n) = user_dense_unique d"
  "item_sparse_unique (write_item_dense d n) = item_sparse_unique d"
  "item_dense_unique (write_item_dense d n) = Some n"
  by (simp_all add: write_user_sparse_def write_user_dense_def write_item_sparse_def
        write_item_dense_def)

lemma write_index [simp]:
  "user2id (write_user_sparse d m) = user2id d" "item2id (write_user_sparse d m) = item2id d"
  "col_name_mapping (write_user_sparse d m) = col_name_mapping d"
  "user2id (write_user_dense d n) = user2id d" "item2id (write_user_dense d n) = item2id d"
  "col_name_mapping (write_user_dense d n) = col_name_mapping d"
  "user2id (write_item_sparse d m) = user2id d" "item2id (write_item_sparse d m) = item2id d"
  "col_name_mapping (write_item_sparse d m) = col_name_mapping d"
  "user2id (write_item_dense d n) = user2id d" "item2id (write_item_dense d n) = item2id d"
  "col_name_mapping (write_item_dense d n) = col_name_mapping d"
  by (simp_all add: write_user_sparse_def write_user_dense_def write_item_sparse_def
        write_item_dense_def user2id_def item2id_def n_users_def n_items_def split: option.splits)

lemma read_fields [simp]:
  "user_sparse_unique (read_user2id d) = user_sparse_unique d"
  "user_dense_unique (read_user2id d) = user_dense_unique d"
  "item_sparse_unique (read_user2id d) = item_sparse_unique d"
  "item_dense_unique (read_user2id d) = item_dense_unique d"
  "col_name_mapping (read_user2id d) = col_name_mapping d"
  "user_sparse_unique (read_item2id d) = user_sparse_unique d"
  "user_dense_unique (read_item2id d) = user_dense_unique d"
  "item_sparse_unique (read_item2id d) = item_sparse_unique d"
  "item_dense_unique (read_item2id d) = item_dense_unique d"
  "col_name_mapping (read_item2id d) = col_name_mapping d"
  by (simp_all add: read_user2id_def read_item2id_def read_n_users_def read_n_items_def
        split: option.splits)

lemma col_info_read [simp]:
  "user_sparse_col (read_user2id d) = user_sparse_col d"
  "user_dense_col (read_user2id d) = user_dense_col d"
  "item_sparse_col (read_item2id d) = item_sparse_col d"
  "item_dense_col (read_item2id d) = item_dense_col d"
  by (simp_all add: user_sparse_col_def user_dense_col_def item_sparse_col_def item_dense_col_def)

lemma getitem_Some: "getitem data key = Inr xs \<Longrightarrow> map_of data key = Some xs"
  by (auto simp: getitem_def split: option.splits)

lemma assign_sparse_user:
  assumes "assign_sparse_features d data ''user'' = (e, d')"
  shows "only_changed_opt (user_sparse_unique d) (user_sparse_unique d')
       (addressed (user2id d) data ''user'') (in_frame (user_sparse_col d) data) \<and>
     user_dense_unique d' = user_dense_unique d \<and> item_sparse_unique d' = item_sparse_unique d \<and>
     item_dense_unique d' = item_dense_unique d \<and> user2id d' = user2id d \<and>
     item2id d' = item2id d \<and> col_name_mapping d' = col_name_mapping d"
proof (cases "getitem data ''user''")
  case (Inl err)
  with assms show ?thesis
    by (auto simp: assign_sparse_features_def check_oov_def only_changed_opt_refl)
next
  case (Inr users)
  let ?data = "map_ids (user2id d) ''user'' users data"
  let ?d = "read_user2id d"
  from Inr have mo: "map_of data ''user'' = Some users" by (rule getitem_Some)
  then have gi: "getitem ?data ''user'' = Inr (map real (List.map_filter (user2id d) users))"
    by (simp add: getitem_def map_ids_key)
  show ?thesis
  proof (cases "user_sparse_unique d")
    case None
    with assms Inr gi show ?thesis
      by (auto simp: assign_sparse_features_def check_oov_def Let_def only_changed_opt_def)
  next
    case (Some m)
    show ?thesis
    proof (cases "name (user_sparse_col d) = []")
      case True
      with assms Inr gi Some show ?thesis
        by (auto simp: assign_sparse_features_def check_oov_def Let_def only_changed_opt_refl)
    next
      case False
      obtain e1 m' where lp: "assign_loop (sparse_vals_of ?d ?data (user_sparse_col d)) ?data
          (map real (List.map_filter (user2id d) users)) (enumerate 0 (name (user_sparse_col d))) m = (e1, m')"
        by (metis prod.exhaust)
      with assms Inr gi Some False have d': "d' = write_user_sparse ?d m'"
        by (auto simp: assign_sparse_features_def check_oov_def Let_def)
      from branch_only_changed [OF lp mo gi] Some show ?thesis
        by (simp add: d' only_changed_opt_def)
    qed
  qed
qed

lemma assign_sparse_item:
  assumes "assign_sparse_features d data ''item'' = (e, d')"
  shows "only_changed_opt (item_sparse_unique d) (item_sparse_unique d')
       (addressed (item2id d) data ''item'') (in_frame (item_sparse_col d) data) \<and>
     user_dense_unique d' = user_dense_unique d \<and> user_sparse_unique d' = user_sparse_unique d \<and>
     item_dense_unique d' = item_dense_unique d \<and> user2id d' = user2id d \<and>
     item2id d' = item2id d \<and> col_name_mapping d' = col_name_mapping d"
proof (cases "getitem data ''item''")
  case (Inl err)
  with assms show ?thesis
    by (auto simp: assign_sparse_features_def check_oov_def only_changed_opt_refl)
next
  case (Inr items)
  let ?data = "map_ids (item2id d) ''item'' items data"
  let ?d = "read_item2id d"
  from Inr have mo: "map_of data ''item'' = Some items" by (rule getitem_Some)
  then have gi: "getitem ?data ''item'' = Inr (map real (List.map_filter (item2id d) items))"
    by (simp add: getitem_def map_ids_key)
  show ?thesis
  proof (cases "item_sparse_unique d")
    case None
    with assms Inr gi show ?thesis
      by (auto simp: assign_sparse_features_def check_oov_def Let_def only_changed_opt_def)
  next
    case (Some m)
    show ?thesis
    proof (cases "name (item_sparse_col d) = []")
      case True
      with assms Inr gi Some show ?thesis
        by (auto simp: assign_sparse_features_def check_oov_def Let_def only_changed_opt_refl)
    next
      case False
      obtain e1 m' where lp: "assign_loop (sparse_vals_of ?d ?data (item_sparse_col d)) ?data
          (map real (List.map_filter (item2id d) items)) (enumerate 0 (name (item_sparse_col d))) m = (e1, m')"
        by (metis prod.exhaust)
      with assms Inr gi Some False have d': "d' = write_item_sparse ?d m'"
        by (auto simp: assign_sparse_features_def check_oov_def Let_def)
      from branch_only_changed [OF lp mo gi] Some show ?thesis
        by (simp add: d' only_changed_opt_def)
    qed
  qed
qed

lemma assign_dense_user:
  assumes "assign_dense_features d data ''user'' = (e, d')"
  shows "only_changed_opt (user_dense_unique d) (user_dense_unique d')
       (addressed (user2id d) data ''user'') (in_frame (user_dense_col d) data) \<and>
     user_sparse_unique d' = user_sparse_unique d \<and> item_sparse_unique d' = item_sparse_unique d \<and>
     item_dense_unique d' = item_dense_unique d \<and> user2id d' = user2id d \<and>
     item2id d' = item2id d \<and> col_name_mapping d' = col_name_mapping d"
proof (cases "getitem data ''user''")
  case (Inl err)
  with assms show ?thesis
    by (auto simp: assign_dense_features_def check_oov_def only_changed_opt_refl)
next
  case (Inr users)
  let ?data = "map_ids (user2id d) ''user'' users data"
  let ?d = "read_user2id d"
  from Inr have mo: "map_of data ''user'' = Some users" by (rule getitem_Some)
  then have gi: "getitem ?data ''user'' = Inr (map real (List.map_filter (user2id d) users))"
    by (simp add: getitem_def map_ids_key)
  show ?thesis
  proof (cases "user_dense_unique d")
    case None
    with assms Inr gi show ?thesis
      by (auto simp: assign_dense_features_def check_oov_def Let_def only_changed_opt_def)
  next
    case (Some m)
    show ?thesis
    proof (cases "name (user_dense_col d) = []")
      case True
      with assms Inr gi Some show ?thesis
        by (auto simp: assign_dense_features_def check_oov_def Let_def only_changed_opt_refl)
    next
      case False
      obtain e1 m' where lp: "assign_loop (\<lambda>feat_idx col. getitem ?data col) ?data
          (map real (List.map_filter (user2id d) users)) (enumerate 0 (name (user_dense_col d))) m = (e1, m')"
        by (metis prod.exhaust)
      with assms Inr gi Some False have d': "d' = write_user_dense ?d m'"
        by (auto simp: assign_dense_features_def check_oov_def Let_def)
      from branch_only_changed [OF lp mo gi] Some show ?thesis
        by (simp add: d' only_changed_opt_def)
    qed
  qed
qed

lemma assign_dense_item:
  assumes "assign_dense_features d data ''item'' = (e, d')"
  shows "only_changed_opt (item_dense_unique d) (item_dense_unique d')
       (addressed (item2id d) data ''item'') (in_frame (item_dense_col d) data) \<and>
     user_sparse_unique d' = user_sparse_unique d \<and> item_sparse_unique d' = item_sparse_unique d \<and>
     user_dense_unique d' = user_dense_unique d \<and> user2id d' = user2id d \<and>
     item2id d' = item2id d \<and> col_name_mapping d' = col_name_mapping d"
proof (cases "getitem data ''item''")
  case (Inl err)
  with assms show ?thesis
    by (auto simp: assign_dense_features_def check_oov_def only_changed_opt_refl)
next
  case (Inr items)
  let ?data = "map_ids (item2id d) ''item'' items data"
  let ?d = "read_item2id d"
  from Inr have mo: "map_of data ''item'' = Some items" by (rule getitem_Some)
  then have gi: "getitem ?data ''item'' = Inr (map real (List.map_filter (item2id d) items))"
    by (simp add: getitem_def map_ids_key)
  show ?thesis
  proof (cases "item_dense_unique d")
    case None
    with assms Inr gi show ?thesis
      by (auto simp: assign_dense_features_def check_oov_def Let_def only_changed_opt_def)
  next
    case (Some m)
    show ?thesis
    proof (cases "name (item_dense_col d) = []")
      case True
      with assms Inr gi Some show ?thesis
        by (auto simp: assign_dense_features_def check_oov_def Let_def only_changed_opt_refl)
    next
      case False
      obtain e1 m' where lp: "assign_loop (\<lambda>feat_idx col. getitem ?data col) ?data
          (map real (List.map_filter (item2id d) items)) (enumerate 0 (name (item_dense_col d))) m = (e1, m')"
        by (metis prod.exhaust)
      with assms Inr gi Some False have d': "d' = write_item_dense ?d m'"
        by (auto simp: assign_dense_features_def check_oov_def Let_def)
      from branch_only_changed [OF lp mo gi] Some show ?thesis
        by (simp add: d' only_changed_opt_def)
    qed
  qed
qed

lemma assign_user_features_frame:
  "only_changed_opt (user_sparse_unique d) (user_sparse_unique (snd (assign_user_features d data)))
     (addressed (user2id d) data ''user'') (in_frame (user_sparse_col d) data) \<and>
   only_changed_opt (user_dense_unique d) (user_dense_unique (snd (assign_user_features d data)))
     (addressed (user2id d) data ''user'') (in_frame (user_dense_col d) data) \<and>
   item_sparse_unique (snd (assign_user_features d data)) = item_sparse_unique d \<and>
   item_dense_unique (snd (assign_user_features d data)) = item_dense_unique d"
proof -
  obtain e1 d1 where s1: "assign_sparse_features d data ''user'' = (e1, d1)"
    by (metis prod.exhaust)
  note a1 = assign_sparse_user [OF s1]
  show ?thesis
  proof (cases e1)
    case (Some err)
    with s1 have "assign_user_features d data = (Some err, d1)"
      by (simp add: assign_user_features_def and_then_Some)
    with a1 show ?thesis by (simp add: only_changed_opt_refl)
  next
    case None
    obtain e2 d2 where s2: "assign_dense_features d1 data ''user'' = (e2, d2)"
      by (metis prod.exhaust)
    note a2 = assign_dense_user [OF s2]
    from s1 s2 None have "assign_user_features d data = (e2, d2)"
      by (simp add: assign_user_features_def and_then_None_eq)
    moreover have "user_dense_col d1 = user_dense_col d"
      using a1 by (simp add: user_dense_col_def)
    ultimately show ?thesis using a1 a2 by simp
  qed
qed

lemma assign_item_features_frame:
  "only_changed_opt (item_sparse_unique d) (item_sparse_unique (snd (assign_item_features d data)))
     (addressed (item2id d) data ''item'') (in_frame (item_sparse_col d) data) \<and>
   only_changed_opt (item_dense_unique d) (item_dense_unique (snd (assign_item_features d data)))
     (addressed (item2id d) data ''item'') (in_frame (item_dense_col d) data) \<and>
   user_sparse_unique (snd (assign_item_features d data)) = user_sparse_unique d \<and>
   user_dense_unique (snd (assign_item_features d data)) = user_dense_unique d"
proof -
  obtain e1 d1 where s1: "assign_sparse_features d data ''item'' = (e1, d1)"
    by (metis prod.exhaust)
  note a1 = assign_sparse_item [OF s1]
  show ?thesis
  proof (cases e1)
    case (Some err)
    with s1 have "assign_item_features d data = (Some err, d1)"
      by (simp add: assign_item_features_def and_then_Some)
    with a1 show ?thesis by (simp add: only_changed_opt_refl)
  next
    case None
    obtain e2 d2 where s2: "assign_dense_features d1 data ''item'' = (e2, d2)"
      by (metis prod.exhaust)
    note a2 = assign_dense_item [OF s2]
    from s1 s2 None have "assign_item_features d data = (e2, d2)"
      by (simp add: assign_item_features_def and_then_None_eq)
    moreover have "item_dense_col d1 = item_dense_col d"
      using a1 by (simp add: item_dense_col_def)
    ultimately show ?thesis using a1 a2 by simp
  qed
qed

text \<open>
  Claim C9. Whatever \<open>assign_user_features\<close> or \<open>assign_item_features\<close> does,
  normal return or exception, each feature matrix of the kind keeps its shape, and a cell
  of it differs from before only in a column whose name the incoming frame has and in a
  row addressed by an incoming identifier; the matrices of the other kind stay as they
  are.
\<close>

theorem assign_features_frame:
  "only_changed_opt (user_sparse_unique d) (user_sparse_unique (snd (assign_user_features d user_data)))
     (addressed (user2id d) user_data ''user'') (in_frame (user_sparse_col d) user_data) \<and>
   only_changed_opt (user_dense_unique d) (user_dense_unique (snd (assign_user_features d user_data)))
     (addressed (user2id d) user_data ''user'') (in_frame (user_dense_col d) user_data) \<and>
   item_sparse_unique (snd (assign_user_features d user_data)) = item_sparse_unique d \<and>
   item_dense_unique (snd (assign_user_features d user_data)) = item_dense_unique d \<and>
   only_changed_opt (item_sparse_unique d) (item_sparse_unique (snd (assign_item_features d item_data)))
     (addressed (item2id d) item_data ''item'') (in_frame (item_sparse_col d) item_data) \<and>
   only_changed_opt (item_dense_unique d) (item_dense_unique (snd (assign_item_features d item_data)))
     (addressed (item2id d) item_data ''item'') (in_frame (item_dense_col d) item_data) \<and>
   user_sparse_unique (snd (assign_item_features d item_data)) = user_sparse_unique d \<and>
   user_dense_unique (snd (assign_item_features d item_data)) = user_dense_unique d"
  using assign_user_features_frame [of d user_data] assign_item_features_frame [of d item_data]
  by simp

text \<open>
  Claim C10. With a mode that is neither user nor item, \<open>assign_sparse_features\<close>
  raises the ValueError of its last branch, and \<open>assign_dense_features\<close>, which has no
  such branch, returns normally; neither changes the object.
\<close>

theorem assign_features_invalid_mode:
  assumes "mode \<noteq> ''user''" "mode \<noteq> ''item''"
  shows "assign_sparse_features d data mode = (Some (ValueError ''mode must be user or item.''), d) \<and>
     assign_dense_features d data mode = (None, d)"
  using assms by (simp add: assign_sparse_features_def assign_dense_features_def check_oov_def)

theorem assign_features_invalid_mode_witness:
  "''group'' \<noteq> ''user'' \<and> ''group'' \<noteq> ''item'' \<and>
   assign_sparse_features example_info example_frame ''group'' =
     (Some (ValueError ''mode must be user or item.''), example_info) \<and>
   assign_dense_features example_info example_frame ''group'' = (None, example_info)"
  using assign_features_invalid_mode [of "''group''" example_info example_frame] by simp

lemma example_assign_ok:
  "fst (assign_user_features example_info example_user_data) = None"
  by code_simp

lemma example_assign_dense:
  "user_dense_unique (snd (assign_user_features example_info example_user_data)) =
     Some (NdArray 1 [[20], [41], [30]])"
  by code_simp

lemma example_assign_sparse:
  "user_sparse_unique (snd (assign_user_features example_info example_user_data)) =
     Some (NdArray 1 [[0], [1], [2]])"
  by code_simp

theorem assign_features_frame_witness:
  "fst (assign_user_features example_info example_user_data) = None \<and>
   user_dense_unique example_info = Some (NdArray 1 [[20], [40], [30]]) \<and>
   user_dense_unique (snd (assign_user_features example_info example_user_data)) =
     Some (NdArray 1 [[20], [41], [30]]) \<and>
   user_sparse_unique (snd (assign_user_features example_info example_user_data)) =
     user_sparse_unique example_info \<and>
   item_dense_unique (snd (assign_user_features example_info example_user_data)) =
     item_dense_unique example_info \<and>
   only_changed_opt (user_dense_unique example_info)
     (user_dense_unique (snd (assign_user_features example_info example_user_data)))
     (addressed (user2id example_info) example_user_data ''user'')
     (in_frame (user_dense_col example_info) example_user_data)"
proof -
  have "user_dense_unique example_info = Some (NdArray 1 [[20], [40], [30]])"
    "user_sparse_unique example_info = Some (NdArray 1 [[0], [1], [2]])"
    by (simp_all add: example_info_def)
  then show ?thesis
    using assign_features_frame [of example_info example_user_data example_user_data]
      example_assign_ok example_assign_dense example_assign_sparse
    by simp
qed

lemma compute_pred_zero:
  assumes "common_size = 0 \<or> list_all (\<lambda>s. s \<le> 0) common_sims"
  shows "compute_pred self user item common_size common_sims common_labels =
     (Inr (Some (default_pred self)),
      self\<lparr>print_count := print_count self + 1,
           printed := printed self @ (if print_count self < 6 then [NoNeighbor user item] else [])\<rparr>)"
  using assms by (auto simp: compute_pred_def Let_def)

lemma compute_pred_nonzero:
  assumes "\<not> (common_size = 0 \<or> list_all (\<lambda>s. s \<le> 0) common_sims)"
  shows "snd (compute_pred self user item common_size common_sims common_labels) = self"
  using assms by (auto simp: compute_pred_def Let_def split: list.splits)

lemma rank_recommendations_counted:
  assumes "fst (if filter_consumed then filter_items ids preds consumed else (ids, preds)) = []"
  shows "\<exists>d. snd (rank_recommendations self draws user ids preds n_rec consumed filter_consumed random_rec) =
     self\<lparr>print_count := print_count self + 1,
          printed := printed self @ (if print_count self < 10 then [NoRecommendation user] else []),
          data_info := d\<rparr>"
proof -
  obtain ids' preds' where
    f: "(if filter_consumed then filter_items ids preds consumed else (ids, preds)) = (ids', preds')"
    by (metis surj_pair)
  with assms have e: "ids' = []" by simp
  obtain r d where p: "popular_recommendations_inner (data_info self) n_rec = (r, d)"
    by (metis surj_pair)
  have "snd (rank_recommendations self draws user ids preds n_rec consumed filter_consumed random_rec) =
     self\<lparr>print_count := print_count self + 1,
          printed := printed self @ (if print_count self < 10 then [NoRecommendation user] else []),
          data_info := d\<rparr>"
    unfolding rank_recommendations_def f by (simp add: e p Let_def)
  then show ?thesis by blast
qed

lemma rank_recommendations_not_counted:
  assumes "fst (if filter_consumed then filter_items ids preds consumed else (ids, preds)) \<noteq> []"
  shows "snd (rank_recommendations self draws user ids preds n_rec consumed filter_consumed random_rec) = self"
proof -
  obtain ids' preds' where
    f: "(if filter_consumed then filter_items ids preds consumed else (ids, preds)) = (ids', preds')"
    by (metis surj_pair)
  with assms have e: "ids' \<noteq> []" by simp
  show ?thesis
    unfolding rank_recommendations_def f by (simp add: e split: sum.splits)
qed

lemma step_counted:
  assumes "counted c"
  shows "print_count (step self c) = print_count self + 1 \<and>
     default_pred (step self c) = default_pred self \<and>
     printed (step self c) = printed self @
       (if print_count self < (if is_predict c then 6 else 10) then [warning_of c] else [])"
proof (cases c)
  case (Predict user item common_size common_sims common_labels)
  with assms show ?thesis
    by (simp add: compute_pred_zero)
next
  case (Rank draws user ids preds n_rec consumed filter_consumed random_rec)
  with assms rank_recommendations_counted [of filter_consumed ids preds consumed self draws user n_rec random_rec]
  show ?thesis
    by auto
qed

lemma step_not_counted: "\<not> counted c \<Longrightarrow> step self c = self"
  by (cases c) (simp_all add: compute_pred_nonzero rank_recommendations_not_counted)

lemma run_snoc: "run self (calls @ [c]) = step (run self calls) c"
  by (simp add: run_def)

lemma run_count:
  "print_count (run self calls) = print_count self + length (filter counted calls) \<and>
   default_pred (run self calls) = default_pred self"
proof (induction calls rule: rev_induct)
  case Nil
  then show ?case by (simp add: run_def)
next
  case (snoc c calls)
  then show ?case
    using step_counted [of c "run self calls"] step_not_counted [of c "run self calls"]
    by (cases "counted c") (simp_all add: run_snoc)
qed

lemma run_predictions:
  assumes "list_all is_predict calls"
  shows "printed (run self calls) =
     printed self @ map warning_of (take (6 - print_count self) (filter counted calls))"
  using assms
proof (induction calls rule: rev_induct)
  case Nil
  then show ?case by (simp add: run_def)
next
  case (snoc c calls)
  then have p: "is_predict c" and ih: "printed (run self calls) =
     printed self @ map warning_of (take (6 - print_count self) (filter counted calls))"
    by simp_all
  show ?case
  proof (cases "counted c")
    case True
    from step_counted [OF True, of "run self calls"] p run_count [of self calls]
    have "printed (run self (calls @ [c])) = printed (run self calls) @
        (if print_count self + length (filter counted calls) < 6 then [warning_of c] else [])"
      by (simp add: run_snoc)
    with ih True show ?thesis
      by (auto simp: take_Suc_conv_app_nth not_less)
  next
    case False
    with ih show ?thesis
      by (simp add: run_snoc step_not_counted)
  qed
qed

lemma no_neighbor_counted: "length (filter no_neighbor calls) \<le> length (filter counted calls)"
proof -
  have "no_neighbor c \<Longrightarrow> counted c" for c
    by (cases c) simp_all
  then have "filter no_neighbor calls = filter no_neighbor (filter counted calls)"
    by (auto intro: filter_cong)
  then show ?thesis
    by (metis length_filter_le)
qed

text \<open>
  Claim C5, as the code has it. A call of \<open>compute_pred\<close> with no qualifying neighbor
  (no common interaction, or no positive similarity among the common ones) returns
  exactly \<open>default_pred\<close>, adds one to \<open>print_count\<close>, and prints its warning when
  the count was below 6. The count is the one that \<open>rank_recommendations\<close> adds to when
  it is left without a candidate. So after any calls on the instance, a prediction
  without a qualifying neighbor returns \<open>default_pred\<close> and is warned about exactly
  when fewer than 6 counted calls (such predictions and such rankings, with the count
  the instance started from) came before it: never once 6 such predictions came before
  it, and, on an instance that has made predictions only and started from 0, for the
  first 6 such predictions and no other.
\<close>

theorem compute_pred_default_and_shared_print_count:
  "(common_size = 0 \<or> list_all (\<lambda>s. s \<le> 0) common_sims \<longrightarrow>
      compute_pred self user item common_size common_sims common_labels =
        (Inr (Some (default_pred self)),
         self\<lparr>print_count := print_count self + 1,
              printed := printed self @
                (if print_count self < 6 then [NoNeighbor user item] else [])\<rparr>)) \<and>
   print_count (run self calls) = print_count self + length (filter counted calls) \<and>
   (common_size = 0 \<or> list_all (\<lambda>s. s \<le> 0) common_sims \<longrightarrow>
      fst (compute_pred (run self calls) user item common_size common_sims common_labels) =
        Inr (Some (default_pred self)) \<and>
      printed (snd (compute_pred (run self calls) user item common_size common_sims common_labels)) =
        printed (run self calls) @
          (if print_count self + length (filter counted calls) < 6
           then [NoNeighbor user item] else []) \<and>
      (6 \<le> length (filter no_neighbor calls) \<longrightarrow>
         printed (snd (compute_pred (run self calls) user item common_size common_sims common_labels)) =
           printed (run self calls))) \<and>
   (print_count self = 0 \<and> list_all is_predict calls \<longrightarrow>
      printed (run self calls) =
        printed self @ map warning_of (take 6 (filter no_neighbor calls)))"
proof -
  have same: "filter no_neighbor calls = filter counted calls" if "list_all is_predict calls"
  proof -
    have "is_predict c \<Longrightarrow> no_neighbor c = counted c" for c
      by (cases c) simp_all
    with that show ?thesis
      by (auto simp: list_all_iff intro: filter_cong)
  qed
  show ?thesis
    using compute_pred_zero [of common_size common_sims self user item common_labels]
      compute_pred_zero [of common_size common_sims "run self calls" user item common_labels]
      run_count [of self calls] run_predictions [of calls self] no_neighbor_counted [of calls] same
    by auto
qed

lemma example_calls_counted: "length (filter counted example_calls) = 6"
  by code_simp

lemma example_calls_printed:
  "printed (run example_model example_calls) =
     [NoNeighbor 10 300, NoNeighbor 20 300, NoRecommendation 0, NoNeighbor 20 200,
      NoRecommendation 0, NoNeighbor 10 300]"
  by code_simp

theorem compute_pred_default_and_shared_print_count_witness:
  "compute_pred example_model 20 200 1 [- 0.5] [3] =
     (Inr (Some 4), example_model\<lparr>print_count := 1, printed := [NoNeighbor 20 200]\<rparr>) \<and>
   print_count example_model = 0 \<and>
   print_count (run example_model example_calls) = 6 \<and>
   fst (compute_pred (run example_model example_calls) 20 200 1 [- 0.5] [3]) = Inr (Some 4) \<and>
   printed (snd (compute_pred (run example_model example_calls) 20 200 1 [- 0.5] [3])) =
     [NoNeighbor 10 300, NoNeighbor 20 300, NoRecommendation 0, NoNeighbor 20 200,
      NoRecommendation 0, NoNeighbor 10 300]"
proof -
  have e: "print_count example_model = 0" "printed example_model = []"
    "default_pred example_model = 4"
    by (simp_all add: example_model_def)
  from compute_pred_default_and_shared_print_count
    [of 1 "[- 0.5]" example_model 20 200 "[3]" example_calls]
  show ?thesis
    by (simp add: e example_calls_counted example_calls_printed)
qed

text \<open>
  Claim C5 as stated fails: on an instance that has fallen back to the default
  recommendation six times, the first prediction without a qualifying neighbor returns
  the default 4 and prints no warning.
\<close>

theorem shared_print_count_counterexample:
  "print_count example_model = 0 \<and>
   filter no_neighbor example_fallbacks = [] \<and>
   printed (run example_model example_fallbacks) =
     [NoRecommendation 0, NoRecommendation 0, NoRecommendation 0, NoRecommendation 0,
      NoRecommendation 0, NoRecommendation 0] \<and>
   fst (compute_pred (run example_model example_fallbacks) 10 300 0 [] []) = Inr (Some 4) \<and>
   printed (snd (compute_pred (run example_model example_fallbacks) 10 300 0 [] [])) =
     printed (run example_model example_fallbacks)"
  by code_simp

lemma keep_rows_filter: "keep_rows (map P xs) xs = filter P xs"
  by (induction xs) (simp_all add: keep_rows_def)

lemma keep_rows_length: "length (keep_rows (map P xs) ys) \<le> length (filter P xs)"
proof (induction xs arbitrary: ys)
  case Nil
  then show ?case by (simp add: keep_rows_def)
next
  case (Cons x xs)
  show ?case
  proof (cases ys)
    case Nil
    then show ?thesis by (simp add: keep_rows_def)
  next
    case (Cons y ys')
    with Cons.IH [of ys'] show ?thesis by (simp add: keep_rows_def)
  qed
qed

lemma filter_items_ids:
  "fst (filter_items ids preds consumed) = filter (\<lambda>i. i \<notin> set consumed) ids"
  by (simp add: filter_items_def Let_def keep_rows_filter)

lemma filter_items_length:
  "length (snd (filter_items ids preds consumed)) \<le> length (fst (filter_items ids preds consumed))"
  by (simp add: filter_items_def Let_def keep_rows_filter keep_rows_length)

lemma random_sample_subset: "set (random_sample draws xs k) \<subseteq> set xs"
proof (induction draws xs k rule: random_sample.induct)
  case (4 r draws x xs k)
  let ?i = "r mod length (x # xs)"
  have i: "?i < length (x # xs)" by simp
  have "set (take ?i (x # xs) @ drop (Suc ?i) (x # xs)) \<subseteq> set (x # xs)"
    by (auto dest: in_set_takeD in_set_dropD)
  moreover have "(x # xs) ! ?i \<in> set (x # xs)"
    using i by (rule nth_mem)
  ultimately show ?case
    using "4.IH" [of ?i] by (auto simp: Let_def simp del: nth_Cons_Suc take_Suc_Cons drop_Suc_Cons)
qed auto

lemma argsort_bound: "i \<in> set (argsort preds) \<Longrightarrow> i < length preds"
  by (auto simp: argsort_def dest!: set_zip_rightD)

lemma take_arr_sorted_ids:
  assumes "length preds \<le> length ids"
  shows "\<exists>r. take_arr (Some ids) (rev (argsort preds)) = Inr r \<and> set r \<subseteq> set ids"
proof -
  have "list_all (\<lambda>i. i < length ids) (rev (argsort preds))"
    using assms by (auto simp: list_all_iff dest: argsort_bound)
  then show ?thesis
    using assms by (auto simp: take_arr_def list_all_iff dest: argsort_bound)
qed

lemma rank_recommendations_left:
  assumes "\<exists>i\<in>set ids. i \<notin> set consumed"
  shows "\<exists>r. fst (rank_recommendations self draws user ids preds n_rec consumed True random_rec) = Inr r \<and>
     set r \<subseteq> set ids \<and> set r \<inter> set consumed = {}"
proof -
  obtain ids' preds' where f: "filter_items ids preds consumed = (ids', preds')"
    by (metis prod.exhaust)
  have ids': "ids' = filter (\<lambda>i. i \<notin> set consumed) ids"
    using filter_items_ids [of ids preds consumed] f by simp
  have len: "length preds' \<le> length ids'"
    using filter_items_length [of ids preds consumed] f by simp
  from assms have ne: "ids' \<noteq> []"
    by (auto simp: ids' filter_empty_conv)
  show ?thesis
  proof (cases "random_rec \<and> length ids' > n_rec")
    case True
    with f ne have "fst (rank_recommendations self draws user ids preds n_rec consumed True random_rec)
        = Inr (random_sample draws ids' n_rec)"
      by (simp add: rank_recommendations_def)
    moreover have "set (random_sample draws ids' n_rec) \<subseteq> set ids'"
      by (rule random_sample_subset)
    ultimately show ?thesis by (auto simp: ids')
  next
    case False
    from take_arr_sorted_ids [OF len] obtain r where
      r: "take_arr (Some ids') (rev (argsort preds')) = Inr r" "set r \<subseteq> set ids'" by blast
    with f ne False
    have "fst (rank_recommendations self draws user ids preds n_rec consumed True random_rec)
        = Inr (take n_rec r)"
      by (auto simp: rank_recommendations_def)
    moreover have "set (take n_rec r) \<subseteq> set ids'"
      using r(2) by (auto dest: in_set_takeD)
    ultimately show ?thesis by (auto simp: ids')
  qed
qed

lemma rank_recommendations_default:
  assumes "\<forall>i\<in>set ids. i \<in> set consumed"
  shows "fst (rank_recommendations self draws user ids preds n_rec consumed True random_rec) =
     popular_inner (data_info self) n_rec"
proof -
  obtain ids' preds' where f: "filter_items ids preds consumed = (ids', preds')"
    by (metis prod.exhaust)
  have "ids' = filter (\<lambda>i. i \<notin> set consumed) ids"
    using filter_items_ids [of ids preds consumed] f by simp
  with assms have "ids' = []" by (simp add: filter_empty_conv)
  with f show ?thesis
    by (simp add: rank_recommendations_def Let_def popular_recommendations_inner_def)
qed

text \<open>
  Claim C1, as the code has it. With \<open>filter_consumed\<close> set, \<open>rank_recommendations\<close>
  returns a list of scored candidates none of which the user has consumed whenever at
  least one candidate is left after the filter. When every candidate was filtered out, it
  returns the default list, the first \<open>n_rec\<close> popular items, which is not filtered.
\<close>

theorem rank_recommendations_filter_consumed:
  "((\<exists>i\<in>set ids. i \<notin> set consumed) \<longrightarrow>
      (\<exists>r. fst (rank_recommendations self draws user ids preds n_rec consumed True random_rec) = Inr r \<and>
           set r \<subseteq> set ids \<and> set r \<inter> set consumed = {})) \<and>
   ((\<forall>i\<in>set ids. i \<in> set consumed) \<longrightarrow>
      fst (rank_recommendations self draws user ids preds n_rec consumed True random_rec) =
        popular_inner (data_info self) n_rec)"
  using rank_recommendations_left [of ids consumed self draws user preds n_rec random_rec]
    rank_recommendations_default [of ids consumed self draws user preds n_rec random_rec]
  by blast

lemma example_rank_left:
  "fst (rank_recommendations example_model [] 1 [0, 1, 2] [0.5, 0.9, 0.7] 2 [0] True False) = Inr [1, 2]"
  by code_simp

lemma example_rank_default:
  "fst (rank_recommendations example_model [] 0 [0, 1] [0.9, 0.8] 2 [0, 1] True False) = Inr [0, 1]"
  by code_simp

lemma example_recommend_user:
  "map_sum id (\<lambda>r. r 10) (fst (recommend_user example_score example_model [] [10] 2 ''popular'' False True False))
     = Inr (Some [100, 200])"
  by code_simp

lemma example_consumed: "user_consumed example_info 0 = Some [0, 1]"
  by (simp add: example_info_def)

theorem rank_recommendations_filter_consumed_witness:
  "fst (rank_recommendations example_model [] 1 [0, 1, 2] [0.5, 0.9, 0.7] 2 [0] True False) = Inr [1, 2] \<and>
   set [1, 2] \<inter> set [0::nat] = {} \<and>
   fst (rank_recommendations example_model [] 0 [0, 1] [0.9, 0.8] 2 [0, 1] True False) =
     popular_inner (data_info example_model) 2"
  using rank_recommendations_filter_consumed [of "[0, 1, 2]" "[0]" example_model "[]" 1 "[0.5, 0.9, 0.7]" 2 False]
    rank_recommendations_filter_consumed [of "[0, 1]" "[0, 1]" example_model "[]" 0 "[0.9, 0.8]" 2 False]
    example_rank_left
  by simp

text \<open>
  Claim C1 as stated fails: user 10 (inner id 0) has consumed the items 100 and 200
  (inner ids 0 and 1); both candidates are filtered out, and the list returned is the
  popular items 100 and 200.
\<close>

theorem filter_consumed_counterexample:
  "user_consumed (data_info example_model) 0 = Some [0, 1] \<and>
   fst (rank_recommendations example_model [] 0 [0, 1] [0.9, 0.8] 2 [0, 1] True False) = Inr [0, 1] \<and>
   set [0, 1] \<inter> set [0, 1::nat] \<noteq> {} \<and>
   user2id (data_info example_model) 10 = Some 0 \<and>
   map_sum id (\<lambda>r. r 10)
     (fst (recommend_user example_score example_model [] [10] 2 ''popular'' False True False)) =
     Inr (Some [100, 200]) \<and>
   item2id (data_info example_model) 100 = Some 0 \<and>
   item2id (data_info example_model) 200 = Some 1"
proof -
  have "user_consumed (data_info example_model) 0 = Some [0, 1]"
    by (simp add: example_model_def example_consumed)
  moreover have "user2id (data_info example_model) 10 = Some 0"
    "item2id (data_info example_model) 100 = Some 0"
    "item2id (data_info example_model) 200 = Some 1"
    by code_simp+
  ultimately show ?thesis
    using example_rank_default example_recommend_user by simp
qed

lemma check_unknown_user_unknown:
  "snd (fst (check_unknown_user d user inner_id)) = filter (\<lambda>u. known_user d inner_id u = None) user"
  by (simp add: check_unknown_user_def)

lemma check_unknown_user_known:
  "fst (fst (check_unknown_user d user inner_id)) = List.map_filter (known_user d inner_id) user"
  by (simp add: check_unknown_user_def)

lemma recommend_user_raises:
  assumes "\<exists>u\<in>set user. known_user (data_info self) inner_id u = None"
    and "cold_start \<noteq> ''popular''"
  shows "fst (recommend_user score self draws user n_rec cold_start inner_id filter_consumed random_rec)
     = Inl (ValueError (model_name self @ '' only supports `popular` cold start strategy''))"
proof -
  from assms(1) have "filter (\<lambda>u. known_user (data_info self) inner_id u = None) user \<noteq> []"
    by (simp add: filter_empty_conv)
  with assms(2) show ?thesis
    by (simp add: recommend_user_def check_unknown_user_def Let_def)
qed

lemma pre_predict_check_raises:
  assumes "length user = length item"
    and "\<exists>k<length user. known_user (data_info self) inner_id (user ! k) = None \<or>
           known_item (data_info self) inner_id (item ! k) = None"
    and "cold_start \<noteq> ''popular''"
  shows "fst (pre_predict_check self user item inner_id cold_start)
     = Inl (ValueError (model_name self @ '' only supports popular strategy''))"
proof -
  from assms(2) obtain k where k: "k < length user"
    "known_user (data_info self) inner_id (user ! k) = None \<or>
     known_item (data_info self) inner_id (item ! k) = None" by blast
  let ?u = "map (known_user (data_info self) inner_id) user"
  let ?i = "map (known_item (data_info self) inner_id) item"
  have "k \<in> set (filter (\<lambda>k. ?u ! k = None \<or> ?i ! k = None) [0..<min (length ?u) (length ?i)])"
    using k assms(1) by simp
  then have "filter (\<lambda>k. ?u ! k = None \<or> ?i ! k = None) [0..<min (length ?u) (length ?i)] \<noteq> []"
    by (metis empty_iff empty_set)
  with assms(3) show ?thesis
    by (simp add: pre_predict_check_def convert_id_def check_unknown_def Let_def)
qed

text \<open>
  Claim C6. When a request names a user or an item that the index does not know and the
  cold-start strategy asked for is not \<open>popular\<close>, \<open>recommend_user\<close> and
  \<open>pre_predict_check\<close> raise their ValueError (the condition the specification calls
  UnsupportedStrategy) and return no result.
\<close>

theorem unsupported_cold_start_raises:
  "((\<exists>u\<in>set users. known_user (data_info self) inner_id u = None) \<and> cold_start \<noteq> ''popular'' \<longrightarrow>
      fst (recommend_user score self draws users n_rec cold_start inner_id filter_consumed random_rec)
        = Inl (ValueError (model_name self @ '' only supports `popular` cold start strategy''))) \<and>
   (length user = length item \<and>
    (\<exists>k<length user. known_user (data_info self) inner_id (user ! k) = None \<or>
           known_item (data_info self) inner_id (item ! k) = None) \<and>
    cold_start \<noteq> ''popular'' \<longrightarrow>
      fst (pre_predict_check self user item inner_id cold_start)
        = Inl (ValueError (model_name self @ '' only supports popular strategy'')))"
  using recommend_user_raises [of users self inner_id cold_start score draws n_rec filter_consumed random_rec]
    pre_predict_check_raises [of user item self inner_id cold_start]
  by blast

lemma example_unknown_user: "known_user (data_info example_model) False (- 99999) = None"
  by code_simp

lemma example_unknown_user2: "known_user (data_info example_model) False (- 1) = None"
  by code_simp

lemma example_unknown_item: "known_item (data_info example_model) False 2333 = None"
  by code_simp

theorem unsupported_cold_start_raises_witness:
  "known_user (data_info example_model) False (- 99999) = None \<and>
   ''sss'' \<noteq> ''popular'' \<and>
   fst (recommend_user example_score example_model [] [10, - 99999] 7 ''sss'' False True False)
     = Inl (ValueError ''ItemCF only supports `popular` cold start strategy'') \<and>
   known_item (data_info example_model) False 2333 = None \<and>
   fst (pre_predict_check example_model [10] [2333] False ''sss'')
     = Inl (ValueError ''ItemCF only supports popular strategy'')"
proof -
  have m: "model_name example_model = ''ItemCF''" by (simp add: example_model_def)
  have "\<exists>u\<in>set [10, - 99999]. known_user (data_info example_model) False u = None"
    using example_unknown_user by simp
  moreover have "\<exists>k<length [10::real]. known_user (data_info example_model) False ([10] ! k) = None \<or>
           known_item (data_info example_model) False ([2333] ! k) = None"
    using example_unknown_item by simp
  ultimately show ?thesis
    using unsupported_cold_start_raises [where users = "[10, - 99999]" and self = example_model
        and inner_id = False and cold_start = "''sss''" and score = example_score
        and draws = "[]" and n_rec = 7 and filter_consumed = True and random_rec = False
        and user = "[10]" and item = "[2333]"]
      example_unknown_user example_unknown_item
    by (simp add: m)
qed

lemma index_of_fill_n_users: "index_of (d\<lparr>cached_n_users := Some (n_users d)\<rparr>) = index_of d"
  by (cases "cached_n_users d")
     (simp_all add: index_of_def user2id_def item2id_def id2user_def id2item_def n_users_def n_items_def
        cong: option.case_cong if_cong)

lemma index_of_fill_n_items: "index_of (d\<lparr>cached_n_items := Some (n_items d)\<rparr>) = index_of d"
  by (cases "cached_n_items d")
     (simp_all add: index_of_def user2id_def item2id_def id2user_def id2item_def n_users_def n_items_def
        cong: option.case_cong if_cong)

lemma index_of_fill_user2id: "index_of (d\<lparr>cached_user2id := Some (user2id d)\<rparr>) = index_of d"
  by (cases "cached_user2id d")
     (simp_all add: index_of_def user2id_def item2id_def id2user_def id2item_def n_users_def n_items_def
        cong: option.case_cong if_cong)

lemma index_of_fill_item2id: "index_of (d\<lparr>cached_item2id := Some (item2id d)\<rparr>) = index_of d"
  by (cases "cached_item2id d")
     (simp_all add: index_of_def user2id_def item2id_def id2user_def id2item_def n_users_def n_items_def
        cong: option.case_cong if_cong)

lemma index_of_fill_id2user: "index_of (d\<lparr>cached_id2user := Some (id2user d)\<rparr>) = index_of d"
  by (cases "cached_id2user d")
     (simp_all add: index_of_def user2id_def item2id_def id2user_def id2item_def n_users_def n_items_def
        cong: option.case_cong if_cong)

lemma index_of_fill_id2item: "index_of (d\<lparr>cached_id2item := Some (id2item d)\<rparr>) = index_of d"
  by (cases "cached_id2item d")
     (simp_all add: index_of_def user2id_def item2id_def id2user_def id2item_def n_users_def n_items_def
        cong: option.case_cong if_cong)

lemma index_of_read_n [simp]:
  "index_of (read_n_users d) = index_of d"
  "index_of (read_n_items d) = index_of d"
  by (simp_all add: read_n_users_def read_n_items_def index_of_fill_n_users index_of_fill_n_items)

lemma index_of_read_user2id [simp]: "index_of (read_user2id d) = index_of d"
proof (cases "cached_user2id d")
  case None
  have "user2id (read_n_users d) = user2id d"
    using index_of_read_n(1) [of d] by (simp add: index_of_def)
  then have "read_user2id d = (read_n_users d)\<lparr>cached_user2id := Some (user2id (read_n_users d))\<rparr>"
    using None by (simp add: read_user2id_def)
  then show ?thesis
    by (simp add: index_of_fill_user2id)
next
  case (Some m)
  then show ?thesis by (simp add: read_user2id_def)
qed

lemma index_of_read_item2id [simp]: "index_of (read_item2id d) = index_of d"
proof (cases "cached_item2id d")
  case None
  have "item2id (read_n_items d) = item2id d"
    using index_of_read_n(2) [of d] by (simp add: index_of_def)
  then have "read_item2id d = (read_n_items d)\<lparr>cached_item2id := Some (item2id (read_n_items d))\<rparr>"
    using None by (simp add: read_item2id_def)
  then show ?thesis
    by (simp add: index_of_fill_item2id)
next
  case (Some m)
  then show ?thesis by (simp add: read_item2id_def)
qed

lemma index_of_read_id2user [simp]: "index_of (read_id2user d) = index_of d"
proof (cases "cached_id2user d")
  case None
  have "id2user (read_user2id d) = id2user d"
    using index_of_read_user2id [of d] by (simp add: index_of_def)
  then have "read_id2user d = (read_user2id d)\<lparr>cached_id2user := Some (id2user (read_user2id d))\<rparr>"
    using None by (simp add: read_id2user_def)
  then show ?thesis
    by (simp add: index_of_fill_id2user)
next
  case (Some m)
  then show ?thesis by (simp add: read_id2user_def)
qed

lemma index_of_read_id2item [simp]: "index_of (read_id2item d) = index_of d"
proof (cases "cached_id2item d")
  case None
  have "id2item (read_item2id d) = id2item d"
    using index_of_read_item2id [of d] by (simp add: index_of_def)
  then have "read_id2item d = (read_item2id d)\<lparr>cached_id2item := Some (id2item (read_item2id d))\<rparr>"
    using None by (simp add: read_id2item_def)
  then show ?thesis
    by (simp add: index_of_fill_id2item)
next
  case (Some m)
  then show ?thesis by (simp add: read_id2item_def)
qed

lemma index_of_fields:
  assumes "index_of d' = index_of d"
  shows "user2id d' = user2id d" "item2id d' = item2id d" "id2user d' = id2user d"
    "id2item d' = id2item d" "n_users d' = n_users d" "n_items d' = n_items d"
    "popular_items d' = popular_items d"
  using assms by (simp_all add: index_of_def)

lemma known_user_index:
  assumes "index_of d' = index_of d"
  shows "known_user d' inner_id u = known_user d inner_id u"
  by (simp add: known_user_def index_of_fields [OF assms])

lemma id2user_sound_index:
  assumes "index_of d' = index_of d"
  shows "id2user_sound d' = id2user_sound d"
  by (simp add: id2user_sound_def index_of_fields [OF assms])

lemma id2user_sound_fresh: "cached_id2user d = None \<Longrightarrow> id2user_sound d"
  by (auto simp: id2user_sound_def id2user_def split: if_splits)

lemma popular_recommendations_index:
  assumes "index_of d' = index_of d"
  shows "fst (popular_recommendations d' inner_id n_rec) = fst (popular_recommendations d inner_id n_rec)"
  by (simp add: popular_recommendations_def popular_recommendations_inner_def popular_inner_def
        index_of_fields [OF assms] split: option.splits)

lemma popular_recommendations_inner_keeps:
  "index_of (snd (popular_recommendations_inner d n_rec)) = index_of d"
  by (simp add: popular_recommendations_inner_def split: option.splits)

lemma popular_recommendations_keeps:
  "index_of (snd (popular_recommendations d inner_id n_rec)) = index_of d"
proof (cases inner_id)
  case True
  obtain r d' where p: "popular_recommendations_inner d n_rec = (r, d')"
    by (metis surj_pair)
  with popular_recommendations_inner_keeps [of d n_rec] True show ?thesis
    by (simp add: popular_recommendations_def)
next
  case False
  then show ?thesis
    by (simp add: popular_recommendations_def split: option.splits)
qed

text \<open>
  The loop over the unknown users with the function of the spec: every unknown user
  gets the list of the first call, and no other entry changes.
\<close>

lemma cold_start_recs_popular:
  assumes "cold_start_recs popular_recommendations d unknown_users inner_id n_rec acc = (Inr r, d')"
  shows "index_of d' = index_of d \<and>
     (\<forall>u. r u = (if u \<in> set unknown_users
                  then (case fst (popular_recommendations d inner_id n_rec) of
                          Inl e \<Rightarrow> None | Inr populars \<Rightarrow> Some populars)
                  else acc u))"
  using assms
proof (induction unknown_users arbitrary: d acc)
  case Nil
  then show ?case by simp
next
  case (Cons a us)
  obtain p d1 where p: "popular_recommendations d inner_id n_rec = (p, d1)"
    by (metis surj_pair)
  with Cons.prems obtain populars where
    pp: "p = Inr populars" and
    rest: "cold_start_recs popular_recommendations d1 us inner_id n_rec (acc(a \<mapsto> populars)) = (Inr r, d')"
    by (cases p) auto
  have i1: "index_of d1 = index_of d"
    using popular_recommendations_keeps [of d inner_id n_rec] p by simp
  have same: "fst (popular_recommendations d1 inner_id n_rec) = Inr populars"
    using popular_recommendations_index [OF i1, of inner_id n_rec] p pp by simp
  from Cons.IH [OF rest] i1 same p pp show ?case
    by auto
qed

lemma rank_recommendations_keeps:
  "index_of (data_info (snd (rank_recommendations self draws user ids preds n_rec consumed
      filter_consumed random_rec))) = index_of (data_info self)"
proof -
  obtain ids' preds' where
    f: "(if filter_consumed then filter_items ids preds consumed else (ids, preds)) = (ids', preds')"
    by (metis surj_pair)
  show ?thesis
    unfolding rank_recommendations_def f
    using popular_recommendations_inner_keeps [of "data_info self" n_rec]
    by (auto simp: Let_def split: prod.splits sum.splits)
qed

lemma recommend_one_keeps:
  "index_of (data_info (snd (recommend_one score self draws user_id n_rec filter_consumed random_rec)))
     = index_of (data_info self)"
  by (simp add: recommend_one_def rank_recommendations_keeps split: option.splits prod.splits)

lemma recommend_all_keeps:
  "index_of (data_info (snd (recommend_all score self draws user_ids n_rec filter_consumed random_rec)))
     = index_of (data_info self)"
proof (induction user_ids arbitrary: self draws)
  case Nil
  then show ?case by simp
next
  case (Cons u us)
  let ?ds = "case draws of [] \<Rightarrow> [] | ds # x \<Rightarrow> ds"
  obtain r self1 where o: "recommend_one score self ?ds u n_rec filter_consumed random_rec = (r, self1)"
    by (metis surj_pair)
  have i1: "index_of (data_info self1) = index_of (data_info self)"
    using recommend_one_keeps [of score self ?ds u n_rec filter_consumed random_rec] o by simp
  show ?case
  proof (cases r)
    case (Inl e)
    with o i1 show ?thesis by simp
  next
    case (Inr rec)
    obtain rs self2 where
      a: "recommend_all score self1 (tl draws) us n_rec filter_consumed random_rec = (rs, self2)"
      by (metis surj_pair)
    have "index_of (data_info self2) = index_of (data_info self1)"
      using Cons.IH [of self1 "tl draws"] a by simp
    with o Inr a i1 show ?thesis
      by (cases rs) simp_all
  qed
qed

lemma collect_Inr:
  "collect rs = Inr xs \<Longrightarrow> set xs = {x. Inr x \<in> set rs}"
proof (induction rs arbitrary: xs)
  case Nil
  then show ?case by simp
next
  case (Cons r rs)
  show ?case
  proof (cases r)
    case (Inl e)
    with Cons.prems show ?thesis by simp
  next
    case (Inr x)
    with Cons.prems obtain ys where ys: "collect rs = Inr ys" "xs = x # ys"
      by (cases "collect rs") auto
    from Cons.IH [OF ys(1)] ys(2) Inr show ?thesis by auto
  qed
qed

lemma inner_of_real: "inner_of n x = Some k \<Longrightarrow> real k = x"
  by (auto simp: inner_of_def split: if_splits)

text \<open>The keys of \<open>construct_rec\<close> are known users.\<close>

lemma construct_rec_keys:
  assumes "construct_rec d user_ids computed_recs inner_id = Inr user_recs"
    and "user_recs u = Some rec"
    and "\<forall>k\<in>set user_ids. \<exists>x. known_user d inner_id x = Some k"
    and "id2user_sound d"
  shows "known_user d inner_id u \<noteq> None"
proof -
  from assms(1) obtain pairs where
    c: "collect (map (construct_one d inner_id) (zip user_ids computed_recs)) = Inr pairs"
    and m: "user_recs = map_of (rev pairs)"
    by (auto simp: construct_rec_def split: sum.splits)
  from assms(2) m have "(u, rec) \<in> set pairs"
    by (auto dest: map_of_SomeD)
  with collect_Inr [OF c] obtain k cr where
    k: "(k, cr) \<in> set (zip user_ids computed_recs)" "construct_one d inner_id (k, cr) = Inr (u, rec)"
    by auto
  from k(1) have "k \<in> set user_ids"
    by (rule set_zip_leftD)
  with assms(3) obtain x where x: "known_user d inner_id x = Some k" by blast
  show ?thesis
  proof (cases inner_id)
    case True
    with k(2) have "u = real k"
      by (simp add: construct_one_def)
    moreover from x True have "real k = x"
      by (simp add: known_user_def inner_of_real)
    ultimately show ?thesis using x by simp
  next
    case False
    with k(2) have "id2user d k = Some u"
      by (auto simp: construct_one_def lookup_def split: option.splits sum.splits)
    with assms(4) have "user2id d u \<noteq> None"
      by (auto simp: id2user_sound_def)
    with False show ?thesis
      by (simp add: known_user_def)
  qed
qed

lemma cold_start_recs_first:
  assumes "cold_start_recs popular d (u # unknown_users) inner_id n_rec acc = (Inr r, d')"
  shows "\<exists>populars. fst (popular d inner_id n_rec) = Inr populars"
proof -
  obtain p d1 where p: "popular d inner_id n_rec = (p, d1)"
    by (metis surj_pair)
  with assms show ?thesis
    by (cases p) auto
qed

lemma check_unknown_user_keeps:
  "index_of (snd (check_unknown_user d user inner_id)) = index_of d"
  by (simp add: check_unknown_user_def)

text \<open>
  A request that returns normally has, for every unknown user in it, the list that
  \<open>popular_recommendations\<close> gives on the object of the model.
\<close>

lemma recommend_user_popular:
  assumes r: "fst (recommend_user score self draws users n_rec ''popular'' inner_id
                     filter_consumed random_rec) = Inr recs"
    and u: "u \<in> set users" "known_user (data_info self) inner_id u = None"
    and sound: "id2user_sound (data_info self)"
  shows "\<exists>populars. fst (popular_recommendations (data_info self) inner_id n_rec) = Inr populars \<and>
     recs u = Some populars"
proof -
  define d0 where "d0 = data_info self"
  define user_ids where "user_ids = List.map_filter (known_user d0 inner_id) users"
  define unknown where "unknown = filter (\<lambda>u. known_user d0 inner_id u = None) users"
  define d1 where "d1 = (if inner_id then read_n_users d0 else read_user2id d0)"
  have cu: "check_unknown_user (data_info self) users inner_id = ((user_ids, unknown), d1)"
    by (simp add: check_unknown_user_def user_ids_def unknown_def d1_def d0_def)
  have i1: "index_of d1 = index_of d0"
    by (simp add: d1_def)
  have un: "u \<in> set unknown"
    using u by (simp add: unknown_def d0_def)
  then obtain a us where aus: "unknown = a # us"
    by (cases unknown) auto
  obtain c d' where cs: "cold_start_recs popular_recommendations d1 unknown inner_id n_rec Map.empty = (c, d')"
    by (metis surj_pair)
  define self2 where "self2 = self\<lparr>data_info := d'\<rparr>"
  have ru: "recommend_user score self draws users n_rec ''popular'' inner_id filter_consumed random_rec =
      (case c of
         Inl e \<Rightarrow> (Inl e, self2)
       | Inr result_recs \<Rightarrow>
           if user_ids \<noteq> [] then
             (case recommend_all score self2 draws user_ids n_rec filter_consumed random_rec of
                (Inl e, self3) \<Rightarrow> (Inl e, self3)
              | (Inr computed_recs, self3) \<Rightarrow>
                 (case construct_rec (data_info self3) user_ids computed_recs inner_id of
                    Inl e \<Rightarrow> (Inl e, self3)
                  | Inr user_recs \<Rightarrow>
                      (Inr (result_recs ++ user_recs),
                       if inner_id then self3
                       else self3\<lparr>data_info := read_id2item (read_id2user (data_info self3))\<rparr>)))
           else (Inr result_recs, self2))"
    by (simp add: recommend_user_def cu cs Let_def self2_def split: sum.splits)
  from r ru obtain result_recs where c: "c = Inr result_recs"
    by (cases c) auto
  note cs' = cs [unfolded c]
  from cold_start_recs_first [OF cs' [unfolded aus]] obtain populars where
    p1: "fst (popular_recommendations d1 inner_id n_rec) = Inr populars"
    by blast
  from cold_start_recs_popular [OF cs'] un p1 have
    i2: "index_of d' = index_of d1" and ruu: "result_recs u = Some populars"
    by simp_all
  have p0: "fst (popular_recommendations (data_info self) inner_id n_rec) = Inr populars"
    using popular_recommendations_index [OF i1, of inner_id n_rec] p1 by (simp add: d0_def)
  have "recs u = Some populars"
  proof (cases "user_ids = []")
    case True
    with r ru c ruu show ?thesis by simp
  next
    case False
    obtain ra self3 where
      ra: "recommend_all score self2 draws user_ids n_rec filter_consumed random_rec = (ra, self3)"
      by (metis surj_pair)
    from r ru c False ra obtain computed_recs where co: "ra = Inr computed_recs"
      by (cases ra) auto
    from r ru c False ra co obtain user_recs where
      cr: "construct_rec (data_info self3) user_ids computed_recs inner_id = Inr user_recs"
      and rr: "recs = result_recs ++ user_recs"
      by (cases "construct_rec (data_info self3) user_ids computed_recs inner_id") auto
    have i3: "index_of (data_info self3) = index_of d0"
      using recommend_all_keeps [of score self2 draws user_ids n_rec filter_consumed random_rec]
        ra i2 i1 by (simp add: self2_def)
    have k3: "known_user (data_info self3) inner_id x = known_user d0 inner_id x" for x
      by (rule known_user_index [OF i3])
    have ids: "\<forall>k\<in>set user_ids. \<exists>x. known_user (data_info self3) inner_id x = Some k"
      by (auto simp: user_ids_def k3 List.map_filter_def)
    have s3: "id2user_sound (data_info self3)"
      using id2user_sound_index [OF i3] sound by (simp add: d0_def)
    have "user_recs u = None"
    proof (rule ccontr)
      assume "user_recs u \<noteq> None"
      then obtain rec where "user_recs u = Some rec" by auto
      from construct_rec_keys [OF cr this ids s3] u(2) show False
        by (simp add: k3 d0_def)
    qed
    with rr ruu show ?thesis
      by (simp add: map_add_def)
  qed
  with p0 show ?thesis by blast
qed

text \<open>A request leaves the index as it is, whatever it returns.\<close>

lemma cold_start_recs_keeps:
  "index_of (snd (cold_start_recs popular_recommendations d unknown_users inner_id n_rec acc)) =
     index_of d"
proof (induction unknown_users arbitrary: d acc)
  case Nil
  then show ?case by simp
next
  case (Cons a us)
  obtain p d1 where p: "popular_recommendations d inner_id n_rec = (p, d1)"
    by (metis surj_pair)
  have i1: "index_of d1 = index_of d"
    using popular_recommendations_keeps [of d inner_id n_rec] p by simp
  show ?case
  proof (cases p)
    case (Inl e)
    with p i1 show ?thesis by simp
  next
    case (Inr populars)
    have "index_of (snd (cold_start_recs popular_recommendations d1 us inner_id n_rec
        (acc(a \<mapsto> populars)))) = index_of d1"
      by (rule Cons.IH)
    with p Inr i1 show ?thesis by simp
  qed
qed

lemma recommend_user_keeps:
  "index_of (data_info (snd (recommend_user score self draws users n_rec cold_start inner_id
      filter_consumed random_rec))) = index_of (data_info self)"
proof -
  obtain user_ids unknown d1 where
    cu: "check_unknown_user (data_info self) users inner_id = ((user_ids, unknown), d1)"
    by (metis surj_pair)
  have i1: "index_of d1 = index_of (data_info self)"
    using check_unknown_user_keeps [of "data_info self" users inner_id] cu by simp
  obtain c d' where cs: "cold_start_recs popular_recommendations d1 unknown inner_id n_rec Map.empty = (c, d')"
    by (metis surj_pair)
  have i2: "index_of d' = index_of (data_info self)"
    using cold_start_recs_keeps [of d1 unknown inner_id n_rec Map.empty] cs i1 by simp
  obtain ra self3 where
    ra: "recommend_all score (self\<lparr>data_info := d'\<rparr>) draws user_ids n_rec filter_consumed random_rec
      = (ra, self3)"
    by (metis surj_pair)
  have i3: "index_of (data_info self3) = index_of (data_info self)"
    using recommend_all_keeps [of score "self\<lparr>data_info := d'\<rparr>" draws user_ids n_rec
        filter_consumed random_rec] ra i2 by simp
  show ?thesis
    using i1 i2 i3
    by (simp add: recommend_user_def cu cs ra Let_def split: sum.splits)
qed

text \<open>
  Claim C7. With the strategy \<open>popular\<close>, every user of a request that the index does
  not know receives the list \<open>popular_recommendations\<close> gives for the object of the
  model, \<open>inner_id\<close> and \<open>n_rec\<close>; the user is not passed to it. The list is that of
  the first \<open>n_rec\<close> popular items, which a request leaves as they are: two unknown users
  of one request, and an unknown user of a request that follows on the same model,
  receive identical lists, whatever else the requests ask for.
\<close>

theorem cold_start_popular_independent_of_user:
  assumes "recommend_user score1 self draws1 users1 n_rec ''popular'' inner_id
             filter_consumed1 random_rec1 = (Inr recs1, self')"
    and "fst (recommend_user score2 self' draws2 users2 n_rec ''popular'' inner_id
                filter_consumed2 random_rec2) = Inr recs2"
    and "id2user_sound (data_info self)"
    and "u1 \<in> set users1" and "known_user (data_info self) inner_id u1 = None"
    and "v1 \<in> set users1" and "known_user (data_info self) inner_id v1 = None"
    and "u2 \<in> set users2" and "known_user (data_info self) inner_id u2 = None"
  shows "recs1 u1 = recs1 v1 \<and> recs1 u1 = recs2 u2 \<and>
     map_sum id Some (fst (popular_recommendations (data_info self) inner_id n_rec)) = Inr (recs1 u1)"
proof -
  from assms(1) have r1: "fst (recommend_user score1 self draws1 users1 n_rec ''popular'' inner_id
             filter_consumed1 random_rec1) = Inr recs1"
    by simp
  from recommend_user_popular [OF r1 assms(4,5,3)] obtain populars where
    p: "fst (popular_recommendations (data_info self) inner_id n_rec) = Inr populars"
    and a: "recs1 u1 = Some populars"
    by blast
  from recommend_user_popular [OF r1 assms(6,7,3)] p have b: "recs1 v1 = Some populars"
    by auto
  have i: "index_of (data_info self') = index_of (data_info self)"
    using recommend_user_keeps [of score1 self draws1 users1 n_rec "''popular''" inner_id
        filter_consumed1 random_rec1] assms(1) by simp
  have k: "known_user (data_info self') inner_id u2 = None"
    using known_user_index [OF i, of inner_id u2] assms(9) by simp
  have s: "id2user_sound (data_info self')"
    using id2user_sound_index [OF i] assms(3) by simp
  from recommend_user_popular [OF assms(2,8) k s] popular_recommendations_index [OF i, of inner_id n_rec] p
  have c: "recs2 u2 = Some populars"
    by auto
  from p a b c show ?thesis by simp
qed

lemma example_first_recs:
  "map_sum id (\<lambda>r. (r 10, r (- 99999))) (fst example_first) =
     Inr (Some [100, 200], Some [100, 200])"
  by code_simp

lemma example_second_ok: "map_sum id (\<lambda>r. ()) (fst example_second) = Inr ()"
  by code_simp

lemma example_unknown_users:
  "known_user (data_info example_model) False (- 5) = None"
  "known_user (data_info example_model) False (- 1) = None"
  by code_simp+

theorem cold_start_popular_independent_of_user_witness:
  "id2user_sound (data_info example_model) \<and>
   known_user (data_info example_model) False (- 99999) = None \<and>
   known_user (data_info example_model) False (- 5) = None \<and>
   known_user (data_info example_model) False (- 1) = None \<and>
   map_sum id (\<lambda>r. r (- 99999)) (fst example_first) = Inr (Some [100, 200]) \<and>
   map_sum id (\<lambda>r. r (- 5)) (fst example_first) = Inr (Some [100, 200]) \<and>
   map_sum id (\<lambda>r. r (- 1)) (fst example_second) = Inr (Some [100, 200])"
proof -
  have s: "id2user_sound (data_info example_model)"
    by (rule id2user_sound_fresh) (simp add: example_model_def example_info_def)
  from example_first_recs obtain recs1 where
    f: "fst example_first = Inr recs1" and v: "recs1 (- 99999) = Some [100, 200]"
    by (cases "fst example_first") auto
  from example_second_ok obtain recs2 where g: "fst example_second = Inr recs2"
    by (cases "fst example_second") auto
  have f': "recommend_user example_score example_model [] [10, - 99999, - 5] 3 ''popular'' False
      True False = (Inr recs1, snd example_first)"
    using f by (simp add: example_first_def prod_eq_iff)
  have g': "fst (recommend_user example_score (snd example_first) [] [- 1] 3 ''popular'' False
      True False) = Inr recs2"
    using g by (simp add: example_second_def)
  from cold_start_popular_independent_of_user [OF f' g' s _ example_unknown_user _
      example_unknown_users(1) _ example_unknown_users(2)]
  have "recs1 (- 99999) = recs1 (- 5) \<and> recs1 (- 99999) = recs2 (- 1)"
    by auto
  with v have "recs1 (- 5) = Some [100, 200]" "recs2 (- 1) = Some [100, 200]"
    by auto
  with v f g s example_unknown_user example_unknown_users show ?thesis
    by simp
qed

text \<open>
  What the lists are rests on the function that the loop calls. With one that draws
  from the generator, the two unknown users of one request get different lists: the loop
  by itself only keeps the user from the function.
\<close>

lemma drawing_popular_differs:
  "map_sum id (\<lambda>r. (r (- 99999), r (- 1)))
     (fst (cold_start_recs drawing_popular (example_info\<lparr>np_rng := [1, 0]\<rparr>) [- 99999, - 1]
        False 1 Map.empty)) =
     Inr (Some [200], Some [100])"
  by code_simp

lemma update_append_notin:
  "k \<notin> fst ` set al \<Longrightarrow> AList.update k v (al @ bl) = al @ AList.update k v bl"
  by (induction al) auto

lemma foldl_upd_keys: "fst ` set (foldl upd al xs) = fst ` set al \<union> fst ` set xs"
proof (induction xs arbitrary: al)
  case Nil
  then show ?case by simp
next
  case (Cons x xs)
  obtain k v where x: "x = (k, v)" by (cases x)
  have "fst ` set (AList.update k v al) = insert k (fst ` set al)"
    using update_keys [of k v al] by (metis (no_types, lifting) insert_absorb list.set_map set_append
        list.simps(15) Un_insert_right sup_bot.right_neutral empty_set)
  with Cons.IH [of "AList.update k v al"] show ?case by (auto simp: x)
qed

lemma foldl_upd_prefix:
  assumes "fst ` set xs \<inter> fst ` set al = {}"
  shows "foldl upd (al @ bl) xs = al @ foldl upd bl xs"
  using assms
proof (induction xs arbitrary: bl)
  case Nil
  then show ?case by simp
next
  case (Cons x xs)
  obtain k v where x: "x = (k, v)" by (cases x)
  from Cons.prems have k: "k \<notin> fst ` set al" and r: "fst ` set xs \<inter> fst ` set al = {}"
    by (auto simp: x)
  show ?case
    using Cons.IH [OF r, of "AList.update k v bl"] by (simp add: x update_append_notin [OF k])
qed

lemma foldl_upd_append:
  assumes "fst ` set ys \<inter> fst ` set xs = {}"
  shows "foldl upd [] (xs @ ys) = foldl upd [] xs @ foldl upd [] ys"
proof -
  have "fst ` set ys \<inter> fst ` set (foldl upd [] xs) = {}"
    using assms by (simp add: foldl_upd_keys)
  from foldl_upd_prefix [OF this, of "[]"] show ?thesis by simp
qed

lemma foldl_upd_values: "set (foldl upd al xs) \<subseteq> set al \<union> set xs"
proof (induction xs arbitrary: al)
  case Nil
  then show ?case by simp
next
  case (Cons x xs)
  obtain k v where x: "x = (k, v)" by (cases x)
  have "set (AList.update k v al) \<subseteq> insert (k, v) (set al)"
    by (induction al) auto
  with Cons.IH [of "AList.update k v al"] show ?case by (auto simp: x)
qed

lemma foldl_upd_entry: "foldl upd [] (entry K C arg) = entry K C arg"
  by (cases arg) (simp_all add: entry_def)

lemma entry_keys: "fst ` set (entry K C arg) \<subseteq> {K}"
  by (cases arg) (simp_all add: entry_def)

lemma unique_entries_elems:
  "kv \<in> set (unique_entries pre dicts) \<Longrightarrow> \<exists>col val. kv = (pre @ col, RealArray val)"
  by (cases dicts) (auto simp: unique_entries_def)

lemma entry_notin [simp]: "K' \<noteq> K \<Longrightarrow> K' \<notin> fst ` set (entry K C arg)"
  by (cases arg) (simp_all add: entry_def)

lemma unique_entries_notin [simp]:
  "take (length pre) k \<noteq> pre \<Longrightarrow> k \<notin> fst ` set (unique_entries pre dicts)"
  by (cases dicts) (auto simp: unique_entries_def)

lemma foldl_upd_step_entry:
  "K \<notin> fst ` set al \<Longrightarrow> foldl upd al (entry K C arg) = al @ entry K C arg"
  by (cases arg) (simp_all add: entry_def update_append_notin [of _ al _ "[]", simplified])

lemma foldl_upd_step_unique:
  assumes "\<And>col. pre @ col \<notin> fst ` set al"
  shows "foldl upd al (unique_entries pre dicts) = al @ foldl upd [] (unique_entries pre dicts)"
proof -
  have "fst ` set (unique_entries pre dicts) \<inter> fst ` set al = {}"
  proof (rule ccontr)
    assume "fst ` set (unique_entries pre dicts) \<inter> fst ` set al \<noteq> {}"
    then obtain kv where kv: "kv \<in> set (unique_entries pre dicts)" "fst kv \<in> fst ` set al"
      by auto
    from unique_entries_elems [OF kv(1)] obtain col val where "kv = (pre @ col, RealArray val)"
      by blast
    with kv(2) assms [of col] show False by simp
  qed
  from foldl_upd_prefix [OF this, of "[]"] show ?thesis by simp
qed

lemma hparams_of_chunks:
  "hparams_of a =
     entry ''interaction_data'' Interactions (arg_interaction_data a) @
     entry ''user_sparse_unique'' IntMatrix (arg_user_sparse_unique a) @
     entry ''user_dense_unique'' RealMatrix (arg_user_dense_unique a) @
     entry ''item_sparse_unique'' IntMatrix (arg_item_sparse_unique a) @
     entry ''item_dense_unique'' RealMatrix (arg_item_dense_unique a) @
     entry ''user_indices'' Indices (arg_user_indices a) @
     entry ''item_indices'' Indices (arg_item_indices a) @
     entry ''user_unique_vals'' RealArray (arg_user_unique_vals a) @
     entry ''item_unique_vals'' RealArray (arg_item_unique_vals a) @
     foldl upd [] (unique_entries ''unique_'' (arg_sparse_unique_vals a)) @
     entry ''sparse_offset'' IntArray (arg_sparse_offset a) @
     entry ''sparse_oov'' IntArray (arg_sparse_oov a) @
     foldl upd [] (unique_entries ''munique_'' (arg_multi_sparse_unique_vals a)) @
     entry ''multi_sparse_combine_info'' PyObject (arg_multi_sparse_combine_info a)"
proof -
  have s0: "foldl upd [] (entry ''interaction_data'' Interactions (arg_interaction_data a)) = entry ''interaction_data'' Interactions (arg_interaction_data a)"
    by (rule foldl_upd_entry)
  have s1: "foldl upd (entry ''interaction_data'' Interactions (arg_interaction_data a)) (entry ''user_sparse_unique'' IntMatrix (arg_user_sparse_unique a)) =
      (entry ''interaction_data'' Interactions (arg_interaction_data a)) @ (entry ''user_sparse_unique'' IntMatrix (arg_user_sparse_unique a))"
    by (rule foldl_upd_step_entry) (simp add: image_Un foldl_upd_keys)
  have s2: "foldl upd ((entry ''interaction_data'' Interactions (arg_interaction_data a)) @ (entry ''user_sparse_unique'' IntMatrix (arg_user_sparse_unique a))) (entry ''user_dense_unique'' RealMatrix (arg_user_dense_unique a)) =
      ((entry ''interaction_data'' Interactions (arg_interaction_data a)) @ (entry ''user_sparse_unique'' IntMatrix (arg_user_sparse_unique a))) @ (entry ''user_dense_unique'' RealMatrix (arg_user_dense_unique a))"
    by (rule foldl_upd_step_entry) (simp add: image_Un foldl_upd_keys)
  have s3: "foldl upd (((entry ''interaction_data'' Interactions (arg_interaction_data a)) @ (entry ''user_sparse_unique'' IntMatrix (arg_user_sparse_unique a))) @ (entry ''user_dense_unique'' RealMatrix (arg_user_dense_unique a))) (entry ''item_sparse_unique'' IntMatrix (arg_item_sparse_unique a)) =
      (((entry ''interaction_data'' Interactions (arg_interaction_data a)) @ (entry ''user_sparse_unique'' IntMatrix (arg_user_sparse_unique a))) @ (entry ''user_dense_unique'' RealMatrix (arg_user_dense_unique a))) @ (entry ''item_sparse_unique'' IntMatrix (arg_item_sparse_unique a))"
    by (rule foldl_upd_step_entry) (simp add: image_Un foldl_upd_keys)
  have s4: "foldl upd ((((entry ''interaction_data'' Interactions (arg_interaction_data a)) @ (entry ''user_sparse_unique'' IntMatrix (arg_user_sparse_unique a))) @ (entry ''user_dense_unique'' RealMatrix (arg_user_dense_unique a))) @ (entry ''item_sparse_unique'' IntMatrix (arg_item_sparse_unique a))) (entry ''item_dense_unique'' RealMatrix (arg_item_dense_unique a)) =
      ((((entry ''interaction_data'' Interactions (arg_interaction_data a)) @ (entry ''user_sparse_unique'' IntMatrix (arg_user_sparse_unique a))) @ (entry ''user_dense_unique'' RealMatrix (arg_user_dense_unique a))) @ (entry ''item_sparse_unique'' IntMatrix (arg_item_sparse_unique a))) @ (entry ''item_dense_unique'' RealMatrix (arg_item_dense_unique a))"
    by (rule foldl_upd_step_entry) (simp add: image_Un foldl_upd_keys)
  have s5: "foldl upd (((((entry ''interaction_data'' Interactions (arg_interaction_data a)) @ (entry ''user_sparse_unique'' IntMatrix (arg_user_sparse_unique a))) @ (entry ''user_dense_unique'' RealMatrix (arg_user_dense_unique a))) @ (entry ''item_sparse_unique'' IntMatrix (arg_item_sparse_unique a))) @ (entry ''item_dense_unique'' RealMatrix (arg_item_dense_unique a))) (entry ''user_indices'' Indices (arg_user_indices a)) =
      (((((entry ''interaction_data'' Interactions (arg_interaction_data a)) @ (entry ''user_sparse_unique'' IntMatrix (arg_user_sparse_unique a))) @ (entry ''user_dense_unique'' RealMatrix (arg_user_dense_unique a))) @ (entry ''item_sparse_unique'' IntMatrix (arg_item_sparse_unique a))) @ (entry ''item_dense_unique'' RealMatrix (arg_item_dense_unique a))) @ (entry ''user_indices'' Indices (arg_user_indices a))"
    by (rule foldl_upd_step_entry) (simp add: image_Un foldl_upd_keys)
  have s6: "foldl upd ((((((entry ''interaction_data'' Interactions (arg_interaction_data a)) @ (entry ''user_sparse_unique'' IntMatrix (arg_user_sparse_unique a))) @ (entry ''user_dense_unique'' RealMatrix (arg_user_dense_unique a))) @ (entry ''item_sparse_unique'' IntMatrix (arg_item_sparse_unique a))) @ (entry ''item_dense_unique'' RealMatrix (arg_item_dense_unique a))) @ (entry ''user_indices'' Indices (arg_user_indices a))) (entry ''item_indices'' Indices (arg_item_indices a)) =
      ((((((entry ''interaction_data'' Interactions (arg_interaction_data a)) @ (entry ''user_sparse_unique'' IntMatrix (arg_user_sparse_unique a))) @ (entry ''user_dense_unique'' RealMatrix (arg_user_dense_unique a))) @ (entry ''item_sparse_unique'' IntMatrix (arg_item_sparse_unique a))) @ (entry ''item_dense_unique'' RealMatrix (arg_item_dense_unique a))) @ (entry ''user_indices'' Indices (arg_user_indices a))) @ (entry ''item_indices'' Indices (arg_item_indices a))"
    by (rule foldl_upd_step_entry) (simp add: image_Un foldl_upd_keys)
  have s7: "foldl upd (((((((entry ''interaction_data'' Interactions (arg_interaction_data a)) @ (entry ''user_sparse_unique'' IntMatrix (arg_user_sparse_unique a))) @ (entry ''user_dense_unique'' RealMatrix (arg_user_dense_unique a))) @ (entry ''item_sparse_unique'' IntMatrix (arg_item_sparse_unique a))) @ (entry ''item_dense_unique'' RealMatrix (arg_item_dense_unique a))) @ (entry ''user_indices'' Indices (arg_user_indices a))) @ (entry ''item_indices'' Indices (arg_item_indices a))) (entry ''user_unique_vals'' RealArray (arg_user_unique_vals a)) =
      (((((((entry ''interaction_data'' Interactions (arg_interaction_data a)) @ (entry ''user_sparse_unique'' IntMatrix (arg_user_sparse_unique a))) @ (entry ''user_dense_unique'' RealMatrix (arg_user_dense_unique a))) @ (entry ''item_sparse_unique'' IntMatrix (arg_item_sparse_unique a))) @ (entry ''item_dense_unique'' RealMatrix (arg_item_dense_unique a))) @ (entry ''user_indices'' Indices (arg_user_indices a))) @ (entry ''item_indices'' Indices (arg_item_indices a))) @ (entry ''user_unique_vals'' RealArray (arg_user_unique_vals a))"
    by (rule foldl_upd_step_entry) (simp add: image_Un foldl_upd_keys)
  have s8: "foldl upd ((((((((entry ''interaction_data'' Interactions (arg_interaction_data a)) @ (entry ''user_sparse_unique'' IntMatrix (arg_user_sparse_unique a))) @ (entry ''user_dense_unique'' RealMatrix (arg_user_dense_unique a))) @ (entry ''item_sparse_unique'' IntMatrix (arg_item_sparse_unique a))) @ (entry ''item_dense_unique'' RealMatrix (arg_item_dense_unique a))) @ (entry ''user_indices'' Indices (arg_user_indices a))) @ (entry ''item_indices'' Indices (arg_item_indices a))) @ (entry ''user_unique_vals'' RealArray (arg_user_unique_vals a))) (entry ''item_unique_vals'' RealArray (arg_item_unique_vals a)) =
      ((((((((entry ''interaction_data'' Interactions (arg_interaction_data a)) @ (entry ''user_sparse_unique'' IntMatrix (arg_user_sparse_unique a))) @ (entry ''user_dense_unique'' RealMatrix (arg_user_dense_unique a))) @ (entry ''item_sparse_unique'' IntMatrix (arg_item_sparse_unique a))) @ (entry ''item_dense_unique'' RealMatrix (arg_item_dense_unique a))) @ (entry ''user_indices'' Indices (arg_user_indices a))) @ (entry ''item_indices'' Indices (arg_item_indices a))) @ (entry ''user_unique_vals'' RealArray (arg_user_unique_vals a))) @ (entry ''item_unique_vals'' RealArray (arg_item_unique_vals a))"
    by (rule foldl_upd_step_entry) (simp add: image_Un foldl_upd_keys)
  have s9: "foldl upd (((((((((entry ''interaction_data'' Interactions (arg_interaction_data a)) @ (entry ''user_sparse_unique'' IntMatrix (arg_user_sparse_unique a))) @ (entry ''user_dense_unique'' RealMatrix (arg_user_dense_unique a))) @ (entry ''item_sparse_unique'' IntMatrix (arg_item_sparse_unique a))) @ (entry ''item_dense_unique'' RealMatrix (arg_item_dense_unique a))) @ (entry ''user_indices'' Indices (arg_user_indices a))) @ (entry ''item_indices'' Indices (arg_item_indices a))) @ (entry ''user_unique_vals'' RealArray (arg_user_unique_vals a))) @ (entry ''item_unique_vals'' RealArray (arg_item_unique_vals a))) (unique_entries ''unique_'' (arg_sparse_unique_vals a)) =
      (((((((((entry ''interaction_data'' Interactions (arg_interaction_data a)) @ (entry ''user_sparse_unique'' IntMatrix (arg_user_sparse_unique a))) @ (entry ''user_dense_unique'' RealMatrix (arg_user_dense_unique a))) @ (entry ''item_sparse_unique'' IntMatrix (arg_item_sparse_unique a))) @ (entry ''item_dense_unique'' RealMatrix (arg_item_dense_unique a))) @ (entry ''user_indices'' Indices (arg_user_indices a))) @ (entry ''item_indices'' Indices (arg_item_indices a))) @ (entry ''user_unique_vals'' RealArray (arg_user_unique_vals a))) @ (entry ''item_unique_vals'' RealArray (arg_item_unique_vals a))) @ (foldl upd [] (unique_entries ''unique_'' (arg_sparse_unique_vals a)))"
    by (rule foldl_upd_step_unique) (simp add: image_Un foldl_upd_keys)
  have s10: "foldl upd ((((((((((entry ''interaction_data'' Interactions (arg_interaction_data a)) @ (entry ''user_sparse_unique'' IntMatrix (arg_user_sparse_unique a))) @ (entry ''user_dense_unique'' RealMatrix (arg_user_dense_unique a))) @ (entry ''item_sparse_unique'' IntMatrix (arg_item_sparse_unique a))) @ (entry ''item_dense_unique'' RealMatrix (arg_item_dense_unique a))) @ (entry ''user_indices'' Indices (arg_user_indices a))) @ (entry ''item_indices'' Indices (arg_item_indices a))) @ (entry ''user_unique_vals'' RealArray (arg_user_unique_vals a))) @ (entry ''item_unique_vals'' RealArray (arg_item_unique_vals a))) @ (foldl upd [] (unique_entries ''unique_'' (arg_sparse_unique_vals a)))) (entry ''sparse_offset'' IntArray (arg_sparse_offset a)) =
      ((((((((((entry ''interaction_data'' Interactions (arg_interaction_data a)) @ (entry ''user_sparse_unique'' IntMatrix (arg_user_sparse_unique a))) @ (entry ''user_dense_unique'' RealMatrix (arg_user_dense_unique a))) @ (entry ''item_sparse_unique'' IntMatrix (arg_item_sparse_unique a))) @ (entry ''item_dense_unique'' RealMatrix (arg_item_dense_unique a))) @ (entry ''user_indices'' Indices (arg_user_indices a))) @ (entry ''item_indices'' Indices (arg_item_indices a))) @ (entry ''user_unique_vals'' RealArray (arg_user_unique_vals a))) @ (entry ''item_unique_vals'' RealArray (arg_item_unique_vals a))) @ (foldl upd [] (unique_entries ''unique_'' (arg_sparse_unique_vals a)))) @ (entry ''sparse_offset'' IntArray (arg_sparse_offset a))"
    by (rule foldl_upd_step_entry) (simp add: image_Un foldl_upd_keys)
  have s11: "foldl upd (((((((((((entry ''interaction_data'' Interactions (arg_interaction_data a)) @ (entry ''user_sparse_unique'' IntMatrix (arg_user_sparse_unique a))) @ (entry ''user_dense_unique'' RealMatrix (arg_user_dense_unique a))) @ (entry ''item_sparse_unique'' IntMatrix (arg_item_sparse_unique a))) @ (entry ''item_dense_unique'' RealMatrix (arg_item_dense_unique a))) @ (entry ''user_indices'' Indices (arg_user_indices a))) @ (entry ''item_indices'' Indices (arg_item_indices a))) @ (entry ''user_unique_vals'' RealArray (arg_user_unique_vals a))) @ (entry ''item_unique_vals'' RealArray (arg_item_unique_vals a))) @ (foldl upd [] (unique_entries ''unique_'' (arg_sparse_unique_vals a)))) @ (entry ''sparse_offset'' IntArray (arg_sparse_offset a))) (entry ''sparse_oov'' IntArray (arg_sparse_oov a)) =
      (((((((((((entry ''interaction_data'' Interactions (arg_interaction_data a)) @ (entry ''user_sparse_unique'' IntMatrix (arg_user_sparse_unique a))) @ (entry ''user_dense_unique'' RealMatrix (arg_user_dense_unique a))) @ (entry ''item_sparse_unique'' IntMatrix (arg_item_sparse_unique a))) @ (entry ''item_dense_unique'' RealMatrix (arg_item_dense_unique a))) @ (entry ''user_indices'' Indices (arg_user_indices a))) @ (entry ''item_indices'' Indices (arg_item_indices a))) @ (entry ''user_unique_vals'' RealArray (arg_user_unique_vals a))) @ (entry ''item_unique_vals'' RealArray (arg_item_unique_vals a))) @ (foldl upd [] (unique_entries ''unique_'' (arg_sparse_unique_vals a)))) @ (entry ''sparse_offset'' IntArray (arg_sparse_offset a))) @ (entry ''sparse_oov'' IntArray (arg_sparse_oov a))"
    by (rule foldl_upd_step_entry) (simp add: image_Un foldl_upd_keys)
  have s12: "foldl upd ((((((((((((entry ''interaction_data'' Interactions (arg_interaction_data a)) @ (entry ''user_sparse_unique'' IntMatrix (arg_user_sparse_unique a))) @ (entry ''user_dense_unique'' RealMatrix (arg_user_dense_unique a))) @ (entry ''item_sparse_unique'' IntMatrix (arg_item_sparse_unique a))) @ (entry ''item_dense_unique'' RealMatrix (arg_item_dense_unique a))) @ (entry ''user_indices'' Indices (arg_user_indices a))) @ (entry ''item_indices'' Indices (arg_item_indices a))) @ (entry ''user_unique_vals'' RealArray (arg_user_unique_vals a))) @ (entry ''item_unique_vals'' RealArray (arg_item_unique_vals a))) @ (foldl upd [] (unique_entries ''unique_'' (arg_sparse_unique_vals a)))) @ (entry ''sparse_offset'' IntArray (arg_sparse_offset a))) @ (entry ''sparse_oov'' IntArray (arg_sparse_oov a))) (unique_entries ''munique_'' (arg_multi_sparse_unique_vals a)) =
      ((((((((((((entry ''interaction_data'' Interactions (arg_interaction_data a)) @ (entry ''user_sparse_unique'' IntMatrix (arg_user_sparse_unique a))) @ (entry ''user_dense_unique'' RealMatrix (arg_user_dense_unique a))) @ (entry ''item_sparse_unique'' IntMatrix (arg_item_sparse_unique a))) @ (entry ''item_dense_unique'' RealMatrix (arg_item_dense_unique a))) @ (entry ''user_indices'' Indices (arg_user_indices a))) @ (entry ''item_indices'' Indices (arg_item_indices a))) @ (entry ''user_unique_vals'' RealArray (arg_user_unique_vals a))) @ (entry ''item_unique_vals'' RealArray (arg_item_unique_vals a))) @ (foldl upd [] (unique_entries ''unique_'' (arg_sparse_unique_vals a)))) @ (entry ''sparse_offset'' IntArray (arg_sparse_offset a))) @ (entry ''sparse_oov'' IntArray (arg_sparse_oov a))) @ (foldl upd [] (unique_entries ''munique_'' (arg_multi_sparse_unique_vals a)))"
    by (rule foldl_upd_step_unique) (simp add: image_Un foldl_upd_keys)
  have s13: "foldl upd (((((((((((((entry ''interaction_data'' Interactions (arg_interaction_data a)) @ (entry ''user_sparse_unique'' IntMatrix (arg_user_sparse_unique a))) @ (entry ''user_dense_unique'' RealMatrix (arg_user_dense_unique a))) @ (entry ''item_sparse_unique'' IntMatrix (arg_item_sparse_unique a))) @ (entry ''item_dense_unique'' RealMatrix (arg_item_dense_unique a))) @ (entry ''user_indices'' Indices (arg_user_indices a))) @ (entry ''item_indices'' Indices (arg_item_indices a))) @ (entry ''user_unique_vals'' RealArray (arg_user_unique_vals a))) @ (entry ''item_unique_vals'' RealArray (arg_item_unique_vals a))) @ (foldl upd [] (unique_entries ''unique_'' (arg_sparse_unique_vals a)))) @ (entry ''sparse_offset'' IntArray (arg_sparse_offset a))) @ (entry ''sparse_oov'' IntArray (arg_sparse_oov a))) @ (foldl upd [] (unique_entries ''munique_'' (arg_multi_sparse_unique_vals a)))) (entry ''multi_sparse_combine_info'' PyObject (arg_multi_sparse_combine_info a)) =
      (((((((((((((entry ''interaction_data'' Interactions (arg_interaction_data a)) @ (entry ''user_sparse_unique'' IntMatrix (arg_user_sparse_unique a))) @ (entry ''user_dense_unique'' RealMatrix (arg_user_dense_unique a))) @ (entry ''item_sparse_unique'' IntMatrix (arg_item_sparse_unique a))) @ (entry ''item_dense_unique'' RealMatrix (arg_item_dense_unique a))) @ (entry ''user_indices'' Indices (arg_user_indices a))) @ (entry ''item_indices'' Indices (arg_item_indices a))) @ (entry ''user_unique_vals'' RealArray (arg_user_unique_vals a))) @ (entry ''item_unique_vals'' RealArray (arg_item_unique_vals a))) @ (foldl upd [] (unique_entries ''unique_'' (arg_sparse_unique_vals a)))) @ (entry ''sparse_offset'' IntArray (arg_sparse_offset a))) @ (entry ''sparse_oov'' IntArray (arg_sparse_oov a))) @ (foldl upd [] (unique_entries ''munique_'' (arg_multi_sparse_unique_vals a)))) @ (entry ''multi_sparse_combine_info'' PyObject (arg_multi_sparse_combine_info a))"
    by (rule foldl_upd_step_entry) (simp add: image_Un foldl_upd_keys)
  show ?thesis
    unfolding hparams_of_def
    apply (simp only: foldl_append s0 s1 s2 s3 s4 s5 s6 s7 s8 s9 s10 s11 s12 s13)
    apply (simp only: append_assoc)
    done
qed

lemma load_entries_append:
  "load_entries h (xs @ ys) =
     (case load_entries h xs of Inl e \<Rightarrow> Inl e | Inr h' \<Rightarrow> load_entries h' ys)"
  by (induction xs arbitrary: h) (simp_all split: sum.splits)

lemma case_option_id [simp]: "(case x of None \<Rightarrow> None | Some v \<Rightarrow> Some v) = x"
  by (cases x) simp_all

lemma load_interaction_data:
  "arg_interaction_data h = None \<Longrightarrow>
   load_entries h (entry ''interaction_data'' Interactions arg @ rest) = load_entries (h\<lparr>arg_interaction_data := arg\<rparr>) rest"
  by (cases arg; cases h) (simp_all add: entry_def load_entry_def)

lemma load_user_sparse_unique:
  "arg_user_sparse_unique h = None \<Longrightarrow>
   load_entries h (entry ''user_sparse_unique'' IntMatrix arg @ rest) = load_entries (h\<lparr>arg_user_sparse_unique := arg\<rparr>) rest"
  by (cases arg; cases h) (simp_all add: entry_def load_entry_def)

lemma load_user_dense_unique:
  "arg_user_dense_unique h = None \<Longrightarrow>
   load_entries h (entry ''user_dense_unique'' RealMatrix arg @ rest) = load_entries (h\<lparr>arg_user_dense_unique := arg\<rparr>) rest"
  by (cases arg; cases h) (simp_all add: entry_def load_entry_def)

lemma load_item_sparse_unique:
  "arg_item_sparse_unique h = None \<Longrightarrow>
   load_entries h (entry ''item_sparse_unique'' IntMatrix arg @ rest) = load_entries (h\<lparr>arg_item_sparse_unique := arg\<rparr>) rest"
  by (cases arg; cases h) (simp_all add: entry_def load_entry_def)

lemma load_item_dense_unique:
  "arg_item_dense_unique h = None \<Longrightarrow>
   load_entries h (entry ''item_dense_unique'' RealMatrix arg @ rest) = load_entries (h\<lparr>arg_item_dense_unique := arg\<rparr>) rest"
  by (cases arg; cases h) (simp_all add: entry_def load_entry_def)

lemma load_user_indices:
  "arg_user_indices h = None \<Longrightarrow>
   load_entries h (entry ''user_indices'' Indices arg @ rest) = load_entries (h\<lparr>arg_user_indices := arg\<rparr>) rest"
  by (cases arg; cases h) (simp_all add: entry_def load_entry_def)

lemma load_item_indices:
  "arg_item_indices h = None \<Longrightarrow>
   load_entries h (entry ''item_indices'' Indices arg @ rest) = load_entries (h\<lparr>arg_item_indices := arg\<rparr>) rest"
  by (cases arg; cases h) (simp_all add: entry_def load_entry_def)

lemma load_user_unique_vals:
  "arg_user_unique_vals h = None \<Longrightarrow>
   load_entries h (entry ''user_unique_vals'' RealArray arg @ rest) = load_entries (h\<lparr>arg_user_unique_vals := arg\<rparr>) rest"
  by (cases arg; cases h) (simp_all add: entry_def load_entry_def)

lemma load_item_unique_vals:
  "arg_item_unique_vals h = None \<Longrightarrow>
   load_entries h (entry ''item_unique_vals'' RealArray arg @ rest) = load_entries (h\<lparr>arg_item_unique_vals := arg\<rparr>) rest"
  by (cases arg; cases h) (simp_all add: entry_def load_entry_def)

lemma load_sparse_offset:
  "arg_sparse_offset h = None \<Longrightarrow>
   load_entries h (entry ''sparse_offset'' IntArray arg @ rest) = load_entries (h\<lparr>arg_sparse_offset := arg\<rparr>) rest"
  by (cases arg; cases h) (simp_all add: entry_def load_entry_def)

lemma load_sparse_oov:
  "arg_sparse_oov h = None \<Longrightarrow>
   load_entries h (entry ''sparse_oov'' IntArray arg @ rest) = load_entries (h\<lparr>arg_sparse_oov := arg\<rparr>) rest"
  by (cases arg; cases h) (simp_all add: entry_def load_entry_def)

lemma load_multi_sparse_combine_info:
  "arg_multi_sparse_combine_info h = None \<Longrightarrow>
   load_entries h (entry ''multi_sparse_combine_info'' PyObject arg @ rest) = load_entries (h\<lparr>arg_multi_sparse_combine_info := arg\<rparr>) rest"
  by (cases arg; cases h) (simp_all add: entry_def load_entry_def)

lemma load_unique:
  assumes "\<forall>kv\<in>set xs. \<exists>col val. kv = (''unique_'' @ col, RealArray val)"
  shows "load_entries h (xs @ rest) =
     load_entries (h\<lparr>arg_sparse_unique_vals := reloaded_dict 7 (arg_sparse_unique_vals h) xs\<rparr>) rest"
  using assms
proof (induction xs arbitrary: h)
  case Nil
  then show ?case by (simp add: reloaded_dict_def)
next
  case (Cons kv xs)
  then obtain col val where kv: "kv = (''unique_'' @ col, RealArray val)" by auto
  have st: "load_entry h kv =
      Inr (h\<lparr>arg_sparse_unique_vals := dict_set (arg_sparse_unique_vals h) col val\<rparr>)"
    by (simp add: kv load_entry_def)
  from Cons.prems have "\<forall>kv\<in>set xs. \<exists>col val. kv = (''unique_'' @ col, RealArray val)" by simp
  from Cons.IH [OF this] st show ?case
    by (simp add: reloaded_dict_def kv)
qed

lemma load_munique:
  assumes "\<forall>kv\<in>set xs. \<exists>col val. kv = (''munique_'' @ col, RealArray val)"
  shows "load_entries h (xs @ rest) =
     load_entries (h\<lparr>arg_multi_sparse_unique_vals :=
                      reloaded_dict 8 (arg_multi_sparse_unique_vals h) xs\<rparr>) rest"
  using assms
proof (induction xs arbitrary: h)
  case Nil
  then show ?case by (simp add: reloaded_dict_def)
next
  case (Cons kv xs)
  then obtain col val where kv: "kv = (''munique_'' @ col, RealArray val)" by auto
  have st: "load_entry h kv =
      Inr (h\<lparr>arg_multi_sparse_unique_vals := dict_set (arg_multi_sparse_unique_vals h) col val\<rparr>)"
    by (simp add: kv load_entry_def)
  from Cons.prems have "\<forall>kv\<in>set xs. \<exists>col val. kv = (''munique_'' @ col, RealArray val)" by simp
  from Cons.IH [OF this] st show ?case
    by (simp add: reloaded_dict_def kv)
qed

lemma unique_chunk_form:
  "\<forall>kv\<in>set (foldl upd [] (unique_entries pre dicts)). \<exists>col val. kv = (pre @ col, RealArray val)"
  using foldl_upd_values [of "[]" "unique_entries pre dicts"] unique_entries_elems [of _ pre dicts]
  by auto

lemma load_entries_hparams:
  "\<exists>X Y. load_entries (no_args\<lparr>arg_col_name_mapping := c\<rparr>) (hparams_of a) =
     Inr (a\<lparr>arg_col_name_mapping := c, arg_sparse_unique_vals := X,
            arg_multi_sparse_unique_vals := Y\<rparr>)"
proof -
  let ?U = "foldl upd [] (unique_entries ''unique_'' (arg_sparse_unique_vals a))"
  let ?M = "foldl upd [] (unique_entries ''munique_'' (arg_multi_sparse_unique_vals a))"
  let ?X = "reloaded_dict 7 None ?U"
  let ?Y = "reloaded_dict 8 None ?M"
  note u = load_unique [OF unique_chunk_form [of "''unique_''" "arg_sparse_unique_vals a"]]
  note m = load_munique [OF unique_chunk_form [of "''munique_''" "arg_multi_sparse_unique_vals a"]]
  have "load_entries (no_args\<lparr>arg_col_name_mapping := c\<rparr>) (hparams_of a) =
      Inr (\<lparr>arg_col_name_mapping = c, arg_interaction_data = arg_interaction_data a,
        arg_user_sparse_unique = arg_user_sparse_unique a,
        arg_user_dense_unique = arg_user_dense_unique a,
        arg_item_sparse_unique = arg_item_sparse_unique a,
        arg_item_dense_unique = arg_item_dense_unique a,
        arg_user_indices = arg_user_indices a, arg_item_indices = arg_item_indices a,
        arg_user_unique_vals = arg_user_unique_vals a,
        arg_item_unique_vals = arg_item_unique_vals a,
        arg_sparse_unique_vals = ?X, arg_sparse_offset = arg_sparse_offset a,
        arg_sparse_oov = arg_sparse_oov a, arg_multi_sparse_unique_vals = ?Y,
        arg_multi_sparse_combine_info = arg_multi_sparse_combine_info a\<rparr>)"
    unfolding hparams_of_chunks
    by (simp add: load_interaction_data load_user_sparse_unique load_user_dense_unique load_item_sparse_unique load_item_dense_unique load_user_indices load_item_indices load_user_unique_vals load_item_unique_vals load_sparse_offset load_sparse_oov u m
          load_multi_sparse_combine_info [of _ _ "[]", simplified] no_args_def)
  moreover have "\<lparr>arg_col_name_mapping = c, arg_interaction_data = arg_interaction_data a,
        arg_user_sparse_unique = arg_user_sparse_unique a,
        arg_user_dense_unique = arg_user_dense_unique a,
        arg_item_sparse_unique = arg_item_sparse_unique a,
        arg_item_dense_unique = arg_item_dense_unique a,
        arg_user_indices = arg_user_indices a, arg_item_indices = arg_item_indices a,
        arg_user_unique_vals = arg_user_unique_vals a,
        arg_item_unique_vals = arg_item_unique_vals a,
        arg_sparse_unique_vals = ?X, arg_sparse_offset = arg_sparse_offset a,
        arg_sparse_oov = arg_sparse_oov a, arg_multi_sparse_unique_vals = ?Y,
        arg_multi_sparse_combine_info = arg_multi_sparse_combine_info a\<rparr> =
      a\<lparr>arg_col_name_mapping := c, arg_sparse_unique_vals := ?X,
        arg_multi_sparse_unique_vals := ?Y\<rparr>"
    by (cases a) simp
  ultimately show ?thesis by metis
qed

lemma and_then_commute:
  assumes "r' = map_prod id f r" "\<And>s. g (f s) = map_prod id f (g s)"
  shows "and_then r' g = map_prod id f (and_then r g)"
  using assms by (cases r) (auto simp: and_then_def split: option.splits)

lemma add_oov_user_sparse_dicts:
  "add_oov_user_sparse (with_dicts x1 x2 x3 x4 x5 x6 d) =
     map_prod id (with_dicts x1 x2 x3 x4 x5 x6) (add_oov_user_sparse d)"
  by (simp add: add_oov_user_sparse_def with_dicts_def Let_def read_n_users_def n_users_def
        user_sparse_col_def split: option.splits sum.splits)

lemma add_oov_item_sparse_dicts:
  "add_oov_item_sparse (with_dicts x1 x2 x3 x4 x5 x6 d) =
     map_prod id (with_dicts x1 x2 x3 x4 x5 x6) (add_oov_item_sparse d)"
  by (simp add: add_oov_item_sparse_def with_dicts_def Let_def read_n_items_def n_items_def
        item_sparse_col_def split: option.splits sum.splits)

lemma add_oov_user_dense_dicts:
  "add_oov_user_dense (with_dicts x1 x2 x3 x4 x5 x6 d) =
     map_prod id (with_dicts x1 x2 x3 x4 x5 x6) (add_oov_user_dense d)"
  by (simp add: add_oov_user_dense_def with_dicts_def Let_def read_n_users_def n_users_def
        split: option.splits sum.splits)

lemma add_oov_item_dense_dicts:
  "add_oov_item_dense (with_dicts x1 x2 x3 x4 x5 x6 d) =
     map_prod id (with_dicts x1 x2 x3 x4 x5 x6) (add_oov_item_dense d)"
  by (simp add: add_oov_item_dense_def with_dicts_def Let_def read_n_items_def n_items_def
        split: option.splits sum.splits)

lemma add_oov_dicts:
  "add_oov (with_dicts x1 x2 x3 x4 x5 x6 d) = map_prod id (with_dicts x1 x2 x3 x4 x5 x6) (add_oov d)"
  unfolding add_oov_def
  by (intro and_then_commute add_oov_user_sparse_dicts add_oov_item_sparse_dicts
        add_oov_user_dense_dicts add_oov_item_dense_dicts)

lemma set_popular_items_dicts:
  "set_popular_items (with_dicts x1 x2 x3 x4 x5 x6 d) n =
     map_sum id (with_dicts x1 x2 x3 x4 x5 x6) (set_popular_items d n)"
  by (simp add: set_popular_items_def with_dicts_def Let_def split: option.splits)

lemma claimed_dicts: "claimed (with_dicts x1 x2 x3 x4 x5 x6 d) = claimed d"
  by (simp add: claimed_def with_dicts_def user2id_def item2id_def n_users_def n_items_def
        split: option.splits)

lemma DataInfo_init_dicts:
  assumes "(case c of None \<Rightarrow> None | Some m \<Rightarrow> m) =
      (case arg_col_name_mapping a of None \<Rightarrow> None | Some m \<Rightarrow> m)"
  shows "map_sum id claimed (DataInfo_init rng' (a\<lparr>arg_col_name_mapping := c,
        arg_sparse_unique_vals := X, arg_multi_sparse_unique_vals := Y\<rparr>)) =
     map_sum id claimed (DataInfo_init rng a)"
proof (cases "\<exists>uv iv ui ii. arg_user_unique_vals a = Some uv \<and> arg_item_unique_vals a = Some iv \<and>
    arg_user_indices a = Some ui \<and> arg_item_indices a = Some ii")
  case False
  then show ?thesis
    by (auto simp: DataInfo_init_def split: option.splits)
next
  case True
  then obtain uv iv ui ii where s: "arg_user_unique_vals a = Some uv" "arg_item_unique_vals a = Some iv"
    "arg_user_indices a = Some ui" "arg_item_indices a = Some ii" by blast
  define mapping where "mapping = (case arg_col_name_mapping a of None \<Rightarrow> None | Some m \<Rightarrow> m)"
  define base where "base = \<lparr>col_name_mapping = mapping,
                    interaction_data = arg_interaction_data a,
                    user_sparse_unique = arg_user_sparse_unique a,
                    user_dense_unique = arg_user_dense_unique a,
                    item_sparse_unique = arg_item_sparse_unique a,
                    item_dense_unique = arg_item_dense_unique a,
                    user_consumed = fst (interaction_consumed ui ii),
                    item_consumed = snd (interaction_consumed ui ii),
                    user_unique_vals = uv,
                    item_unique_vals = iv,
                    sparse_unique_vals = arg_sparse_unique_vals a,
                    sparse_unique_idxs = map_unique_vals (arg_sparse_unique_vals a),
                    sparse_offset = arg_sparse_offset a,
                    sparse_oov = arg_sparse_oov a,
                    multi_sparse_unique_vals = arg_multi_sparse_unique_vals a,
                    multi_sparse_unique_idxs = map_unique_vals (arg_multi_sparse_unique_vals a),
                    multi_sparse_combine_info = arg_multi_sparse_combine_info a,
                    np_rng = rng,
                    cached_n_users = None, cached_n_items = None,
                    cached_user2id = None, cached_item2id = None,
                    cached_id2user = None, cached_id2item = None,
                    cached_data_size = None,
                    popular_items = None,
                    old_n_users = None, old_n_items = None,
                    old_sparse_len = None, old_sparse_oov = None, old_sparse_offset = None,
                    all_args = a\<lparr>arg_col_name_mapping := Some mapping\<rparr>,
                    user_sparse_shared = True, user_dense_shared = True,
                    item_sparse_shared = True, item_dense_shared = True\<rparr>"
  let ?a' = "a\<lparr>arg_col_name_mapping := c, arg_sparse_unique_vals := X,
      arg_multi_sparse_unique_vals := Y\<rparr>"
  let ?f = "with_dicts X (map_unique_vals X) Y (map_unique_vals Y)
      (?a'\<lparr>arg_col_name_mapping := Some mapping\<rparr>) rng'"
  have i1: "DataInfo_init rng a =
      (case add_oov base of (Some e, d1) \<Rightarrow> Inl e | (None, d1) \<Rightarrow> set_popular_items d1 100)"
    by (simp add: DataInfo_init_def s base_def mapping_def Let_def)
  have i2: "DataInfo_init rng' ?a' =
      (case add_oov (?f base) of (Some e, d1) \<Rightarrow> Inl e | (None, d1) \<Rightarrow> set_popular_items d1 100)"
    using assms by (simp add: DataInfo_init_def s base_def mapping_def Let_def with_dicts_def)
  obtain e d1 where r: "add_oov base = (e, d1)" by (cases "add_oov base")
  then have r': "add_oov (?f base) = (e, ?f d1)"
    by (simp add: add_oov_dicts)
  show ?thesis
  proof (cases e)
    case (Some err)
    with i1 i2 r r' show ?thesis by simp
  next
    case None
    with i1 i2 r r' have "DataInfo_init rng a = set_popular_items d1 100"
      "DataInfo_init rng' ?a' = map_sum id ?f (set_popular_items d1 100)"
      by (simp_all add: set_popular_items_dicts)
    then show ?thesis
      by (cases "set_popular_items d1 100") (simp_all add: claimed_dicts)
  qed
qed

lemma last_path_join: "b \<noteq> [] \<Longrightarrow> last (path_join a b) = last b"
  by (simp add: path_join_def)

lemma paths_differ: "name_mapping_path path mname \<noteq> npz_path path mname"
proof
  assume "name_mapping_path path mname = npz_path path mname"
  then have "last (name_mapping_path path mname) = last (npz_path path mname)"
    by simp
  then show False
    by (simp add: name_mapping_path_def npz_path_def last_path_join)
qed

lemma load_entries_saved:
  assumes "(case c of None \<Rightarrow> None | Some m \<Rightarrow> m) =
      (case arg_col_name_mapping a of None \<Rightarrow> None | Some m \<Rightarrow> m)"
  shows "\<exists>a'. load_entries (no_args\<lparr>arg_col_name_mapping := c\<rparr>) (hparams_of a) = Inr a' \<and>
     map_sum id claimed (DataInfo_init rng' a') = map_sum id claimed (DataInfo_init rng a)"
proof -
  from load_entries_hparams [of c a] obtain X Y where
    l: "load_entries (no_args\<lparr>arg_col_name_mapping := c\<rparr>) (hparams_of a) =
          Inr (a\<lparr>arg_col_name_mapping := c, arg_sparse_unique_vals := X,
                 arg_multi_sparse_unique_vals := Y\<rparr>)"
    by blast
  from DataInfo_init_dicts [OF assms, where X = X and Y = Y and rng = rng and rng' = rng'] l show ?thesis
    by simp
qed

lemma save_load_claimed:
  assumes cur: "saved_args_current d"
    and stale: "col_name_mapping d = None \<longrightarrow> files fs (name_mapping_path path mname) = None"
    and dir: "path \<in> set (dirs fs) \<or> files fs path = None"
  shows "\<exists>fs' d'. save fs d path mname = (None, fs') \<and>
           load fs' default_rng path mname = Inr d' \<and> claimed d' = claimed d"
proof -
  let ?a = "all_args d"
  let ?nmp = "name_mapping_path path mname"
  let ?npz = "npz_path path mname"
  define fs1 where "fs1 = (if path \<in> set (dirs fs) then fs else fs\<lparr>dirs := path # dirs fs\<rparr>)"
  have fs1: "path \<in> set (dirs fs1)" "files fs1 = files fs"
    by (simp_all add: fs1_def)
  from cur obtain d0 where
    m: "(case arg_col_name_mapping ?a of None \<Rightarrow> None | Some m \<Rightarrow> m) = col_name_mapping d"
    and i: "DataInfo_init (np_rng d) ?a = Inr d0" and c: "claimed d0 = claimed d"
    by (auto simp: saved_args_current_def split: sum.splits)
  have rebuilt: "\<exists>d'. DataInfo_init default_rng a' = Inr d' \<and> claimed d' = claimed d"
    if "map_sum id claimed (DataInfo_init default_rng a') =
        map_sum id claimed (DataInfo_init (np_rng d) ?a)" for a'
    using that i c by (cases "DataInfo_init default_rng a'") simp_all
  show ?thesis
  proof (cases "col_name_mapping d")
    case None
    define fs' where "fs' = fs1\<lparr>files := (files fs1)(?npz \<mapsto> NpzFile (hparams_of ?a))\<rparr>"
    have s: "save fs d path mname = (None, fs')"
      using dir None by (auto simp: save_def fs1_def fs'_def Let_def)
    have e: "path_exists fs' path"
      using fs1 by (simp add: path_exists_def fs'_def)
    have j: "files fs' ?nmp = None"
      using stale None fs1 paths_differ [of path mname] by (simp add: fs'_def)
    have z: "files fs' ?npz = Some (NpzFile (hparams_of ?a))"
      by (simp add: fs'_def)
    have "(case None of None \<Rightarrow> None | Some m \<Rightarrow> m) =
        (case arg_col_name_mapping ?a of None \<Rightarrow> None | Some m \<Rightarrow> m)"
      using m None by simp
    from load_entries_saved [OF this, where rng' = default_rng and rng = "np_rng d"] obtain a' where
      l: "load_entries no_args (hparams_of ?a) = Inr a'"
      and r: "map_sum id claimed (DataInfo_init default_rng a') =
        map_sum id claimed (DataInfo_init (np_rng d) ?a)"
      by (auto simp: no_args_def)
    from rebuilt [OF r] obtain d' where d': "DataInfo_init default_rng a' = Inr d'" "claimed d' = claimed d"
      by blast
    have "load fs' default_rng path mname = Inr d'"
      using e j z l d' by (simp add: load_def)
    with s d' show ?thesis by blast
  next
    case (Some nm)
    with m have cm: "arg_col_name_mapping ?a = Some (Some nm)"
      by (auto split: option.splits)
    define fs' where "fs' = fs1\<lparr>files := (files fs1)(?nmp \<mapsto> JsonFile (Some nm),
      ?npz \<mapsto> NpzFile (hparams_of ?a))\<rparr>"
    have s: "save fs d path mname = (None, fs')"
      using dir Some cm by (auto simp: save_def fs1_def fs'_def Let_def)
    have e: "path_exists fs' path"
      using fs1 by (simp add: path_exists_def fs'_def)
    have j: "files fs' ?nmp = Some (JsonFile (Some nm))"
      using paths_differ [of path mname] by (simp add: fs'_def)
    have z: "files fs' ?npz = Some (NpzFile (hparams_of ?a))"
      by (simp add: fs'_def)
    have "(case Some (Some nm) of None \<Rightarrow> None | Some m \<Rightarrow> m) =
        (case arg_col_name_mapping ?a of None \<Rightarrow> None | Some m \<Rightarrow> m)"
      using cm by simp
    from load_entries_saved [OF this, where rng' = default_rng and rng = "np_rng d"] obtain a' where
      l: "load_entries (no_args\<lparr>arg_col_name_mapping := Some (Some nm)\<rparr>) (hparams_of ?a) = Inr a'"
      and r: "map_sum id claimed (DataInfo_init default_rng a') =
        map_sum id claimed (DataInfo_init (np_rng d) ?a)"
      by auto
    from rebuilt [OF r] obtain d' where d': "DataInfo_init default_rng a' = Inr d'" "claimed d' = claimed d"
      by blast
    have "load fs' default_rng path mname = Inr d'"
      using e j z l d' by (simp add: load_def)
    with s d' show ?thesis by blast
  qed
qed

lemma and_then_keeps:
  assumes "P (snd r)" "\<And>s. P s \<Longrightarrow> P (snd (g s))"
  shows "P (snd (and_then r g))"
  using assms by (cases r) (auto simp: and_then_def split: option.splits)

lemma add_oov_user_sparse_args:
  "all_args (snd (add_oov_user_sparse d)) = all_args d \<and>
   col_name_mapping (snd (add_oov_user_sparse d)) = col_name_mapping d"
  by (simp add: add_oov_user_sparse_def Let_def read_n_users_def split: option.splits sum.splits)

lemma add_oov_item_sparse_args:
  "all_args (snd (add_oov_item_sparse d)) = all_args d \<and>
   col_name_mapping (snd (add_oov_item_sparse d)) = col_name_mapping d"
  by (simp add: add_oov_item_sparse_def Let_def read_n_items_def split: option.splits sum.splits)

lemma add_oov_user_dense_args:
  "all_args (snd (add_oov_user_dense d)) = all_args d \<and>
   col_name_mapping (snd (add_oov_user_dense d)) = col_name_mapping d"
  by (simp add: add_oov_user_dense_def Let_def read_n_users_def split: option.splits sum.splits)

lemma add_oov_item_dense_args:
  "all_args (snd (add_oov_item_dense d)) = all_args d \<and>
   col_name_mapping (snd (add_oov_item_dense d)) = col_name_mapping d"
  by (simp add: add_oov_item_dense_def Let_def read_n_items_def split: option.splits sum.splits)

lemma add_oov_args:
  "all_args (snd (add_oov d)) = all_args d \<and>
   col_name_mapping (snd (add_oov d)) = col_name_mapping d"
  unfolding add_oov_def
  by (intro and_then_keeps [where P = "\<lambda>s. all_args s = all_args d \<and> col_name_mapping s = col_name_mapping d"])
    (simp_all add: add_oov_user_sparse_args add_oov_item_sparse_args
      add_oov_user_dense_args add_oov_item_dense_args)

lemma add_oov_args_rule:
  "add_oov b = (e, d1) \<Longrightarrow>
   all_args d1 = all_args b \<and> col_name_mapping d1 = col_name_mapping b"
  using add_oov_args [of b] by simp

lemma set_popular_items_args:
  "set_popular_items d n = Inr d' \<Longrightarrow>
   all_args d' = all_args d \<and> col_name_mapping d' = col_name_mapping d"
  by (auto simp: set_popular_items_def Let_def split: option.splits)

lemma DataInfo_init_args:
  assumes "DataInfo_init default_rng a = Inr d"
  shows "all_args d = a\<lparr>arg_col_name_mapping :=
            Some (case arg_col_name_mapping a of None \<Rightarrow> None | Some m \<Rightarrow> m)\<rparr> \<and>
         col_name_mapping d = (case arg_col_name_mapping a of None \<Rightarrow> None | Some m \<Rightarrow> m)"
proof -
  from DataInfo_init_stages [OF assms] obtain b d1 where
    b: "all_args b = a\<lparr>arg_col_name_mapping :=
        Some (case arg_col_name_mapping a of None \<Rightarrow> None | Some m \<Rightarrow> m)\<rparr>"
    "col_name_mapping b = (case arg_col_name_mapping a of None \<Rightarrow> None | Some m \<Rightarrow> m)"
    and o: "add_oov b = (None, d1)" and p: "set_popular_items d1 100 = Inr d"
    by metis
  from add_oov_args_rule [OF o] set_popular_items_args [OF p] b show ?thesis
    by simp
qed

text \<open>An object as the constructor returns it is current.\<close>

lemma DataInfo_init_current:
  assumes "DataInfo_init default_rng a = Inr d"
  shows "saved_args_current d"
proof -
  let ?c = "Some (case arg_col_name_mapping a of None \<Rightarrow> None | Some m \<Rightarrow> m)"
  note f = DataInfo_init_args [OF assms]
  have "(case ?c of None \<Rightarrow> None | Some m \<Rightarrow> m) =
      (case arg_col_name_mapping a of None \<Rightarrow> None | Some m \<Rightarrow> m)"
    by simp
  from DataInfo_init_dicts [OF this, where X = "arg_sparse_unique_vals a"
      and Y = "arg_multi_sparse_unique_vals a" and rng' = "np_rng d" and rng = default_rng]
  have "map_sum id claimed (DataInfo_init (np_rng d) (all_args d)) = Inr (claimed d)"
    using f assms by simp
  then show ?thesis
    using f by (cases "DataInfo_init (np_rng d) (all_args d)") (simp_all add: saved_args_current_def)
qed

lemma add_oov_keeps_id2user: "cached_id2user (snd (add_oov d)) = cached_id2user d"
  unfolding add_oov_def
  by (intro and_then_keeps [where P = "\<lambda>s. cached_id2user s = cached_id2user d"])
    (simp_all add: add_oov_user_sparse_def add_oov_item_sparse_def add_oov_user_dense_def
      add_oov_item_dense_def Let_def read_n_users_def read_n_items_def
      split: option.splits sum.splits)

text \<open>On an object as the constructor returns it, \<open>id2user\<close> is computed from \<open>user2id\<close>.\<close>

lemma DataInfo_init_id2user_sound:
  assumes "DataInfo_init default_rng a = Inr d"
  shows "id2user_sound d"
proof -
  from DataInfo_init_stages [OF assms] obtain b d1 where b: "cached_id2user b = None"
    and o: "add_oov b = (None, d1)" and p: "set_popular_items d1 100 = Inr d"
    by metis
  from add_oov_keeps_id2user [of b] o b have "cached_id2user d1 = None"
    by simp
  with p have "cached_id2user d = None"
    by (auto simp: set_popular_items_def Let_def split: option.splits)
  then show ?thesis
    by (rule id2user_sound_fresh)
qed

lemma example_interaction_consumed:
  "interaction_consumed [0, 0, Suc 0] [0, Suc 0, 0] =
     ([0 \<mapsto> [0, Suc 0], Suc 0 \<mapsto> [0]], [0 \<mapsto> [0, Suc 0], Suc 0 \<mapsto> [0]])"
  by (auto simp: interaction_consumed_def fun_eq_iff Let_def)

lemma example_init: "DataInfo_init [] example_args = Inr example_info"
  by (simp add: DataInfo_init_def example_args_def example_info_def example_interaction_consumed
      add_oov_eval and_then_def Let_def read_n_users_def read_n_items_def n_users_def n_items_def
      feature_of_def example_mapping_def set_popular_items_def first_occurrences_def
      map_unique_vals_def sort_key_def insort_key_def numeral_2_eq_2 numeral_3_eq_3)

text \<open>
  Claim C4 (round trip of \<open>save\<close> and \<open>load\<close>). \<open>save\<close> writes \<open>all_args\<close>, the
  arguments the object was constructed from (or those of the last \<open>store_args\<close>), not
  the fields of the object, and \<open>load\<close> calls the constructor on what it reads. So the
  round trip holds for an object whose \<open>all_args\<close> is current (\<open>saved_args_current\<close>:
  the constructor builds the claimed fields of the object from \<open>all_args\<close>; an object as
  the constructor returns it is). For such an object, when \<open>path\<close> is a folder or can be
  created, and no name-mapping file of an earlier save lies there for an object that has
  no column-name mapping, \<open>save\<close> returns normally and \<open>load\<close> with the same path and
  model name returns an object with the same \<open>user2id\<close>, \<open>item2id\<close>, four feature
  matrices, \<open>user_consumed\<close> and \<open>item_consumed\<close>.
\<close>

theorem save_load_round_trip_of_current_args:
  assumes "saved_args_current d"
    and "col_name_mapping d = None \<longrightarrow> files fs (name_mapping_path path mname) = None"
    and "path \<in> set (dirs fs) \<or> files fs path = None"
  shows "\<exists>fs' d'. save fs d path mname = (None, fs') \<and>
           load fs' default_rng path mname = Inr d' \<and>
           user2id d' = user2id d \<and> item2id d' = item2id d \<and>
           user_sparse_unique d' = user_sparse_unique d \<and>
           user_dense_unique d' = user_dense_unique d \<and>
           item_sparse_unique d' = item_sparse_unique d \<and>
           item_dense_unique d' = item_dense_unique d \<and>
           user_consumed d' = user_consumed d \<and> item_consumed d' = item_consumed d"
  using save_load_claimed [OF assms] by (simp add: claimed_def)

text \<open>
  The example object, saved to an empty file system and loaded again: the matrices and
  the inner id of user 20 are those of the saved object.
\<close>

theorem save_load_round_trip_of_current_args_witness:
  "saved_args_current example_info \<and>
   files example_fs (name_mapping_path ''models'' ''cf'') = None \<and>
   files example_fs ''models'' = None \<and>
   fst (save example_fs example_info ''models'' ''cf'') = None \<and>
   map_sum id user_dense_unique
     (load (snd (save example_fs example_info ''models'' ''cf'')) [] ''models'' ''cf'') =
     Inr (Some (NdArray 1 [[20], [40], [30]])) \<and>
   map_sum id user_sparse_unique
     (load (snd (save example_fs example_info ''models'' ''cf'')) [] ''models'' ''cf'') =
     Inr (Some (NdArray 1 [[0], [1], [2]])) \<and>
   map_sum id (\<lambda>d. user2id d 20)
     (load (snd (save example_fs example_info ''models'' ''cf'')) [] ''models'' ''cf'') =
     Inr (user2id example_info 20)"
proof -
  have cur: "saved_args_current example_info"
    by (rule DataInfo_init_current [OF example_init])
  have fs: "files example_fs (name_mapping_path ''models'' ''cf'') = None"
    "files example_fs ''models'' = None"
    by (simp_all add: example_fs_def)
  from save_load_round_trip_of_current_args
    [where d = example_info and fs = example_fs and path = "''models''" and mname = "''cf''"
      and default_rng = "[]"]
    cur fs
  obtain fs' d' where "save example_fs example_info ''models'' ''cf'' = (None, fs')"
    "load fs' [] ''models'' ''cf'' = Inr d'" "user2id d' = user2id example_info"
    "user_sparse_unique d' = user_sparse_unique example_info"
    "user_dense_unique d' = user_dense_unique example_info"
    by auto
  moreover have "user_dense_unique example_info = Some (NdArray 1 [[20], [40], [30]])"
    "user_sparse_unique example_info = Some (NdArray 1 [[0], [1], [2]])"
    by (simp_all add: example_info_def)
  ultimately show ?thesis
    using cur fs by simp
qed

text \<open>
  Claim C4 as the spec has it, for every state, does not hold. \<open>example_assigned\<close> is
  the example object after \<open>assign_user_features\<close> gave user 20 the age 41: its dense
  matrix is the array \<open>add_oov\<close> stacked, which \<open>all_args\<close> does not hold, so the
  assignment is not in what \<open>save\<close> writes, and the loaded object has the age 40 of
  the constructor's argument.
\<close>

theorem save_load_after_assign_counterexample:
  "fst (assign_user_features example_info example_user_data) = None \<and>
   fst (save example_fs example_assigned ''models'' ''cf'') = None \<and>
   user_dense_unique example_assigned = Some (NdArray 1 [[20], [41], [30]]) \<and>
   map_sum id user_dense_unique
     (load (snd (save example_fs example_assigned ''models'' ''cf'')) [] ''models'' ''cf'') =
     Inr (Some (NdArray 1 [[20], [40], [30]])) \<and>
   map_sum id user_dense_unique
     (load (snd (save example_fs example_assigned ''models'' ''cf'')) [] ''models'' ''cf'') \<noteq>
     Inr (user_dense_unique example_assigned)"
  by code_simp

end
